theory Spec2Isabelle
  imports Main "HOL-Library.Word"
begin

section \<open>The hierarchy walk of dictGetHierarchy\<close>

text \<open>
  The source is \<^verbatim>\<open>dbms/src/Functions/FunctionsExternalDictionaries.h\<close>. Identifiers are
  \<^verbatim>\<open>UInt64\<close>, so they are 64-bit words; sizes and offsets (\<^verbatim>\<open>size_t\<close> values bounded by
  the memory that holds the arrays) are natural numbers.
\<close>

type_synonym UInt64 = "64 word"
type_synonym Key = UInt64

text \<open>
  Modelled from the spec: \<^verbatim>\<open>dict->toParent(in, out)\<close> belongs to the dictionary backends
  (\<^verbatim>\<open>Dictionaries/FlatDictionary.h\<close> and its siblings), which are not among the sources.
  The collaborator contract is \<^verbatim>\<open>toParent(id-list) -> parent-id-list\<close>: the parent relation
  \<open>parent\<close> applied to every row, the output array having the size of the input.
\<close>

definition toParent :: "(Key \<Rightarrow> Key) \<Rightarrow> Key list \<Rightarrow> Key list" where
  "toParent parent in_array = map parent in_array"

text \<open>
  The body of the inner \<^verbatim>\<open>for (const auto i : ext::range(0, size))\<close> of the lambda
  \<^verbatim>\<open>get_hierarchies\<close> (lines 1452-1470), on the state \<open>(all_zeroes, hierarchies, total_count)\<close>:
  a zero identifier is skipped, an identifier already in the row's hierarchy is skipped
  (the \<^verbatim>\<open>std::find\<close> test), any other one is appended.
\<close>

definition store_row ::
  "Key list \<Rightarrow> nat \<Rightarrow> bool \<times> Key list list \<times> nat \<Rightarrow> bool \<times> Key list list \<times> nat" where
  "store_row in_array i st =
     (case st of (all_zeroes, hierarchies, total_count) \<Rightarrow>
        let k = in_array ! i in
        if 0 = k then st
        else let hierarchy = hierarchies ! i in
          if k \<in> set hierarchy then st
          else (False, hierarchies[i := hierarchy @ [k]], total_count + 1))"

text \<open>
  The \<^verbatim>\<open>while (true)\<close> loop (lines 1447-1480). Nothing in its text bounds the number of
  rounds, so it is a partial function: \<open>None\<close> is the loop that never leaves. After the
  scan it either breaks (\<open>all_zeroes\<close>) or translates the whole of \<open>in_array\<close> with
  \<open>toParent\<close>; the \<^verbatim>\<open>std::swap\<close> makes the translated array the next round's input.
\<close>

partial_function (option) get_hierarchies_loop ::
  "(Key \<Rightarrow> Key) \<Rightarrow> nat \<Rightarrow> Key list \<Rightarrow> Key list list \<Rightarrow> nat \<Rightarrow> (Key list list \<times> nat) option" where
  "get_hierarchies_loop parent n in_array hierarchies total_count =
     (case fold (store_row in_array) [0..<n] (True, hierarchies, total_count) of
        (all_zeroes, hierarchies', total_count') \<Rightarrow>
          if all_zeroes then Some (hierarchies', total_count')
          else get_hierarchies_loop parent n (toParent parent in_array) hierarchies' total_count')"

declare get_hierarchies_loop.simps [code]

text \<open>
  The final loop (lines 1485-1490): the row's identifiers are appended to \<open>out\<close> and
  \<open>offsets[i]\<close> becomes the size of \<open>out\<close>.
\<close>

definition fill_row :: "Key list list \<Rightarrow> nat \<Rightarrow> Key list \<times> nat list \<Rightarrow> Key list \<times> nat list" where
  "fill_row hierarchies i st =
     (case st of (out, offsets) \<Rightarrow>
        let out' = out @ hierarchies ! i in (out', offsets[i := length out']))"

text \<open>
  The lambda \<^verbatim>\<open>get_hierarchies\<close> (lines 1433-1491). Both call sites pass freshly created,
  empty \<open>out\<close> and \<open>offsets\<close>; \<^verbatim>\<open>out.reserve(total_count)\<close> only allocates, and
  \<^verbatim>\<open>offsets.resize(size)\<close> gives the \<open>size\<close> cells that the final loop overwrites.
\<close>

definition get_hierarchies :: "(Key \<Rightarrow> Key) \<Rightarrow> Key list \<Rightarrow> (Key list \<times> nat list) option" where
  "get_hierarchies parent in_ids =
     (let n = length in_ids in
      case get_hierarchies_loop parent n in_ids (replicate n []) 0 of
        None \<Rightarrow> None
      | Some (hierarchies, total_count) \<Rightarrow>
          Some (fold (fill_row hierarchies) [0..<n] ([], replicate n 0)))"

subsection \<open>What the specification says about the walk\<close>

text \<open>
  The specification's walk of one identifier: append the current identifier while it is
  not the sentinel 0 and has not already appeared in the chain, then move to its parent.
  It is total because a chain without repetition cannot outgrow the 64-bit identifiers.
\<close>

function ancestor_chain :: "(Key \<Rightarrow> Key) \<Rightarrow> Key \<Rightarrow> Key list \<Rightarrow> Key list" where
  "ancestor_chain parent k acc =
     (if k = 0 \<or> k \<in> set acc then acc else ancestor_chain parent (parent k) (acc @ [k]))"
  by pat_completeness auto
termination
proof (relation "measure (\<lambda>(parent, k, acc). card (- set acc))")
  show "wf (measure (\<lambda>(parent :: Key \<Rightarrow> Key, k :: Key, acc). card (- set acc)))"
    by simp
next
  fix parent :: "Key \<Rightarrow> Key" and k :: Key and acc :: "Key list"
  assume "\<not> (k = 0 \<or> k \<in> set acc)"
  then have "- set (acc @ [k]) \<subset> - set acc" by auto
  then have "card (- set (acc @ [k])) < card (- set acc)"
    by (intro psubset_card_mono) simp_all
  then show "((parent, parent k, acc @ [k]), (parent, k, acc))
      \<in> measure (\<lambda>(parent, k, acc). card (- set acc))"
    by simp
qed

declare ancestor_chain.simps [simp del]

text \<open>
  The chain of an acyclic relation as the specification writes it,
  \<open>[id, parent(id), parent(parent(id)), ...]\<close> up to the sentinel 0; \<open>n\<close> bounds its length.
\<close>

fun chain_to_sentinel :: "nat \<Rightarrow> (Key \<Rightarrow> Key) \<Rightarrow> Key \<Rightarrow> Key list" where
  "chain_to_sentinel 0 parent k = []"
| "chain_to_sentinel (Suc n) parent k =
     (if k = 0 then [] else k # chain_to_sentinel n parent (parent k))"

text \<open>
  The walk of \<open>k\<close> is cut where the specification cuts it in two cases: the sentinel is
  its own parent (a finished row stays finished), or the walk of \<open>k\<close> is cut by a repeated
  identifier (the parent of the last identifier of the chain is not the sentinel).
\<close>

definition cut_by_repeat_or_fixed_sentinel :: "(Key \<Rightarrow> Key) \<Rightarrow> Key \<Rightarrow> bool" where
  "cut_by_repeat_or_fixed_sentinel parent k =
     (parent 0 = 0 \<or>
      (let t = ancestor_chain parent k [] in t \<noteq> [] \<and> parent (last t) \<noteq> 0))"

text \<open>
  The array-of-arrays flattening: the offsets are the cumulative ends of the rows.
\<close>

definition chain_ends :: "'a list list \<Rightarrow> nat list" where
  "chain_ends hs = map (\<lambda>i. length (concat (take (Suc i) hs))) [0..<length hs]"

text \<open>
  Modelled from the spec: \<^verbatim>\<open>ColumnArray\<close> (\<^verbatim>\<open>Columns/ColumnArray.h\<close>) is not among the
  sources. The specification's ``flat output buffer plus an offsets array marking each
  row's chain end'' makes row \<open>i\<close> the slice of the data from the end of row \<open>i - 1\<close>
  (0 for the first row) to \<open>offsets[i]\<close>.
\<close>

definition array_row :: "'a list \<Rightarrow> nat list \<Rightarrow> nat \<Rightarrow> 'a list" where
  "array_row data offsets i =
     (let b = (if i = 0 then 0 else offsets ! (i - 1))
      in take (offsets ! i - b) (drop b data))"

text \<open>Two parent relations of the specification's examples.\<close>

definition two_cycle :: "Key \<Rightarrow> Key" where
  "two_cycle k = (if k = 5 then 7 else if k = 7 then 5 else 0)"

definition geo :: "Key \<Rightarrow> Key" where
  "geo k = (if k = 100 then 10 else if k = 10 then 1 else 0)"

text \<open>
  A relation whose sentinel has a parent: 0 is the parent of 1 and of 3, 1 the parent
  of 2, and 3 the parent of 0.
\<close>

definition sentinel_with_parent :: "Key \<Rightarrow> Key" where
  "sentinel_with_parent k = (if k = 2 then 1 else if k = 0 then 3 else 0)"

section \<open>The function layer: data model\<close>

text \<open>
  Every \<^verbatim>\<open>throw Exception{message, code}\<close> of the file is a value \<open>Exception message code\<close>
  on the left of a sum. \<open>NullPointerDereference\<close> is the call through the pointer \<^verbatim>\<open>impl\<close>
  of the type-erased functions before anything has set it, and \<open>NoReturn\<close> is a hierarchy
  walk that never leaves its loop.
\<close>

datatype ErrorCode =
    ILLEGAL_COLUMN | ILLEGAL_TYPE_OF_ARGUMENT | UNKNOWN_TYPE | UNSUPPORTED_METHOD
  | NUMBER_OF_ARGUMENTS_DOESNT_MATCH | TYPE_MISMATCH | BAD_ARGUMENTS
  | DICTIONARIES_WAS_NOT_LOADED | NOT_IMPLEMENTED | BAD_CAST

datatype Failure = Exception string ErrorCode | NullPointerDereference | NoReturn

text \<open>
  Modelled from the spec: the query type system (\<^verbatim>\<open>DataTypes/*.h\<close>) is not among the sources;
  the layer consumes it as a given interface. The types are the thirteen numeric and
  temporal attribute types, the strings, and the arrays and tuples that keys and results
  need; a type's \<^verbatim>\<open>TypeIndex\<close> is its constructor.
\<close>

datatype DataType =
    DataTypeUInt8 | DataTypeUInt16 | DataTypeUInt32 | DataTypeUInt64
  | DataTypeInt8 | DataTypeInt16 | DataTypeInt32 | DataTypeInt64
  | DataTypeFloat32 | DataTypeFloat64
  | DataTypeDate | DataTypeDateTime | DataTypeUUID
  | DataTypeString | DataTypeFixedString nat
  | DataTypeArray DataType | DataTypeTuple "DataType list"

text \<open>
  Modelled from the spec: column storage (\<^verbatim>\<open>Columns/*.h\<close>) is not among the sources either.
  \<open>ColumnVector T xs\<close> is \<^verbatim>\<open>ColumnVector<T>\<close> with the stored numbers \<open>xs\<close> (an integer for an
  integer type, and whatever stands for the value of a floating-point type: the layer only
  copies such values); a \<^verbatim>\<open>UInt64\<close> identifier is read from it modulo \<open>2^64\<close>.
  \<open>ColumnConst d s\<close> is a constant column: the nested data column \<open>d\<close>, which holds the one
  value, and the number of rows \<open>s\<close>.
\<close>

datatype NumberType =
    TUInt8 | TUInt16 | TUInt32 | TUInt64 | TUInt128
  | TInt8 | TInt16 | TInt32 | TInt64 | TFloat32 | TFloat64

datatype Column =
    ColumnVector NumberType "int list"
  | ColumnString "string list"
  | ColumnFixedString nat "string list"
  | ColumnConst Column nat
  | ColumnTuple "Column list"
  | ColumnArray Column "nat list"

text \<open>
  \<^verbatim>\<open>executeImpl(block, arguments, result, input_rows_count)\<close> reads the block only at the
  positions \<^verbatim>\<open>arguments[i]\<close> and writes it only at \<^verbatim>\<open>result\<close>. In the model \<open>arguments\<close> is the
  list of the entries \<^verbatim>\<open>block.getByPosition(arguments[i])\<close>, \<open>result_type\<close> is
  \<^verbatim>\<open>block.getByPosition(result).type\<close>, and the value returned is the column assigned to
  \<^verbatim>\<open>block.getByPosition(result).column\<close>. The framework checks the number of arguments
  against \<^verbatim>\<open>getNumberOfArguments\<close> before it calls, so the positions a function reads exist.
\<close>

record ColumnWithTypeAndName =
  column :: Column
  data_type :: DataType

text \<open>
  The types of \<^verbatim>\<open>FOR_DICT_TYPES\<close> (lines 1148-1161): the template parameter of
  \<^verbatim>\<open>FunctionDictGet\<close> and \<^verbatim>\<open>FunctionDictGetOrDefault\<close>.
\<close>

datatype DictType =
    UInt8 | UInt16 | UInt32 | UInt64 | Int8 | Int16 | Int32 | Int64
  | Float32 | Float64 | Date | DateTime | UUID

text \<open>
  The concrete class of a dictionary, which \<^verbatim>\<open>typeid_cast\<close> tests; \<open>OtherDictionary\<close> is any
  implementation of \<^verbatim>\<open>IDictionaryBase\<close> that the file does not probe.
\<close>

datatype DictionaryType =
    FlatDictionary | HashedDictionary | CacheDictionary
  | ComplexKeyHashedDictionary | ComplexKeyCacheDictionary | TrieDictionary
  | RangeHashedDictionary | OtherDictionary

text \<open>
  Modelled from the spec: the backends (\<^verbatim>\<open>Dictionaries/*.h\<close>) are not among the sources. A
  dictionary handle exposes its type name, its key description, its attribute structure
  (the ordered list of names and declared types), the hierarchy capability flag, and the
  lookups of the collaborator contract: existence, typed get, parent, ancestor test, with
  the composite-key and range analogs, which take whole columns.
\<close>

record Dictionary =
  dynamic_type :: DictionaryType
  getTypeName :: string
  getKeyDescription :: string
  hasHierarchy :: bool
  attributes :: "(string \<times> DataType) list"
  has_key :: "Key \<Rightarrow> bool"
  get_number :: "NumberType \<Rightarrow> string \<Rightarrow> Key \<Rightarrow> int"
  get_string :: "string \<Rightarrow> Key \<Rightarrow> string"
  parent_of :: "Key \<Rightarrow> Key"
  is_in :: "Key \<Rightarrow> Key \<Rightarrow> bool"
  complex_has :: "Column list \<Rightarrow> DataType list \<Rightarrow> int list"
  complex_get_number :: "NumberType \<Rightarrow> string \<Rightarrow> Column list \<Rightarrow> DataType list \<Rightarrow> int list"
  complex_get_string :: "string \<Rightarrow> Column list \<Rightarrow> DataType list \<Rightarrow> string list"
  complex_get_number_or_default ::
    "NumberType \<Rightarrow> string \<Rightarrow> Column list \<Rightarrow> DataType list \<Rightarrow> int list + int \<Rightarrow> int list"
  complex_get_string_or_default ::
    "string \<Rightarrow> Column list \<Rightarrow> DataType list \<Rightarrow> string list + string \<Rightarrow> string list"
  range_get_number :: "NumberType \<Rightarrow> string \<Rightarrow> Key list \<Rightarrow> int list \<Rightarrow> int list"
  range_get_string :: "string \<Rightarrow> Key list \<Rightarrow> int list \<Rightarrow> string list"

text \<open>
  The registry \<^verbatim>\<open>ExternalDictionaries\<close>: the loaded dictionaries by name.
\<close>

type_synonym ExternalDictionaries = "string \<Rightarrow> Dictionary option"

text \<open>
  The typed functions that the type-erased ones keep in \<^verbatim>\<open>impl\<close>.
\<close>

datatype IFunction =
    FunctionDictGetString | FunctionDictGet DictType
  | FunctionDictGetStringOrDefault | FunctionDictGetOrDefault DictType

section \<open>Columns and types: the interfaces consumed by the layer\<close>

text \<open>
  Modelled from the spec: names and sizes of types and columns, the casts of
  \<^verbatim>\<open>Functions/FunctionHelpers.h\<close> and \<^verbatim>\<open>Common/typeid_cast.h\<close>, and the column operations
  that the file calls are declared outside the sources. They follow the interfaces that
  the specification takes as given: a cast succeeds on exactly the named column class, a
  constant column is recognised by the class of its nested data column, and
  \<^verbatim>\<open>createColumn\<close> gives the empty column of a type.
\<close>

function toString :: "nat \<Rightarrow> string" where
  "toString n =
     (if n < 10 then [char_of (48 + n)] else toString (n div 10) @ [char_of (48 + n mod 10)])"
  by pat_completeness auto
termination
  by (relation "measure (\<lambda>n. n)") auto

declare toString.simps [simp del]

fun intercalate :: "string \<Rightarrow> string list \<Rightarrow> string" where
  "intercalate sep [] = []"
| "intercalate sep [x] = x"
| "intercalate sep (x # y # ys) = x @ sep @ intercalate sep (y # ys)"

fun DataType_getName :: "DataType \<Rightarrow> string" where
  "DataType_getName DataTypeUInt8 = ''UInt8''"
| "DataType_getName DataTypeUInt16 = ''UInt16''"
| "DataType_getName DataTypeUInt32 = ''UInt32''"
| "DataType_getName DataTypeUInt64 = ''UInt64''"
| "DataType_getName DataTypeInt8 = ''Int8''"
| "DataType_getName DataTypeInt16 = ''Int16''"
| "DataType_getName DataTypeInt32 = ''Int32''"
| "DataType_getName DataTypeInt64 = ''Int64''"
| "DataType_getName DataTypeFloat32 = ''Float32''"
| "DataType_getName DataTypeFloat64 = ''Float64''"
| "DataType_getName DataTypeDate = ''Date''"
| "DataType_getName DataTypeDateTime = ''DateTime''"
| "DataType_getName DataTypeUUID = ''UUID''"
| "DataType_getName DataTypeString = ''String''"
| "DataType_getName (DataTypeFixedString n) = ''FixedString('' @ toString n @ '')''"
| "DataType_getName (DataTypeArray t) = ''Array('' @ DataType_getName t @ '')''"
| "DataType_getName (DataTypeTuple ts) =
     ''Tuple('' @ intercalate '', '' (map DataType_getName ts) @ '')''"

fun isString :: "DataType \<Rightarrow> bool" where
  "isString DataTypeString = True"
| "isString _ = False"

fun isUInt64 :: "DataType \<Rightarrow> bool" where
  "isUInt64 DataTypeUInt64 = True"
| "isUInt64 _ = False"

fun isTuple :: "DataType \<Rightarrow> bool" where
  "isTuple (DataTypeTuple ts) = True"
| "isTuple _ = False"

fun isValueRepresentedByInteger :: "DataType \<Rightarrow> bool" where
  "isValueRepresentedByInteger DataTypeUInt8 = True"
| "isValueRepresentedByInteger DataTypeUInt16 = True"
| "isValueRepresentedByInteger DataTypeUInt32 = True"
| "isValueRepresentedByInteger DataTypeUInt64 = True"
| "isValueRepresentedByInteger DataTypeInt8 = True"
| "isValueRepresentedByInteger DataTypeInt16 = True"
| "isValueRepresentedByInteger DataTypeInt32 = True"
| "isValueRepresentedByInteger DataTypeInt64 = True"
| "isValueRepresentedByInteger DataTypeDate = True"
| "isValueRepresentedByInteger DataTypeDateTime = True"
| "isValueRepresentedByInteger _ = False"

fun getSizeOfValueInMemory :: "DataType \<Rightarrow> nat" where
  "getSizeOfValueInMemory DataTypeUInt8 = 1"
| "getSizeOfValueInMemory DataTypeUInt16 = 2"
| "getSizeOfValueInMemory DataTypeUInt32 = 4"
| "getSizeOfValueInMemory DataTypeUInt64 = 8"
| "getSizeOfValueInMemory DataTypeInt8 = 1"
| "getSizeOfValueInMemory DataTypeInt16 = 2"
| "getSizeOfValueInMemory DataTypeInt32 = 4"
| "getSizeOfValueInMemory DataTypeInt64 = 8"
| "getSizeOfValueInMemory DataTypeFloat32 = 4"
| "getSizeOfValueInMemory DataTypeFloat64 = 8"
| "getSizeOfValueInMemory DataTypeDate = 2"
| "getSizeOfValueInMemory DataTypeDateTime = 4"
| "getSizeOfValueInMemory DataTypeUUID = 16"
| "getSizeOfValueInMemory (DataTypeFixedString n) = n"
| "getSizeOfValueInMemory _ = 0"

fun createColumn :: "DataType \<Rightarrow> Column" where
  "createColumn DataTypeUInt8 = ColumnVector TUInt8 []"
| "createColumn DataTypeUInt16 = ColumnVector TUInt16 []"
| "createColumn DataTypeUInt32 = ColumnVector TUInt32 []"
| "createColumn DataTypeUInt64 = ColumnVector TUInt64 []"
| "createColumn DataTypeInt8 = ColumnVector TInt8 []"
| "createColumn DataTypeInt16 = ColumnVector TInt16 []"
| "createColumn DataTypeInt32 = ColumnVector TInt32 []"
| "createColumn DataTypeInt64 = ColumnVector TInt64 []"
| "createColumn DataTypeFloat32 = ColumnVector TFloat32 []"
| "createColumn DataTypeFloat64 = ColumnVector TFloat64 []"
| "createColumn DataTypeDate = ColumnVector TUInt16 []"
| "createColumn DataTypeDateTime = ColumnVector TUInt32 []"
| "createColumn DataTypeUUID = ColumnVector TUInt128 []"
| "createColumn DataTypeString = ColumnString []"
| "createColumn (DataTypeFixedString n) = ColumnFixedString n []"
| "createColumn (DataTypeArray t) = ColumnArray (createColumn t) []"
| "createColumn (DataTypeTuple ts) = ColumnTuple (map createColumn ts)"

fun Column_size :: "Column \<Rightarrow> nat" where
  "Column_size (ColumnVector T xs) = length xs"
| "Column_size (ColumnString xs) = length xs"
| "Column_size (ColumnFixedString n xs) = length xs"
| "Column_size (ColumnConst d s) = s"
| "Column_size (ColumnTuple []) = 0"
| "Column_size (ColumnTuple (c # cs)) = Column_size c"
| "Column_size (ColumnArray d offsets) = length offsets"

fun Column_getName :: "Column \<Rightarrow> string" where
  "Column_getName (ColumnVector T xs) =
     (case T of TUInt8 \<Rightarrow> ''UInt8'' | TUInt16 \<Rightarrow> ''UInt16'' | TUInt32 \<Rightarrow> ''UInt32''
      | TUInt64 \<Rightarrow> ''UInt64'' | TUInt128 \<Rightarrow> ''UInt128'' | TInt8 \<Rightarrow> ''Int8''
      | TInt16 \<Rightarrow> ''Int16'' | TInt32 \<Rightarrow> ''Int32'' | TInt64 \<Rightarrow> ''Int64''
      | TFloat32 \<Rightarrow> ''Float32'' | TFloat64 \<Rightarrow> ''Float64'')"
| "Column_getName (ColumnString xs) = ''String''"
| "Column_getName (ColumnFixedString n xs) = ''FixedString('' @ toString n @ '')''"
| "Column_getName (ColumnConst d s) = ''Const('' @ Column_getName d @ '')''"
| "Column_getName (ColumnTuple cs) = ''Tuple('' @ intercalate '', '' (map Column_getName cs) @ '')''"
| "Column_getName (ColumnArray d offsets) = ''Array('' @ Column_getName d @ '')''"

definition checkAndGetColumnVector :: "NumberType \<Rightarrow> Column \<Rightarrow> int list option" where
  "checkAndGetColumnVector T c =
     (case c of ColumnVector T' xs \<Rightarrow> if T' = T then Some xs else None | _ \<Rightarrow> None)"

definition checkAndGetColumnString :: "Column \<Rightarrow> string list option" where
  "checkAndGetColumnString c = (case c of ColumnString xs \<Rightarrow> Some xs | _ \<Rightarrow> None)"

definition checkAndGetColumnTuple :: "Column \<Rightarrow> Column list option" where
  "checkAndGetColumnTuple c = (case c of ColumnTuple cs \<Rightarrow> Some cs | _ \<Rightarrow> None)"

definition checkAndGetColumnConstVector :: "NumberType \<Rightarrow> Column \<Rightarrow> (int \<times> nat) option" where
  "checkAndGetColumnConstVector T c =
     (case c of
        ColumnConst d s \<Rightarrow>
          (case d of
             ColumnVector T' xs \<Rightarrow>
               (case xs of [v] \<Rightarrow> if T' = T then Some (v, s) else None | _ \<Rightarrow> None)
           | _ \<Rightarrow> None)
      | _ \<Rightarrow> None)"

definition checkAndGetColumnConstString :: "Column \<Rightarrow> (string \<times> nat) option" where
  "checkAndGetColumnConstString c =
     (case c of
        ColumnConst d s \<Rightarrow>
          (case d of
             ColumnString xs \<Rightarrow> (case xs of [v] \<Rightarrow> Some (v, s) | _ \<Rightarrow> None)
           | _ \<Rightarrow> None)
      | _ \<Rightarrow> None)"

definition checkAndGetColumnConstStringOrFixedString :: "Column \<Rightarrow> (string \<times> nat) option" where
  "checkAndGetColumnConstStringOrFixedString c =
     (case c of
        ColumnConst d s \<Rightarrow>
          (case d of
             ColumnString xs \<Rightarrow> (case xs of [v] \<Rightarrow> Some (v, s) | _ \<Rightarrow> None)
           | ColumnFixedString n xs \<Rightarrow> (case xs of [v] \<Rightarrow> Some (v, s) | _ \<Rightarrow> None)
           | _ \<Rightarrow> None)
      | _ \<Rightarrow> None)"

definition checkAndGetColumnConstData :: "NumberType \<Rightarrow> Column \<Rightarrow> int list option" where
  "checkAndGetColumnConstData T c =
     (case c of ColumnConst d s \<Rightarrow> checkAndGetColumnVector T d | _ \<Rightarrow> None)"

text \<open>
  Modelled from the spec: ``constant key columns are first converted to full (non-constant)
  columns''; \<^verbatim>\<open>convertToFullColumnIfConst\<close> returns no column for a column that is not
  constant.
\<close>

fun replicate_rows :: "nat \<Rightarrow> Column \<Rightarrow> Column" where
  "replicate_rows s (ColumnVector T xs) = ColumnVector T (concat (replicate s xs))"
| "replicate_rows s (ColumnString xs) = ColumnString (concat (replicate s xs))"
| "replicate_rows s (ColumnFixedString n xs) = ColumnFixedString n (concat (replicate s xs))"
| "replicate_rows s (ColumnConst d n) = ColumnConst d n"
| "replicate_rows s (ColumnTuple cs) = ColumnTuple (map (replicate_rows s) cs)"
| "replicate_rows s (ColumnArray d offsets) =
     ColumnArray (replicate_rows s d)
       (concat (map (\<lambda>j. map (\<lambda>off. j * last offsets + off) offsets) [0..<s]))"

definition convertToFullColumnIfConst :: "Column \<Rightarrow> Column option" where
  "convertToFullColumnIfConst c =
     (case c of ColumnConst d s \<Rightarrow> Some (replicate_rows s d) | _ \<Rightarrow> None)"

definition UInt64_data :: "int list \<Rightarrow> Key list" where
  "UInt64_data xs = map word_of_int xs"

text \<open>
  Modelled from the spec: \<^verbatim>\<open>IColumn::getUInt\<close>, ``the column's generic numeric-extraction
  accessor'': the stored number as \<^verbatim>\<open>UInt64\<close>, for a constant column the number of its data
  column, and an exception for a column that holds no numbers. \<open>from_UInt64\<close> is the
  conversion of the assignment \<^verbatim>\<open>backup_storage[i] = column.getUInt(i)\<close>.
\<close>

fun getUInt :: "Column \<Rightarrow> nat \<Rightarrow> Failure + UInt64" where
  "getUInt (ColumnVector T xs) i = Inr (word_of_int (xs ! i))"
| "getUInt (ColumnConst d s) i = getUInt d 0"
| "getUInt c i =
     Inl (Exception (''Method getUInt is not supported for '' @ Column_getName c) NOT_IMPLEMENTED)"

fun from_UInt64 :: "NumberType \<Rightarrow> UInt64 \<Rightarrow> int" where
  "from_UInt64 TUInt8 u = uint u mod 2 ^ 8"
| "from_UInt64 TUInt16 u = uint u mod 2 ^ 16"
| "from_UInt64 TUInt32 u = uint u mod 2 ^ 32"
| "from_UInt64 TUInt64 u = uint u"
| "from_UInt64 TUInt128 u = uint u"
| "from_UInt64 TInt8 u = sint (ucast u :: 8 word)"
| "from_UInt64 TInt16 u = sint (ucast u :: 16 word)"
| "from_UInt64 TInt32 u = sint (ucast u :: 32 word)"
| "from_UInt64 TInt64 u = sint u"
| "from_UInt64 TFloat32 u = uint u"
| "from_UInt64 TFloat64 u = uint u"

fun collect :: "(nat \<Rightarrow> Failure + 'a) \<Rightarrow> nat list \<Rightarrow> Failure + 'a list" where
  "collect f [] = Inr []"
| "collect f (i # rest) =
     (case f i of
        Inl e \<Rightarrow> Inl e
      | Inr v \<Rightarrow> (case collect f rest of Inl e \<Rightarrow> Inl e | Inr vs \<Rightarrow> Inr (v # vs)))"

text \<open>
  \<^verbatim>\<open>getColumnDataAsPaddedPODArray<T>\<close> (lines 1683-1702). The first two branches return the
  data of the column itself and the data of the nested column of a constant column; the
  last one fills the backup storage, \<open>Column_size col\<close> cells, in the order of the rows.
\<close>

definition getColumnDataAsPaddedPODArray :: "NumberType \<Rightarrow> Column \<Rightarrow> Failure + int list" where
  "getColumnDataAsPaddedPODArray T col =
     (case checkAndGetColumnVector T col of
        Some data \<Rightarrow> Inr data
      | None \<Rightarrow>
          (case checkAndGetColumnConstData T col of
             Some data \<Rightarrow> Inr data
           | None \<Rightarrow>
               (let n = Column_size col in
                collect (\<lambda>i. case getUInt col i of
                                 Inl e \<Rightarrow> Inl e
                               | Inr u \<Rightarrow> Inr (from_UInt64 T u)) [0..<n])))"

section \<open>The dictionary registry and the backends\<close>

text \<open>
  Modelled from the spec: \<^verbatim>\<open>ExternalDictionaries::getDictionary\<close> is the registry
  collaborator; ``a dictionary not yet loaded causes the dictionary-resolution step to
  fail'' (\<open>DictionaryUnavailable\<close>), and the failure is surfaced unchanged.
\<close>

definition getDictionary :: "ExternalDictionaries \<Rightarrow> string \<Rightarrow> Failure + Dictionary" where
  "getDictionary dictionaries dict_name =
     (case dictionaries dict_name of
        None \<Rightarrow> Inl (Exception dict_name DICTIONARIES_WAS_NOT_LOADED)
      | Some dict \<Rightarrow> Inr dict)"

text \<open>
  Modelled from the spec: the batch accessors of the scalar-keyed backends, from the
  collaborator contract \<^verbatim>\<open>has(id-list) -> bool-list\<close>, \<^verbatim>\<open>get<T>(attrName, id-list) -> T-list\<close>
  and \<^verbatim>\<open>get<T>(attrName, id-list, default-list-or-scalar) -> T-list\<close>, where ``the backend
  performs the check and substitute internally'': row by row, the value of a present key
  and the default of an absent one. The four shapes of the ancestor test are the same
  test on vectors and constants.
\<close>

definition Dictionary_has :: "Dictionary \<Rightarrow> Key list \<Rightarrow> int list" where
  "Dictionary_has dict ids = map (\<lambda>k. if has_key dict k then 1 else 0) ids"

definition Dictionary_get :: "Dictionary \<Rightarrow> NumberType \<Rightarrow> string \<Rightarrow> Key list \<Rightarrow> int list" where
  "Dictionary_get dict T attr_name ids = map (get_number dict T attr_name) ids"

definition Dictionary_getOrDefault ::
  "Dictionary \<Rightarrow> NumberType \<Rightarrow> string \<Rightarrow> Key list \<Rightarrow> int list + int \<Rightarrow> int list" where
  "Dictionary_getOrDefault dict T attr_name ids def =
     (case def of
        Inl defs \<Rightarrow>
          map2 (\<lambda>k d. if has_key dict k then get_number dict T attr_name k else d) ids defs
      | Inr d \<Rightarrow> map (\<lambda>k. if has_key dict k then get_number dict T attr_name k else d) ids)"

definition Dictionary_getString :: "Dictionary \<Rightarrow> string \<Rightarrow> Key list \<Rightarrow> string list" where
  "Dictionary_getString dict attr_name ids = map (get_string dict attr_name) ids"

definition Dictionary_getStringOrDefault ::
  "Dictionary \<Rightarrow> string \<Rightarrow> Key list \<Rightarrow> string list + string \<Rightarrow> string list" where
  "Dictionary_getStringOrDefault dict attr_name ids def =
     (case def of
        Inl defs \<Rightarrow> map2 (\<lambda>k d. if has_key dict k then get_string dict attr_name k else d) ids defs
      | Inr d \<Rightarrow> map (\<lambda>k. if has_key dict k then get_string dict attr_name k else d) ids)"

definition isInVectorVector :: "Dictionary \<Rightarrow> Key list \<Rightarrow> Key list \<Rightarrow> int list" where
  "isInVectorVector dict child_ids ancestor_ids =
     map2 (\<lambda>c a. if is_in dict c a then 1 else 0) child_ids ancestor_ids"

definition isInVectorConstant :: "Dictionary \<Rightarrow> Key list \<Rightarrow> Key \<Rightarrow> int list" where
  "isInVectorConstant dict child_ids ancestor_id =
     map (\<lambda>c. if is_in dict c ancestor_id then 1 else 0) child_ids"

definition isInConstantVector :: "Dictionary \<Rightarrow> Key \<Rightarrow> Key list \<Rightarrow> int list" where
  "isInConstantVector dict child_id ancestor_ids =
     map (\<lambda>a. if is_in dict child_id a then 1 else 0) ancestor_ids"

definition isInConstantConstant :: "Dictionary \<Rightarrow> Key \<Rightarrow> Key \<Rightarrow> int" where
  "isInConstantConstant dict child_id ancestor_id = (if is_in dict child_id ancestor_id then 1 else 0)"

fun getElements :: "DataType \<Rightarrow> DataType list" where
  "getElements (DataTypeTuple ts) = ts"
| "getElements _ = []"

section \<open>Dispatch over the backend kinds\<close>

text \<open>
  The condition \<^verbatim>\<open>!executeDispatch<A>(...) && !executeDispatch<B>(...) && ...\<close> followed by
  \<^verbatim>\<open>throw\<close>: a probe returns \<open>Inr None\<close> for \<^verbatim>\<open>false\<close>, \<open>Inr (Some column)\<close> for \<^verbatim>\<open>true\<close>
  with the result column it stored, or throws. \<open>or_else\<close> evaluates its second probe only
  when the first returned \<^verbatim>\<open>false\<close>, and \<open>or_throw\<close> throws when every probe did.
\<close>

definition or_else :: "Failure + 'a option \<Rightarrow> Failure + 'a option \<Rightarrow> Failure + 'a option" where
  "or_else a b = (case a of Inr None \<Rightarrow> b | _ \<Rightarrow> a)"

definition or_throw :: "Failure + 'a option \<Rightarrow> Failure \<Rightarrow> Failure + 'a" where
  "or_throw a e = (case a of Inl x \<Rightarrow> Inl x | Inr None \<Rightarrow> Inl e | Inr (Some c) \<Rightarrow> Inr c)"

text \<open>
  The text that every \<^verbatim>\<open>executeImpl\<close> of the typed functions repeats (lines 100-130,
  273-297, 453-476, 731-755, 951-974, 1400-1420, 1560-1580), with the function's name and
  its chain of probes as parameters: the dictionary name must be a constant string
  column, a block of zero rows returns \<^verbatim>\<open>elem.type->createColumn()\<close> before the registry is
  asked, and otherwise the dictionary is resolved and the probes are tried.
\<close>

definition executeImpl_resolved ::
  "string \<Rightarrow> ExternalDictionaries \<Rightarrow> ColumnWithTypeAndName list \<Rightarrow> DataType \<Rightarrow> nat \<Rightarrow>
   (Dictionary \<Rightarrow> Failure + Column option) \<Rightarrow> Failure + Column" where
  "executeImpl_resolved name dictionaries arguments result_type input_rows_count dispatch =
     (case checkAndGetColumnConstString (column (arguments ! 0)) of
        None \<Rightarrow>
          Inl (Exception (''First argument of function '' @ name @ '' must be a constant string'')
                 ILLEGAL_COLUMN)
      | Some (dict_name, s) \<Rightarrow>
          if input_rows_count = 0 then Inr (createColumn result_type)
          else (case getDictionary dictionaries dict_name of
                  Inl e \<Rightarrow> Inl e
                | Inr dict \<Rightarrow>
                    or_throw (dispatch dict)
                      (Exception (''Unsupported dictionary type '' @ getTypeName dict) UNKNOWN_TYPE)))"

definition illegal_type :: "DataType \<Rightarrow> string \<Rightarrow> string \<Rightarrow> string \<Rightarrow> Failure" where
  "illegal_type t position name expected =
     Exception (''Illegal type '' @ DataType_getName t @ '' of '' @ position @
                '' argument of function '' @ name @ expected) ILLEGAL_TYPE_OF_ARGUMENT"

definition get_attr_name :: "string \<Rightarrow> ColumnWithTypeAndName list \<Rightarrow> Failure + string" where
  "get_attr_name name arguments =
     (case checkAndGetColumnConstString (column (arguments ! 1)) of
        None \<Rightarrow>
          Inl (Exception (''Second argument of function '' @ name @ '' must be a constant string'')
                 ILLEGAL_COLUMN)
      | Some (attr_name, s) \<Rightarrow> Inr attr_name)"

section \<open>dictHas\<close>

text \<open>
  \<^verbatim>\<open>FunctionDictHas\<close> (lines 64-182).
\<close>

definition FunctionDictHas_getReturnTypeImpl :: "DataType list \<Rightarrow> Failure + DataType" where
  "FunctionDictHas_getReturnTypeImpl arguments =
     (if \<not> isString (arguments ! 0) then
        Inl (illegal_type (arguments ! 0) ''first'' ''dictHas'' '', expected a string.'')
      else if \<not> isUInt64 (arguments ! 1) \<and> \<not> isTuple (arguments ! 1) then
        Inl (illegal_type (arguments ! 1) ''second'' ''dictHas'' '', must be UInt64 or tuple(...).'')
      else Inr DataTypeUInt8)"




section \<open>dictGetString\<close>

text \<open>
  \<^verbatim>\<open>FunctionDictGetString\<close> (lines 209-404). Its scalar probe knows only the vector
  identifier column.
\<close>

definition arguments_count_message :: "string \<Rightarrow> Dictionary \<Rightarrow> string \<Rightarrow> Failure" where
  "arguments_count_message name dict tail =
     Exception (''Function '' @ name @ '' for dictionary of type '' @ getTypeName dict @ tail)
       NUMBER_OF_ARGUMENTS_DOESNT_MATCH"

definition FunctionDictGetString_getReturnTypeImpl :: "DataType list \<Rightarrow> Failure + DataType" where
  "FunctionDictGetString_getReturnTypeImpl arguments =
     (if length arguments \<noteq> 3 \<and> length arguments \<noteq> 4 then
        Inl (Exception (''Number of arguments for function dictGetString doesn'' @ [CHR 0x27] @
               ''t match: passed '' @ toString (length arguments) @ '', should be 3 or 4.'')
               NUMBER_OF_ARGUMENTS_DOESNT_MATCH)
      else if \<not> isString (arguments ! 0) then
        Inl (illegal_type (arguments ! 0) ''first'' ''dictGetString'' '', expected a string.'')
      else if \<not> isString (arguments ! 1) then
        Inl (illegal_type (arguments ! 1) ''second'' ''dictGetString'' '', expected a string.'')
      else if \<not> isUInt64 (arguments ! 2) \<and> \<not> isTuple (arguments ! 2) then
        Inl (illegal_type (arguments ! 2) ''third'' ''dictGetString''
               '', must be UInt64 or tuple(...).'')
      else if length arguments = 4 \<and> \<not> isValueRepresentedByInteger (arguments ! 3) then
        Inl (Exception (''Illegal type '' @ DataType_getName (arguments ! 3) @
               '' of fourth argument of function dictGetString must be convertible to Int64.'')
               ILLEGAL_COLUMN)
      else Inr DataTypeString)"

definition FunctionDictGetString_executeDispatch ::
  "DictionaryType \<Rightarrow> ColumnWithTypeAndName list \<Rightarrow> Dictionary \<Rightarrow> Failure + Column option" where
  "FunctionDictGetString_executeDispatch K arguments dictionary =
     (if dynamic_type dictionary \<noteq> K then Inr None
      else if length arguments \<noteq> 3 then
        Inl (arguments_count_message ''dictGetString'' dictionary '' requires exactly 3 arguments'')
      else case get_attr_name ''dictGetString'' arguments of
        Inl e \<Rightarrow> Inl e
      | Inr attr_name \<Rightarrow>
          (case checkAndGetColumnVector TUInt64 (column (arguments ! 2)) of
             Some ids \<Rightarrow>
               Inr (Some (ColumnString (Dictionary_getString dictionary attr_name (UInt64_data ids))))
           | None \<Rightarrow>
               Inl (Exception ''Third argument of function dictGetString must be UInt64''
                      ILLEGAL_COLUMN)))"

definition full_key_column :: "ColumnWithTypeAndName \<Rightarrow> Column" where
  "full_key_column key_col_with_type =
     (case convertToFullColumnIfConst (column key_col_with_type) of
        Some key_col_materialized \<Rightarrow> key_col_materialized
      | None \<Rightarrow> column key_col_with_type)"

definition FunctionDictGetString_executeDispatchComplex ::
  "DictionaryType \<Rightarrow> ColumnWithTypeAndName list \<Rightarrow> Dictionary \<Rightarrow> Failure + Column option" where
  "FunctionDictGetString_executeDispatchComplex K arguments dictionary =
     (if dynamic_type dictionary \<noteq> K then Inr None
      else if length arguments \<noteq> 3 then
        Inl (arguments_count_message ''dictGetString'' dictionary '' requires exactly 3 arguments'')
      else case get_attr_name ''dictGetString'' arguments of
        Inl e \<Rightarrow> Inl e
      | Inr attr_name \<Rightarrow>
          (let key_col_with_type = arguments ! 2;
               key_col = full_key_column key_col_with_type
           in case checkAndGetColumnTuple key_col of
                Some key_columns \<Rightarrow>
                  Inr (Some (ColumnString (complex_get_string dictionary attr_name key_columns
                    (getElements (data_type key_col_with_type)))))
              | None \<Rightarrow>
                  Inl (Exception (''Third argument of function dictGetString must be '' @
                         getKeyDescription dictionary) TYPE_MISMATCH)))"

definition FunctionDictGetString_executeDispatchRange ::
  "DictionaryType \<Rightarrow> ColumnWithTypeAndName list \<Rightarrow> Dictionary \<Rightarrow> Failure + Column option" where
  "FunctionDictGetString_executeDispatchRange K arguments dictionary =
     (if dynamic_type dictionary \<noteq> K then Inr None
      else if length arguments \<noteq> 4 then
        Inl (arguments_count_message ''dictGetString'' dictionary '' requires exactly 4 arguments'')
      else case get_attr_name ''dictGetString'' arguments of
        Inl e \<Rightarrow> Inl e
      | Inr attr_name \<Rightarrow>
          (case getColumnDataAsPaddedPODArray TUInt64 (column (arguments ! 2)) of
             Inl e \<Rightarrow> Inl e
           | Inr id_col_values \<Rightarrow>
               (case getColumnDataAsPaddedPODArray TInt64 (column (arguments ! 3)) of
                  Inl e \<Rightarrow> Inl e
                | Inr range_col_values \<Rightarrow>
                    Inr (Some (ColumnString (range_get_string dictionary attr_name
                      (UInt64_data id_col_values) range_col_values))))))"

definition FunctionDictGetString_executeImpl ::
  "ExternalDictionaries \<Rightarrow> ColumnWithTypeAndName list \<Rightarrow> DataType \<Rightarrow> nat \<Rightarrow> Failure + Column" where
  "FunctionDictGetString_executeImpl dictionaries arguments result_type input_rows_count =
     executeImpl_resolved ''dictGetString'' dictionaries arguments result_type input_rows_count
       (\<lambda>dict.
          or_else (FunctionDictGetString_executeDispatch FlatDictionary arguments dict)
         (or_else (FunctionDictGetString_executeDispatch HashedDictionary arguments dict)
         (or_else (FunctionDictGetString_executeDispatch CacheDictionary arguments dict)
         (or_else (FunctionDictGetString_executeDispatchComplex ComplexKeyHashedDictionary arguments dict)
         (or_else (FunctionDictGetString_executeDispatchComplex ComplexKeyCacheDictionary arguments dict)
         (or_else (FunctionDictGetString_executeDispatchComplex TrieDictionary arguments dict)
                  (FunctionDictGetString_executeDispatchRange RangeHashedDictionary arguments dict)))))))"

section \<open>dictGetStringOrDefault\<close>

text \<open>
  \<^verbatim>\<open>FunctionDictGetStringOrDefault\<close> (lines 407-610). The two overloads of
  \<^verbatim>\<open>executeDispatch\<close> for a vector and for a constant identifier column are \<open>_vector\<close> and
  \<open>_const\<close>; a constant identifier column is given as its value and its number of rows.
\<close>

definition FunctionDictGetStringOrDefault_getReturnTypeImpl :: "DataType list \<Rightarrow> Failure + DataType" where
  "FunctionDictGetStringOrDefault_getReturnTypeImpl arguments =
     (if \<not> isString (arguments ! 0) then
        Inl (illegal_type (arguments ! 0) ''first'' ''dictGetStringOrDefault'' '', expected a string.'')
      else if \<not> isString (arguments ! 1) then
        Inl (illegal_type (arguments ! 1) ''second'' ''dictGetStringOrDefault'' '', expected a string.'')
      else if \<not> isUInt64 (arguments ! 2) \<and> \<not> isTuple (arguments ! 2) then
        Inl (illegal_type (arguments ! 2) ''third'' ''dictGetStringOrDefault''
               '', must be UInt64 or tuple(...).'')
      else if \<not> isString (arguments ! 3) then
        Inl (illegal_type (arguments ! 3) ''fourth'' ''dictGetStringOrDefault'' '', must be String.'')
      else Inr DataTypeString)"

text \<open>
  Modelled from the spec: \<^verbatim>\<open>IDataType::createColumnConst(size, value)\<close>, ``a constant column
  (a single value and its multiplicity)''. The conversion to \<^verbatim>\<open>Field\<close> and back keeps the
  value.
\<close>

definition createColumnConst_String :: "nat \<Rightarrow> string \<Rightarrow> Column" where
  "createColumnConst_String s v = ColumnConst (ColumnString [v]) s"

definition createColumnConst_Number :: "NumberType \<Rightarrow> nat \<Rightarrow> int \<Rightarrow> Column" where
  "createColumnConst_Number T s v = ColumnConst (ColumnVector T [v]) s"

definition createColumnConst_Array :: "nat \<Rightarrow> Key list \<Rightarrow> Column" where
  "createColumnConst_Array s row =
     ColumnConst (ColumnArray (ColumnVector TUInt64 (map uint row)) [length row]) s"

definition FunctionDictGetStringOrDefault_executeDispatch_vector ::
  "ColumnWithTypeAndName list \<Rightarrow> Dictionary \<Rightarrow> string \<Rightarrow> int list \<Rightarrow> Failure + Column" where
  "FunctionDictGetStringOrDefault_executeDispatch_vector arguments dictionary attr_name id_col =
     (let default_col_untyped = column (arguments ! 3) in
      case checkAndGetColumnString default_col_untyped of
        Some default_col \<Rightarrow>
          Inr (ColumnString (Dictionary_getStringOrDefault dictionary attr_name
                 (UInt64_data id_col) (Inl default_col)))
      | None \<Rightarrow>
          (case checkAndGetColumnConstStringOrFixedString default_col_untyped of
             Some (def, s) \<Rightarrow>
               Inr (ColumnString (Dictionary_getStringOrDefault dictionary attr_name
                      (UInt64_data id_col) (Inr def)))
           | None \<Rightarrow>
               Inl (Exception ''Fourth argument of function dictGetStringOrDefault must be String''
                      ILLEGAL_COLUMN)))"

definition FunctionDictGetStringOrDefault_executeDispatch_const ::
  "ColumnWithTypeAndName list \<Rightarrow> Dictionary \<Rightarrow> string \<Rightarrow> int \<times> nat \<Rightarrow> Failure + Column" where
  "FunctionDictGetStringOrDefault_executeDispatch_const arguments dictionary attr_name id_col =
     (let default_col_untyped = column (arguments ! 3) in
      case checkAndGetColumnString default_col_untyped of
        Some default_col \<Rightarrow>
          (let ids = [word_of_int (fst id_col)];
               flags = Dictionary_has dictionary ids
           in if hd flags \<noteq> 0 then
                (let out = Dictionary_getStringOrDefault dictionary attr_name ids (Inr [])
                 in Inr (createColumnConst_String (snd id_col) (hd out)))
              else Inr (column (arguments ! 3)))
      | None \<Rightarrow>
          (case checkAndGetColumnConstStringOrFixedString default_col_untyped of
             Some (def, s) \<Rightarrow>
               (let ids = [word_of_int (fst id_col)];
                    out = Dictionary_getStringOrDefault dictionary attr_name ids (Inr def)
                in Inr (createColumnConst_String (snd id_col) (hd out)))
           | None \<Rightarrow>
               Inl (Exception ''Fourth argument of function dictGetStringOrDefault must be String''
                      ILLEGAL_COLUMN)))"

definition FunctionDictGetStringOrDefault_executeDispatch ::
  "DictionaryType \<Rightarrow> ColumnWithTypeAndName list \<Rightarrow> Dictionary \<Rightarrow> Failure + Column option" where
  "FunctionDictGetStringOrDefault_executeDispatch K arguments dictionary =
     (if dynamic_type dictionary \<noteq> K then Inr None
      else case get_attr_name ''dictGetStringOrDefault'' arguments of
        Inl e \<Rightarrow> Inl e
      | Inr attr_name \<Rightarrow>
          (let id_col_untyped = column (arguments ! 2) in
           case checkAndGetColumnVector TUInt64 id_col_untyped of
             Some id_col \<Rightarrow>
               map_sum id Some
                 (FunctionDictGetStringOrDefault_executeDispatch_vector arguments dictionary attr_name id_col)
           | None \<Rightarrow>
               (case checkAndGetColumnConstVector TUInt64 id_col_untyped of
                  Some id_col \<Rightarrow>
                    map_sum id Some
                      (FunctionDictGetStringOrDefault_executeDispatch_const arguments dictionary attr_name id_col)
                | None \<Rightarrow>
                    Inl (Exception ''Third argument of function dictGetStringOrDefault must be UInt64''
                           ILLEGAL_COLUMN))))"

text \<open>
  Modelled from the spec: \<^verbatim>\<open>typeid_cast<const ColumnTuple &>\<close> (\<^verbatim>\<open>Common/typeid_cast.h\<close>) is
  not among the sources. A failed cast throws \<^verbatim>\<open>BAD_CAST\<close> with the demangled names of the
  two classes, \<^verbatim>\<open>Bad cast from type <from> to <to>\<close>; \<open>demangled_class_name\<close> gives the name
  of a column's class as the Itanium ABI demangler prints it on 64-bit Linux.
\<close>

fun demangled_class_name :: "Column \<Rightarrow> string" where
  "demangled_class_name (ColumnVector T xs) =
     ''DB::ColumnVector<'' @
     (case T of TUInt8 \<Rightarrow> ''unsigned char'' | TUInt16 \<Rightarrow> ''unsigned short''
      | TUInt32 \<Rightarrow> ''unsigned int'' | TUInt64 \<Rightarrow> ''unsigned long''
      | TUInt128 \<Rightarrow> ''DB::UInt128'' | TInt8 \<Rightarrow> ''signed char''
      | TInt16 \<Rightarrow> ''short'' | TInt32 \<Rightarrow> ''int'' | TInt64 \<Rightarrow> ''long''
      | TFloat32 \<Rightarrow> ''float'' | TFloat64 \<Rightarrow> ''double'') @ ''>''"
| "demangled_class_name (ColumnString xs) = ''DB::ColumnString''"
| "demangled_class_name (ColumnFixedString n xs) = ''DB::ColumnFixedString''"
| "demangled_class_name (ColumnConst d s) = ''DB::ColumnConst''"
| "demangled_class_name (ColumnTuple cs) = ''DB::ColumnTuple''"
| "demangled_class_name (ColumnArray d offsets) = ''DB::ColumnArray''"

definition bad_cast_to_ColumnTuple :: "Column \<Rightarrow> Failure" where
  "bad_cast_to_ColumnTuple c =
     Exception (''Bad cast from type '' @ demangled_class_name c @ '' to DB::ColumnTuple'') BAD_CAST"

definition FunctionDictGetStringOrDefault_executeDispatchComplex ::
  "DictionaryType \<Rightarrow> ColumnWithTypeAndName list \<Rightarrow> Dictionary \<Rightarrow> Failure + Column option" where
  "FunctionDictGetStringOrDefault_executeDispatchComplex K arguments dictionary =
     (if dynamic_type dictionary \<noteq> K then Inr None
      else case get_attr_name ''dictGetStringOrDefault'' arguments of
        Inl e \<Rightarrow> Inl e
      | Inr attr_name \<Rightarrow>
          (let key_col_with_type = arguments ! 2;
               key_col = full_key_column key_col_with_type
           in case checkAndGetColumnTuple key_col of
                None \<Rightarrow> Inl (bad_cast_to_ColumnTuple key_col)
              | Some key_columns \<Rightarrow>
                  (let key_types = getElements (data_type key_col_with_type);
                       default_col_untyped = column (arguments ! 3)
                   in case checkAndGetColumnString default_col_untyped of
                        Some default_col \<Rightarrow>
                          Inr (Some (ColumnString (complex_get_string_or_default dictionary
                                 attr_name key_columns key_types (Inl default_col))))
                      | None \<Rightarrow>
                          (case checkAndGetColumnConstStringOrFixedString default_col_untyped of
                             Some (def, s) \<Rightarrow>
                               Inr (Some (ColumnString (complex_get_string_or_default dictionary
                                      attr_name key_columns key_types (Inr def))))
                           | None \<Rightarrow>
                               Inl (Exception
                                 ''Fourth argument of function dictGetStringOrDefault must be String''
                                 ILLEGAL_COLUMN)))))"

definition FunctionDictGetStringOrDefault_executeImpl ::
  "ExternalDictionaries \<Rightarrow> ColumnWithTypeAndName list \<Rightarrow> DataType \<Rightarrow> nat \<Rightarrow> Failure + Column" where
  "FunctionDictGetStringOrDefault_executeImpl dictionaries arguments result_type input_rows_count =
     executeImpl_resolved ''dictGetStringOrDefault'' dictionaries arguments result_type input_rows_count
       (\<lambda>dict.
          or_else (FunctionDictGetStringOrDefault_executeDispatch FlatDictionary arguments dict)
         (or_else (FunctionDictGetStringOrDefault_executeDispatch HashedDictionary arguments dict)
         (or_else (FunctionDictGetStringOrDefault_executeDispatch CacheDictionary arguments dict)
         (or_else (FunctionDictGetStringOrDefault_executeDispatchComplex ComplexKeyHashedDictionary arguments dict)
         (or_else (FunctionDictGetStringOrDefault_executeDispatchComplex ComplexKeyCacheDictionary arguments dict)
                  (FunctionDictGetStringOrDefault_executeDispatchComplex TrieDictionary arguments dict))))))"

section \<open>dictGetT for the thirteen numeric and temporal types\<close>

text \<open>
  \<^verbatim>\<open>FunctionDictGet<DataType, Name>\<close> (lines 669-873), with \<^verbatim>\<open>DictGetTraits\<close> (lines 613-666):
  the field type of \<^verbatim>\<open>Date\<close> is \<^verbatim>\<open>UInt16\<close>, of \<^verbatim>\<open>DateTime\<close> \<^verbatim>\<open>UInt32\<close>, of \<^verbatim>\<open>UUID\<close>
  \<^verbatim>\<open>UInt128\<close>.
\<close>

fun TypeName :: "DictType \<Rightarrow> string" where
  "TypeName UInt8 = ''UInt8''"
| "TypeName UInt16 = ''UInt16''"
| "TypeName UInt32 = ''UInt32''"
| "TypeName UInt64 = ''UInt64''"
| "TypeName Int8 = ''Int8''"
| "TypeName Int16 = ''Int16''"
| "TypeName Int32 = ''Int32''"
| "TypeName Int64 = ''Int64''"
| "TypeName Float32 = ''Float32''"
| "TypeName Float64 = ''Float64''"
| "TypeName Date = ''Date''"
| "TypeName DateTime = ''DateTime''"
| "TypeName UUID = ''UUID''"

fun DataType_of :: "DictType \<Rightarrow> DataType" where
  "DataType_of UInt8 = DataTypeUInt8"
| "DataType_of UInt16 = DataTypeUInt16"
| "DataType_of UInt32 = DataTypeUInt32"
| "DataType_of UInt64 = DataTypeUInt64"
| "DataType_of Int8 = DataTypeInt8"
| "DataType_of Int16 = DataTypeInt16"
| "DataType_of Int32 = DataTypeInt32"
| "DataType_of Int64 = DataTypeInt64"
| "DataType_of Float32 = DataTypeFloat32"
| "DataType_of Float64 = DataTypeFloat64"
| "DataType_of Date = DataTypeDate"
| "DataType_of DateTime = DataTypeDateTime"
| "DataType_of UUID = DataTypeUUID"

fun FieldType :: "DictType \<Rightarrow> NumberType" where
  "FieldType UInt8 = TUInt8"
| "FieldType UInt16 = TUInt16"
| "FieldType UInt32 = TUInt32"
| "FieldType UInt64 = TUInt64"
| "FieldType Int8 = TInt8"
| "FieldType Int16 = TInt16"
| "FieldType Int32 = TInt32"
| "FieldType Int64 = TInt64"
| "FieldType Float32 = TFloat32"
| "FieldType Float64 = TFloat64"
| "FieldType Date = TUInt16"
| "FieldType DateTime = TUInt32"
| "FieldType UUID = TUInt128"

definition NameDictGet :: "DictType \<Rightarrow> string" where
  "NameDictGet T = ''dictGet'' @ TypeName T"

definition NameDictGetOrDefault :: "DictType \<Rightarrow> string" where
  "NameDictGetOrDefault T = ''dictGet'' @ TypeName T @ ''OrDefault''"

definition convertible_to_Int64 :: "DataType \<Rightarrow> bool" where
  "convertible_to_Int64 range_argument \<longleftrightarrow>
     isValueRepresentedByInteger range_argument \<and> getSizeOfValueInMemory range_argument \<le> 8"

definition FunctionDictGet_getReturnTypeImpl :: "DictType \<Rightarrow> DataType list \<Rightarrow> Failure + DataType" where
  "FunctionDictGet_getReturnTypeImpl T arguments =
     (if length arguments \<noteq> 3 \<and> length arguments \<noteq> 4 then
        Inl (Exception (''Function '' @ NameDictGet T @ '' takes 3 or 4 arguments'')
               NUMBER_OF_ARGUMENTS_DOESNT_MATCH)
      else if \<not> isString (arguments ! 0) then
        Inl (illegal_type (arguments ! 0) ''first'' (NameDictGet T) '', expected a string.'')
      else if \<not> isString (arguments ! 1) then
        Inl (illegal_type (arguments ! 1) ''second'' (NameDictGet T) '', expected a string.'')
      else if \<not> isUInt64 (arguments ! 2) \<and> \<not> isTuple (arguments ! 2) then
        Inl (illegal_type (arguments ! 2) ''third'' (NameDictGet T) '', must be UInt64 or tuple(...).'')
      else if length arguments = 4 \<and> \<not> convertible_to_Int64 (arguments ! 3) then
        Inl (illegal_type (arguments ! 3) ''fourth'' (NameDictGet T) '', must be convertible to Int64.'')
      else Inr (DataType_of T))"

definition FunctionDictGet_executeDispatch ::
  "DictType \<Rightarrow> DictionaryType \<Rightarrow> ColumnWithTypeAndName list \<Rightarrow> Dictionary \<Rightarrow> Failure + Column option" where
  "FunctionDictGet_executeDispatch T K arguments dictionary =
     (if dynamic_type dictionary \<noteq> K then Inr None
      else if length arguments \<noteq> 3 then
        Inl (arguments_count_message (NameDictGet T) dictionary '' requires exactly 3 arguments.'')
      else case get_attr_name (NameDictGet T) arguments of
        Inl e \<Rightarrow> Inl e
      | Inr attr_name \<Rightarrow>
          (let id_col_untyped = column (arguments ! 2) in
           case checkAndGetColumnVector TUInt64 id_col_untyped of
             Some ids \<Rightarrow>
               Inr (Some (ColumnVector (FieldType T)
                 (Dictionary_get dictionary (FieldType T) attr_name (UInt64_data ids))))
           | None \<Rightarrow>
               (case checkAndGetColumnConstVector TUInt64 id_col_untyped of
                  Some id_col \<Rightarrow>
                    (let ids = [word_of_int (fst id_col)];
                         data = Dictionary_get dictionary (FieldType T) attr_name ids
                     in Inr (Some (createColumnConst_Number (FieldType T) (snd id_col) (hd data))))
                | None \<Rightarrow>
                    Inl (Exception (''Third argument of function '' @ NameDictGet T @
                           '' must be UInt64'') ILLEGAL_COLUMN))))"

definition FunctionDictGet_executeDispatchComplex ::
  "DictType \<Rightarrow> DictionaryType \<Rightarrow> ColumnWithTypeAndName list \<Rightarrow> Dictionary \<Rightarrow> Failure + Column option" where
  "FunctionDictGet_executeDispatchComplex T K arguments dictionary =
     (if dynamic_type dictionary \<noteq> K then Inr None
      else if length arguments \<noteq> 3 then
        Inl (arguments_count_message (NameDictGet T) dictionary '' requires exactly 3 arguments'')
      else case get_attr_name (NameDictGet T) arguments of
        Inl e \<Rightarrow> Inl e
      | Inr attr_name \<Rightarrow>
          (let key_col_with_type = arguments ! 2;
               key_col = full_key_column key_col_with_type
           in case checkAndGetColumnTuple key_col of
                Some key_columns \<Rightarrow>
                  Inr (Some (ColumnVector (FieldType T)
                    (complex_get_number dictionary (FieldType T) attr_name key_columns
                       (getElements (data_type key_col_with_type)))))
              | None \<Rightarrow>
                  Inl (Exception (''Third argument of function '' @ NameDictGet T @ '' must be '' @
                         getKeyDescription dictionary) TYPE_MISMATCH)))"

definition FunctionDictGet_executeDispatchRange ::
  "DictType \<Rightarrow> DictionaryType \<Rightarrow> ColumnWithTypeAndName list \<Rightarrow> Dictionary \<Rightarrow> Failure + Column option" where
  "FunctionDictGet_executeDispatchRange T K arguments dictionary =
     (if dynamic_type dictionary \<noteq> K then Inr None
      else if length arguments \<noteq> 4 then
        Inl (arguments_count_message (NameDictGet T) dictionary '' requires exactly 4 arguments'')
      else case get_attr_name (NameDictGet T) arguments of
        Inl e \<Rightarrow> Inl e
      | Inr attr_name \<Rightarrow>
          (case getColumnDataAsPaddedPODArray TUInt64 (column (arguments ! 2)) of
             Inl e \<Rightarrow> Inl e
           | Inr id_col_values \<Rightarrow>
               (case getColumnDataAsPaddedPODArray TInt64 (column (arguments ! 3)) of
                  Inl e \<Rightarrow> Inl e
                | Inr range_col_values \<Rightarrow>
                    Inr (Some (ColumnVector (FieldType T)
                      (range_get_number dictionary (FieldType T) attr_name
                         (UInt64_data id_col_values) range_col_values))))))"

definition FunctionDictGet_executeImpl ::
  "DictType \<Rightarrow> ExternalDictionaries \<Rightarrow> ColumnWithTypeAndName list \<Rightarrow> DataType \<Rightarrow> nat \<Rightarrow>
   Failure + Column" where
  "FunctionDictGet_executeImpl T dictionaries arguments result_type input_rows_count =
     executeImpl_resolved (NameDictGet T) dictionaries arguments result_type input_rows_count
       (\<lambda>dict.
          or_else (FunctionDictGet_executeDispatch T FlatDictionary arguments dict)
         (or_else (FunctionDictGet_executeDispatch T HashedDictionary arguments dict)
         (or_else (FunctionDictGet_executeDispatch T CacheDictionary arguments dict)
         (or_else (FunctionDictGet_executeDispatchComplex T ComplexKeyHashedDictionary arguments dict)
         (or_else (FunctionDictGet_executeDispatchComplex T ComplexKeyCacheDictionary arguments dict)
         (or_else (FunctionDictGet_executeDispatchComplex T TrieDictionary arguments dict)
                  (FunctionDictGet_executeDispatchRange T RangeHashedDictionary arguments dict)))))))"

section \<open>dictGetTOrDefault\<close>

text \<open>
  \<^verbatim>\<open>FunctionDictGetOrDefault<DataType, Name>\<close> (lines 904-1118). \<^verbatim>\<open>Type()\<close>, the default
  passed when the key is known to be present, is 0.
\<close>

definition FunctionDictGetOrDefault_getReturnTypeImpl ::
  "DictType \<Rightarrow> DataType list \<Rightarrow> Failure + DataType" where
  "FunctionDictGetOrDefault_getReturnTypeImpl T arguments =
     (if \<not> isString (arguments ! 0) then
        Inl (illegal_type (arguments ! 0) ''first'' (NameDictGetOrDefault T) '', expected a string.'')
      else if \<not> isString (arguments ! 1) then
        Inl (illegal_type (arguments ! 1) ''second'' (NameDictGetOrDefault T) '', expected a string.'')
      else if \<not> isUInt64 (arguments ! 2) \<and> \<not> isTuple (arguments ! 2) then
        Inl (illegal_type (arguments ! 2) ''third'' (NameDictGetOrDefault T)
               '', must be UInt64 or tuple(...).'')
      else if arguments ! 3 \<noteq> DataType_of T then
        Inl (illegal_type (arguments ! 3) ''fourth'' (NameDictGetOrDefault T)
               ('', must be '' @ TypeName T @ ''.''))
      else Inr (DataType_of T))"

definition fourth_argument_must_be :: "DictType \<Rightarrow> Failure" where
  "fourth_argument_must_be T =
     Exception (''Fourth argument of function '' @ NameDictGetOrDefault T @ '' must be '' @ TypeName T)
       ILLEGAL_COLUMN"

definition FunctionDictGetOrDefault_executeDispatch_vector ::
  "DictType \<Rightarrow> ColumnWithTypeAndName list \<Rightarrow> Dictionary \<Rightarrow> string \<Rightarrow> int list \<Rightarrow> Failure + Column" where
  "FunctionDictGetOrDefault_executeDispatch_vector T arguments dictionary attr_name id_col =
     (let default_col_untyped = column (arguments ! 3) in
      case checkAndGetColumnVector (FieldType T) default_col_untyped of
        Some defs \<Rightarrow>
          Inr (ColumnVector (FieldType T)
                 (Dictionary_getOrDefault dictionary (FieldType T) attr_name (UInt64_data id_col) (Inl defs)))
      | None \<Rightarrow>
          (case checkAndGetColumnConstVector (FieldType T) default_col_untyped of
             Some default_col \<Rightarrow>
               Inr (ColumnVector (FieldType T)
                      (Dictionary_getOrDefault dictionary (FieldType T) attr_name (UInt64_data id_col)
                         (Inr (fst default_col))))
           | None \<Rightarrow> Inl (fourth_argument_must_be T)))"

definition FunctionDictGetOrDefault_executeDispatch_const ::
  "DictType \<Rightarrow> ColumnWithTypeAndName list \<Rightarrow> Dictionary \<Rightarrow> string \<Rightarrow> int \<times> nat \<Rightarrow> Failure + Column" where
  "FunctionDictGetOrDefault_executeDispatch_const T arguments dictionary attr_name id_col =
     (let default_col_untyped = column (arguments ! 3) in
      case checkAndGetColumnVector (FieldType T) default_col_untyped of
        Some default_col \<Rightarrow>
          (let ids = [word_of_int (fst id_col)];
               flags = Dictionary_has dictionary ids
           in if hd flags \<noteq> 0 then
                (let data = Dictionary_getOrDefault dictionary (FieldType T) attr_name ids (Inr 0)
                 in Inr (createColumnConst_Number (FieldType T) (snd id_col) (hd data)))
              else Inr (column (arguments ! 3)))
      | None \<Rightarrow>
          (case checkAndGetColumnConstVector (FieldType T) default_col_untyped of
             Some default_col \<Rightarrow>
               (let ids = [word_of_int (fst id_col)];
                    data = Dictionary_getOrDefault dictionary (FieldType T) attr_name ids
                             (Inr (fst default_col))
                in Inr (createColumnConst_Number (FieldType T) (snd id_col) (hd data)))
           | None \<Rightarrow> Inl (fourth_argument_must_be T)))"

definition FunctionDictGetOrDefault_executeDispatch ::
  "DictType \<Rightarrow> DictionaryType \<Rightarrow> ColumnWithTypeAndName list \<Rightarrow> Dictionary \<Rightarrow> Failure + Column option" where
  "FunctionDictGetOrDefault_executeDispatch T K arguments dictionary =
     (if dynamic_type dictionary \<noteq> K then Inr None
      else case get_attr_name (NameDictGetOrDefault T) arguments of
        Inl e \<Rightarrow> Inl e
      | Inr attr_name \<Rightarrow>
          (let id_col_untyped = column (arguments ! 2) in
           case checkAndGetColumnVector TUInt64 id_col_untyped of
             Some id_col \<Rightarrow>
               map_sum id Some
                 (FunctionDictGetOrDefault_executeDispatch_vector T arguments dictionary attr_name id_col)
           | None \<Rightarrow>
               (case checkAndGetColumnConstVector TUInt64 id_col_untyped of
                  Some id_col \<Rightarrow>
                    map_sum id Some
                      (FunctionDictGetOrDefault_executeDispatch_const T arguments dictionary attr_name id_col)
                | None \<Rightarrow>
                    Inl (Exception (''Third argument of function '' @ NameDictGetOrDefault T @
                           '' must be UInt64'') ILLEGAL_COLUMN))))"

definition FunctionDictGetOrDefault_executeDispatchComplex ::
  "DictType \<Rightarrow> DictionaryType \<Rightarrow> ColumnWithTypeAndName list \<Rightarrow> Dictionary \<Rightarrow> Failure + Column option" where
  "FunctionDictGetOrDefault_executeDispatchComplex T K arguments dictionary =
     (if dynamic_type dictionary \<noteq> K then Inr None
      else case get_attr_name (NameDictGetOrDefault T) arguments of
        Inl e \<Rightarrow> Inl e
      | Inr attr_name \<Rightarrow>
          (let key_col_with_type = arguments ! 2;
               key_col = full_key_column key_col_with_type
           in case checkAndGetColumnTuple key_col of
                None \<Rightarrow> Inl (bad_cast_to_ColumnTuple key_col)
              | Some key_columns \<Rightarrow>
                  (let key_types = getElements (data_type key_col_with_type);
                       default_col_untyped = column (arguments ! 3)
                   in case checkAndGetColumnVector (FieldType T) default_col_untyped of
                        Some defs \<Rightarrow>
                          Inr (Some (ColumnVector (FieldType T)
                                 (complex_get_number_or_default dictionary (FieldType T) attr_name
                                    key_columns key_types (Inl defs))))
                      | None \<Rightarrow>
                          (case checkAndGetColumnConstVector (FieldType T) default_col_untyped of
                             Some default_col \<Rightarrow>
                               Inr (Some (ColumnVector (FieldType T)
                                      (complex_get_number_or_default dictionary (FieldType T) attr_name
                                         key_columns key_types (Inr (fst default_col)))))
                           | None \<Rightarrow> Inl (fourth_argument_must_be T)))))"

definition FunctionDictGetOrDefault_executeImpl ::
  "DictType \<Rightarrow> ExternalDictionaries \<Rightarrow> ColumnWithTypeAndName list \<Rightarrow> DataType \<Rightarrow> nat \<Rightarrow>
   Failure + Column" where
  "FunctionDictGetOrDefault_executeImpl T dictionaries arguments result_type input_rows_count =
     executeImpl_resolved (NameDictGetOrDefault T) dictionaries arguments result_type input_rows_count
       (\<lambda>dict.
          or_else (FunctionDictGetOrDefault_executeDispatch T FlatDictionary arguments dict)
         (or_else (FunctionDictGetOrDefault_executeDispatch T HashedDictionary arguments dict)
         (or_else (FunctionDictGetOrDefault_executeDispatch T CacheDictionary arguments dict)
         (or_else (FunctionDictGetOrDefault_executeDispatchComplex T ComplexKeyHashedDictionary arguments dict)
         (or_else (FunctionDictGetOrDefault_executeDispatchComplex T ComplexKeyCacheDictionary arguments dict)
                  (FunctionDictGetOrDefault_executeDispatchComplex T TrieDictionary arguments dict))))))"

section \<open>The type-erased dictGet and dictGetOrDefault\<close>

text \<open>
  \<^verbatim>\<open>FunctionDictGetNoType\<close> (lines 1164-1262) and \<^verbatim>\<open>FunctionDictGetNoTypeOrDefault\<close>
  (lines 1265-1360). \<^verbatim>\<open>getReturnTypeImpl\<close> returns the type and sets the mutable field
  \<^verbatim>\<open>impl\<close>: the model returns both. The \<^verbatim>\<open>for\<close> loop over the attributes is the recursion
  \<open>_scan\<close>, and \<open>dispatch_type\<close> is the chain of \<^verbatim>\<open>DISPATCH(TYPE)\<close> tests.
\<close>

definition IFunction_executeImpl ::
  "IFunction \<Rightarrow> ExternalDictionaries \<Rightarrow> ColumnWithTypeAndName list \<Rightarrow> DataType \<Rightarrow> nat \<Rightarrow>
   Failure + Column" where
  "IFunction_executeImpl f =
     (case f of
        FunctionDictGetString \<Rightarrow> FunctionDictGetString_executeImpl
      | FunctionDictGet T \<Rightarrow> FunctionDictGet_executeImpl T
      | FunctionDictGetStringOrDefault \<Rightarrow> FunctionDictGetStringOrDefault_executeImpl
      | FunctionDictGetOrDefault T \<Rightarrow> FunctionDictGetOrDefault_executeImpl T)"

fun dispatch_type :: "DataType \<Rightarrow> DictType option" where
  "dispatch_type DataTypeUInt8 = Some UInt8"
| "dispatch_type DataTypeUInt16 = Some UInt16"
| "dispatch_type DataTypeUInt32 = Some UInt32"
| "dispatch_type DataTypeUInt64 = Some UInt64"
| "dispatch_type DataTypeInt8 = Some Int8"
| "dispatch_type DataTypeInt16 = Some Int16"
| "dispatch_type DataTypeInt32 = Some Int32"
| "dispatch_type DataTypeInt64 = Some Int64"
| "dispatch_type DataTypeFloat32 = Some Float32"
| "dispatch_type DataTypeFloat64 = Some Float64"
| "dispatch_type DataTypeDate = Some Date"
| "dispatch_type DataTypeDateTime = Some DateTime"
| "dispatch_type DataTypeUUID = Some UUID"
| "dispatch_type _ = None"

definition no_such_attribute :: "string \<Rightarrow> Failure" where
  "no_such_attribute attr_name =
     Exception (''No such attribute '' @ [CHR 0x27] @ attr_name @ [CHR 0x27]) BAD_ARGUMENTS"

fun FunctionDictGetNoType_scan ::
  "(string \<times> DataType) list \<Rightarrow> string \<Rightarrow> Failure + DataType \<times> IFunction" where
  "FunctionDictGetNoType_scan [] attr_name = Inl (no_such_attribute attr_name)"
| "FunctionDictGetNoType_scan (attribute # rest) attr_name =
     (if fst attribute = attr_name then
        (if isString (snd attribute) then Inr (snd attribute, FunctionDictGetString)
         else case dispatch_type (snd attribute) of
                Some T \<Rightarrow> Inr (snd attribute, FunctionDictGet T)
              | None \<Rightarrow> Inl (Exception ''Unknown dictGet type'' UNKNOWN_TYPE))
      else FunctionDictGetNoType_scan rest attr_name)"

definition const_name_argument ::
  "string \<Rightarrow> string \<Rightarrow> ColumnWithTypeAndName \<Rightarrow> Failure + string" where
  "const_name_argument name position argument =
     (case checkAndGetColumnConstString (column argument) of
        Some (v, s) \<Rightarrow> Inr v
      | None \<Rightarrow> Inl (illegal_type (data_type argument) position name '', expected a const string.''))"

definition FunctionDictGetNoType_getReturnTypeImpl ::
  "ExternalDictionaries \<Rightarrow> ColumnWithTypeAndName list \<Rightarrow> Failure + DataType \<times> IFunction" where
  "FunctionDictGetNoType_getReturnTypeImpl dictionaries arguments =
     (if length arguments \<noteq> 3 \<and> length arguments \<noteq> 4 then
        Inl (Exception ''Function dictGet takes 3 or 4 arguments'' NUMBER_OF_ARGUMENTS_DOESNT_MATCH)
      else case const_name_argument ''dictGet'' ''first'' (arguments ! 0) of
        Inl e \<Rightarrow> Inl e
      | Inr dict_name \<Rightarrow>
          (case const_name_argument ''dictGet'' ''second'' (arguments ! 1) of
             Inl e \<Rightarrow> Inl e
           | Inr attr_name \<Rightarrow>
               if \<not> isUInt64 (data_type (arguments ! 2)) \<and> \<not> isTuple (data_type (arguments ! 2)) then
                 Inl (illegal_type (data_type (arguments ! 2)) ''third'' ''dictGet''
                        '', must be UInt64 or tuple(...).'')
               else if length arguments = 4 \<and> \<not> convertible_to_Int64 (data_type (arguments ! 3)) then
                 Inl (illegal_type (data_type (arguments ! 3)) ''fourth'' ''dictGet''
                        '', must be convertible to Int64.'')
               else (case getDictionary dictionaries dict_name of
                       Inl e \<Rightarrow> Inl e
                     | Inr dict \<Rightarrow> FunctionDictGetNoType_scan (attributes dict) attr_name)))"

definition FunctionDictGetNoType_executeImpl ::
  "IFunction option \<Rightarrow> ExternalDictionaries \<Rightarrow> ColumnWithTypeAndName list \<Rightarrow> DataType \<Rightarrow> nat \<Rightarrow>
   Failure + Column" where
  "FunctionDictGetNoType_executeImpl impl dictionaries arguments result_type input_rows_count =
     (case impl of
        None \<Rightarrow> Inl NullPointerDereference
      | Some f \<Rightarrow> IFunction_executeImpl f dictionaries arguments result_type input_rows_count)"

fun FunctionDictGetNoTypeOrDefault_scan ::
  "(string \<times> DataType) list \<Rightarrow> string \<Rightarrow> DataType \<Rightarrow> Failure + DataType \<times> IFunction" where
  "FunctionDictGetNoTypeOrDefault_scan [] attr_name default_type = Inl (no_such_attribute attr_name)"
| "FunctionDictGetNoTypeOrDefault_scan (attribute # rest) attr_name default_type =
     (if fst attribute = attr_name then
        (if isString (snd attribute) then
           (if \<not> isString default_type then
              Inl (illegal_type default_type ''fourth'' ''dictGetOrDefault'' '', must be String.'')
            else Inr (snd attribute, FunctionDictGetStringOrDefault))
         else case dispatch_type (snd attribute) of
                Some T \<Rightarrow>
                  (if default_type \<noteq> DataType_of T then
                     Inl (illegal_type default_type ''fourth'' ''dictGetOrDefault''
                            ('', must be '' @ TypeName T @ ''.''))
                   else Inr (snd attribute, FunctionDictGetOrDefault T))
              | None \<Rightarrow> Inl (Exception ''Unknown dictGetOrDefault type'' UNKNOWN_TYPE))
      else FunctionDictGetNoTypeOrDefault_scan rest attr_name default_type)"

definition FunctionDictGetNoTypeOrDefault_getReturnTypeImpl ::
  "ExternalDictionaries \<Rightarrow> ColumnWithTypeAndName list \<Rightarrow> Failure + DataType \<times> IFunction" where
  "FunctionDictGetNoTypeOrDefault_getReturnTypeImpl dictionaries arguments =
     (case const_name_argument ''dictGetOrDefault'' ''first'' (arguments ! 0) of
        Inl e \<Rightarrow> Inl e
      | Inr dict_name \<Rightarrow>
          (case const_name_argument ''dictGetOrDefault'' ''second'' (arguments ! 1) of
             Inl e \<Rightarrow> Inl e
           | Inr attr_name \<Rightarrow>
               if \<not> isUInt64 (data_type (arguments ! 2)) \<and> \<not> isTuple (data_type (arguments ! 2)) then
                 Inl (illegal_type (data_type (arguments ! 2)) ''third'' ''dictGetOrDefault''
                        '', must be UInt64 or tuple(...).'')
               else (case getDictionary dictionaries dict_name of
                       Inl e \<Rightarrow> Inl e
                     | Inr dict \<Rightarrow>
                         FunctionDictGetNoTypeOrDefault_scan (attributes dict) attr_name
                           (data_type (arguments ! 3)))))"

definition FunctionDictGetNoTypeOrDefault_executeImpl ::
  "IFunction option \<Rightarrow> ExternalDictionaries \<Rightarrow> ColumnWithTypeAndName list \<Rightarrow> DataType \<Rightarrow> nat \<Rightarrow>
   Failure + Column" where
  "FunctionDictGetNoTypeOrDefault_executeImpl impl dictionaries arguments result_type input_rows_count =
     (case impl of
        None \<Rightarrow> Inl NullPointerDereference
      | Some f \<Rightarrow> IFunction_executeImpl f dictionaries arguments result_type input_rows_count)"

section \<open>dictGetHierarchy and dictIsIn\<close>

text \<open>
  \<^verbatim>\<open>FunctionDictGetHierarchy\<close> (lines 1364-1518) and \<^verbatim>\<open>FunctionDictIsIn\<close> (lines 1521-1680).
\<close>

definition FunctionDictGetHierarchy_getReturnTypeImpl :: "DataType list \<Rightarrow> Failure + DataType" where
  "FunctionDictGetHierarchy_getReturnTypeImpl arguments =
     (if \<not> isString (arguments ! 0) then
        Inl (illegal_type (arguments ! 0) ''first'' ''dictGetHierarchy'' '', expected a string.'')
      else if \<not> isUInt64 (arguments ! 1) then
        Inl (illegal_type (arguments ! 1) ''second'' ''dictGetHierarchy'' '', must be UInt64.'')
      else Inr (DataTypeArray DataTypeUInt64))"

definition no_hierarchy :: Failure where
  "no_hierarchy = Exception ''Dictionary does not have a hierarchy'' UNSUPPORTED_METHOD"

definition FunctionDictGetHierarchy_executeDispatch ::
  "DictionaryType \<Rightarrow> ColumnWithTypeAndName list \<Rightarrow> Dictionary \<Rightarrow> Failure + Column option" where
  "FunctionDictGetHierarchy_executeDispatch K arguments dictionary =
     (if dynamic_type dictionary \<noteq> K then Inr None
      else if \<not> hasHierarchy dictionary then Inl no_hierarchy
      else let id_col_untyped = column (arguments ! 1) in
        case checkAndGetColumnVector TUInt64 id_col_untyped of
          Some id_col \<Rightarrow>
            (case get_hierarchies (parent_of dictionary) (UInt64_data id_col) of
               None \<Rightarrow> Inl NoReturn
             | Some (backend, offsets) \<Rightarrow>
                 Inr (Some (ColumnArray (ColumnVector TUInt64 (map uint backend)) offsets)))
        | None \<Rightarrow>
            (case checkAndGetColumnConstVector TUInt64 id_col_untyped of
               Some id_col \<Rightarrow>
                 (case get_hierarchies (parent_of dictionary) [word_of_int (fst id_col)] of
                    None \<Rightarrow> Inl NoReturn
                  | Some (backend, offsets) \<Rightarrow>
                      Inr (Some (createColumnConst_Array (snd id_col) (array_row backend offsets 0))))
             | None \<Rightarrow>
                 Inl (Exception ''Second argument of function dictGetHierarchy must be UInt64''
                        ILLEGAL_COLUMN)))"

definition FunctionDictGetHierarchy_executeImpl ::
  "ExternalDictionaries \<Rightarrow> ColumnWithTypeAndName list \<Rightarrow> DataType \<Rightarrow> nat \<Rightarrow> Failure + Column" where
  "FunctionDictGetHierarchy_executeImpl dictionaries arguments result_type input_rows_count =
     executeImpl_resolved ''dictGetHierarchy'' dictionaries arguments result_type input_rows_count
       (\<lambda>dict.
          or_else (FunctionDictGetHierarchy_executeDispatch FlatDictionary arguments dict)
         (or_else (FunctionDictGetHierarchy_executeDispatch HashedDictionary arguments dict)
                  (FunctionDictGetHierarchy_executeDispatch CacheDictionary arguments dict)))"

definition FunctionDictIsIn_getReturnTypeImpl :: "DataType list \<Rightarrow> Failure + DataType" where
  "FunctionDictIsIn_getReturnTypeImpl arguments =
     (if \<not> isString (arguments ! 0) then
        Inl (illegal_type (arguments ! 0) ''first'' ''dictIsIn'' '', expected a string.'')
      else if \<not> isUInt64 (arguments ! 1) then
        Inl (illegal_type (arguments ! 1) ''second'' ''dictIsIn'' '', must be UInt64.'')
      else if \<not> isUInt64 (arguments ! 2) then
        Inl (illegal_type (arguments ! 2) ''third'' ''dictIsIn'' '', must be UInt64.'')
      else Inr DataTypeUInt8)"

definition illegal_ancestor_column :: "Column \<Rightarrow> Failure" where
  "illegal_ancestor_column ancestor_id_col_untyped =
     Exception (''Illegal column '' @ Column_getName ancestor_id_col_untyped @
                '' of third argument of function dictIsIn'') ILLEGAL_COLUMN"

definition FunctionDictIsIn_execute_vector ::
  "Dictionary \<Rightarrow> int list \<Rightarrow> Column \<Rightarrow> Failure + Column" where
  "FunctionDictIsIn_execute_vector dictionary child_id_col ancestor_id_col_untyped =
     (case checkAndGetColumnVector TUInt64 ancestor_id_col_untyped of
        Some ancestor_id_col \<Rightarrow>
          Inr (ColumnVector TUInt8
                 (isInVectorVector dictionary (UInt64_data child_id_col) (UInt64_data ancestor_id_col)))
      | None \<Rightarrow>
          (case checkAndGetColumnConstVector TUInt64 ancestor_id_col_untyped of
             Some ancestor_id_col \<Rightarrow>
               Inr (ColumnVector TUInt8
                      (isInVectorConstant dictionary (UInt64_data child_id_col)
                         (word_of_int (fst ancestor_id_col))))
           | None \<Rightarrow> Inl (illegal_ancestor_column ancestor_id_col_untyped)))"

definition FunctionDictIsIn_execute_const ::
  "Dictionary \<Rightarrow> int \<times> nat \<Rightarrow> Column \<Rightarrow> Failure + Column" where
  "FunctionDictIsIn_execute_const dictionary child_id_col ancestor_id_col_untyped =
     (case checkAndGetColumnVector TUInt64 ancestor_id_col_untyped of
        Some ancestor_id_col \<Rightarrow>
          Inr (ColumnVector TUInt8
                 (isInConstantVector dictionary (word_of_int (fst child_id_col))
                    (UInt64_data ancestor_id_col)))
      | None \<Rightarrow>
          (case checkAndGetColumnConstVector TUInt64 ancestor_id_col_untyped of
             Some ancestor_id_col \<Rightarrow>
               Inr (createColumnConst_Number TUInt8 (snd child_id_col)
                      (isInConstantConstant dictionary (word_of_int (fst child_id_col))
                         (word_of_int (fst ancestor_id_col))))
           | None \<Rightarrow> Inl (illegal_ancestor_column ancestor_id_col_untyped)))"

definition FunctionDictIsIn_executeDispatch ::
  "DictionaryType \<Rightarrow> ColumnWithTypeAndName list \<Rightarrow> Dictionary \<Rightarrow> Failure + Column option" where
  "FunctionDictIsIn_executeDispatch K arguments dictionary =
     (if dynamic_type dictionary \<noteq> K then Inr None
      else if \<not> hasHierarchy dictionary then Inl no_hierarchy
      else let child_id_col_untyped = column (arguments ! 1);
               ancestor_id_col_untyped = column (arguments ! 2)
        in case checkAndGetColumnVector TUInt64 child_id_col_untyped of
             Some child_id_col \<Rightarrow>
               map_sum id Some
                 (FunctionDictIsIn_execute_vector dictionary child_id_col ancestor_id_col_untyped)
           | None \<Rightarrow>
               (case checkAndGetColumnConstVector TUInt64 child_id_col_untyped of
                  Some child_id_col \<Rightarrow>
                    map_sum id Some
                      (FunctionDictIsIn_execute_const dictionary child_id_col ancestor_id_col_untyped)
                | None \<Rightarrow>
                    Inl (Exception (''Illegal column '' @ Column_getName child_id_col_untyped @
                           '' of second argument of function dictIsIn'') ILLEGAL_COLUMN)))"

definition FunctionDictIsIn_executeImpl ::
  "ExternalDictionaries \<Rightarrow> ColumnWithTypeAndName list \<Rightarrow> DataType \<Rightarrow> nat \<Rightarrow> Failure + Column" where
  "FunctionDictIsIn_executeImpl dictionaries arguments result_type input_rows_count =
     executeImpl_resolved ''dictIsIn'' dictionaries arguments result_type input_rows_count
       (\<lambda>dict.
          or_else (FunctionDictIsIn_executeDispatch FlatDictionary arguments dict)
         (or_else (FunctionDictIsIn_executeDispatch HashedDictionary arguments dict)
                  (FunctionDictIsIn_executeDispatch CacheDictionary arguments dict)))"

text \<open>
  The specification's dispatcher: ``try each known backend kind, in a fixed priority
  order, until one matches the dictionary handle's concrete kind; invoke its operation'',
  and fail with the given error when none matches.
\<close>

fun try_each :: "(Failure + Column option) list \<Rightarrow> Failure \<Rightarrow> Failure + Column" where
  "try_each [] e = Inl e"
| "try_each (p # ps) e =
     (case p of Inl x \<Rightarrow> Inl x | Inr (Some c) \<Rightarrow> Inr c | Inr None \<Rightarrow> try_each ps e)"



text \<open>
  Modelled from the spec: the framework's call of \<^verbatim>\<open>executeImpl\<close> (\<^verbatim>\<open>Functions/IFunction.cpp\<close>)
  is not among the sources. Every class of the file declares
  \<^verbatim>\<open>useDefaultImplementationForConstants() { return true; }\<close> and names the arguments that
  stay constant in \<^verbatim>\<open>getArgumentsThatAreAlwaysConstant()\<close> (lines 81-82, 227-228, 424-425,
  690-691, 924-925, 1182-1183, 1282-1283, 1382-1383, 1538-1539); the result is the
  specification's \<open>ResultColumn\<close>, ``a constant column (a single value + multiplicity) when
  both inputs were constants''. When every argument column is constant, \<^verbatim>\<open>executeImpl\<close> runs
  on the block of one row in which the always-constant arguments are constants of one row
  and every other argument is the data column of its constant, and the one-row result
  becomes the value of a constant column of \<open>input_rows_count\<close> rows. Otherwise
  \<^verbatim>\<open>executeImpl\<close> runs on the arguments as they are.
\<close>

definition isColumnConst :: "Column \<Rightarrow> bool" where
  "isColumnConst c = (case c of ColumnConst d s \<Rightarrow> True | _ \<Rightarrow> False)"

definition one_row_argument ::
  "nat list \<Rightarrow> nat \<Rightarrow> ColumnWithTypeAndName \<Rightarrow> ColumnWithTypeAndName" where
  "one_row_argument always_constant arg_num argument =
     (case column argument of
        ColumnConst d s \<Rightarrow>
          if arg_num \<in> set always_constant then argument\<lparr>column := ColumnConst d 1\<rparr>
          else argument\<lparr>column := d\<rparr>
      | _ \<Rightarrow> argument)"

definition defaultImplementationForConstantArguments ::
  "nat list \<Rightarrow> (ColumnWithTypeAndName list \<Rightarrow> DataType \<Rightarrow> nat \<Rightarrow> Failure + Column) \<Rightarrow>
   ColumnWithTypeAndName list \<Rightarrow> DataType \<Rightarrow> nat \<Rightarrow> Failure + Column" where
  "defaultImplementationForConstantArguments always_constant executeImpl arguments result_type
       input_rows_count =
     (if arguments \<noteq> [] \<and> list_all (\<lambda>argument. isColumnConst (column argument)) arguments then
        (case executeImpl
                (map2 (one_row_argument always_constant) [0..<length arguments] arguments)
                result_type 1 of
           Inl e \<Rightarrow> Inl e
         | Inr c \<Rightarrow> Inr (ColumnConst c input_rows_count))
      else executeImpl arguments result_type input_rows_count)"

text \<open>
  The specification's Attribute Type Resolver: the first attribute of that name decides;
  no such attribute, or a declared type without executor, is an error. The resolver of
  dictGetOrDefault also holds the type of the default argument against the declared type.
\<close>

definition resolve_attribute ::
  "(string \<times> DataType) list \<Rightarrow> string \<Rightarrow> Failure + DataType \<times> IFunction" where
  "resolve_attribute attrs attr_name =
     (case List.find (\<lambda>attribute. fst attribute = attr_name) attrs of
        None \<Rightarrow> Inl (no_such_attribute attr_name)
      | Some attribute \<Rightarrow>
          (if snd attribute = DataTypeString then Inr (snd attribute, FunctionDictGetString)
           else case dispatch_type (snd attribute) of
                  None \<Rightarrow> Inl (Exception ''Unknown dictGet type'' UNKNOWN_TYPE)
                | Some T \<Rightarrow> Inr (snd attribute, FunctionDictGet T)))"

definition resolve_attribute_or_default ::
  "(string \<times> DataType) list \<Rightarrow> string \<Rightarrow> DataType \<Rightarrow> Failure + DataType \<times> IFunction" where
  "resolve_attribute_or_default attrs attr_name default_type =
     (case List.find (\<lambda>attribute. fst attribute = attr_name) attrs of
        None \<Rightarrow> Inl (no_such_attribute attr_name)
      | Some attribute \<Rightarrow>
          (if snd attribute = DataTypeString then
             (if default_type = DataTypeString then Inr (snd attribute, FunctionDictGetStringOrDefault)
              else Inl (illegal_type default_type ''fourth'' ''dictGetOrDefault'' '', must be String.''))
           else case dispatch_type (snd attribute) of
                  None \<Rightarrow> Inl (Exception ''Unknown dictGetOrDefault type'' UNKNOWN_TYPE)
                | Some T \<Rightarrow>
                    (if default_type = snd attribute then Inr (snd attribute, FunctionDictGetOrDefault T)
                     else Inl (illegal_type default_type ''fourth'' ''dictGetOrDefault''
                                 ('', must be '' @ TypeName T @ ''.'')))))"

text \<open>
  Example columns and an example dictionary after the specification's scenario
  (\<open>parent(100) = 10\<close>, \<open>parent(10) = 1\<close>, \<open>parent(1) = 0\<close>), of any concrete class and with
  or without hierarchy, and a registry that holds it under the name \<open>geo\<close>.
\<close>

definition const_string :: "string \<Rightarrow> nat \<Rightarrow> ColumnWithTypeAndName" where
  "const_string v s = \<lparr>column = ColumnConst (ColumnString [v]) s, data_type = DataTypeString\<rparr>"

definition const_number :: "DataType \<Rightarrow> NumberType \<Rightarrow> int \<Rightarrow> nat \<Rightarrow> ColumnWithTypeAndName" where
  "const_number t T v s = \<lparr>column = ColumnConst (ColumnVector T [v]) s, data_type = t\<rparr>"

definition vector_number :: "DataType \<Rightarrow> NumberType \<Rightarrow> int list \<Rightarrow> ColumnWithTypeAndName" where
  "vector_number t T xs = \<lparr>column = ColumnVector T xs, data_type = t\<rparr>"

definition vector_string :: "string list \<Rightarrow> ColumnWithTypeAndName" where
  "vector_string xs = \<lparr>column = ColumnString xs, data_type = DataTypeString\<rparr>"

definition geo_dictionary :: "DictionaryType \<Rightarrow> bool \<Rightarrow> Dictionary" where
  "geo_dictionary K h =
     \<lparr>dynamic_type = K,
      getTypeName = ''Example'',
      getKeyDescription = ''(UInt64)'',
      hasHierarchy = h,
      attributes = [(''parent_region'', DataTypeUInt64), (''name'', DataTypeString),
                    (''population'', DataTypeUInt32), (''codes'', DataTypeArray DataTypeUInt8)],
      has_key = (\<lambda>k. k = 1 \<or> k = 10 \<or> k = 100),
      get_number = (\<lambda>T attr k. if attr = ''parent_region'' then uint (geo k) else
                      if attr = ''population'' \<and> (k = 1 \<or> k = 10 \<or> k = 100) then 1000 * uint k else 0),
      get_string = (\<lambda>attr k. if k = 1 then ''world'' else if k = 10 then ''land''
                      else if k = 100 then ''town'' else []),
      parent_of = geo,
      is_in = (\<lambda>c a. a \<in> set (chain_to_sentinel 3 geo c)),
      complex_has = (\<lambda>key_columns key_types. []),
      complex_get_number = (\<lambda>T attr key_columns key_types. []),
      complex_get_string = (\<lambda>attr key_columns key_types. []),
      complex_get_number_or_default = (\<lambda>T attr key_columns key_types def. []),
      complex_get_string_or_default = (\<lambda>attr key_columns key_types def. []),
      range_get_number = (\<lambda>T attr ids dates. []),
      range_get_string = (\<lambda>attr ids dates. [])\<rparr>"

definition geo_registry :: "DictionaryType \<Rightarrow> bool \<Rightarrow> ExternalDictionaries" where
  "geo_registry K h dict_name = (if dict_name = ''geo'' then Some (geo_dictionary K h) else None)"


text \<open>
  A hashed dictionary whose parent relation is the specification's cycle
  (\<open>parent(5) = 7\<close>, \<open>parent(7) = 5\<close>), and a registry that holds it under the name \<open>loop\<close>.
\<close>

definition two_cycle_dictionary :: Dictionary where
  "two_cycle_dictionary = (geo_dictionary HashedDictionary True)\<lparr>parent_of := two_cycle\<rparr>"

definition two_cycle_registry :: ExternalDictionaries where
  "two_cycle_registry dict_name = (if dict_name = ''loop'' then Some two_cycle_dictionary else None)"

section \<open>Definitions used by the proofs\<close>

text \<open>What one scan does to a row, for the proofs.\<close>

definition row_after :: "Key \<Rightarrow> Key list \<Rightarrow> Key list" where
  "row_after k h = (if k = 0 \<or> k \<in> set h then h else h @ [k])"

text \<open>
  The identifiers a row can still take: every round that does not break appends a new
  identifier to some row, so the sum over the rows decreases.
\<close>

definition rows_left :: "nat \<Rightarrow> Key list list \<Rightarrow> nat" where
  "rows_left n hs = (\<Sum>i<n. card (- set (hs ! i)))"

text \<open>
  The state of a row whose walk is to end as \<open>t\<close>: the parents of the chain lie in the
  chain or are the current identifier, and either the walk is still on its way to \<open>t\<close>,
  or the chain is \<open>t\<close> and the current identifier can add nothing.
\<close>

definition walk_state :: "(Key \<Rightarrow> Key) \<Rightarrow> Key list \<Rightarrow> Key \<Rightarrow> Key list \<Rightarrow> bool" where
  "walk_state parent t k h \<longleftrightarrow>
     (\<forall>x\<in>set h. parent x \<in> insert k (set h)) \<and>
     ((ancestor_chain parent k h = t \<and> (h = [] \<or> k = parent (last h))) \<or>
      (h = t \<and> (k = 0 \<or> k \<in> set h) \<and> (k = 0 \<longrightarrow> parent 0 = 0)))"

definition row_ok :: "(Key \<Rightarrow> Key) \<Rightarrow> Key list \<Rightarrow> nat \<Rightarrow> Key \<Rightarrow> Key list \<Rightarrow> bool" where
  "row_ok parent ids i k h \<longleftrightarrow>
     distinct h \<and> 0 \<notin> set h \<and>
     (cut_by_repeat_or_fixed_sentinel parent (ids ! i) \<longrightarrow>
        walk_state parent (ancestor_chain parent (ids ! i) []) k h)"

section \<open>Proofs about the hierarchy walk\<close>

subsection \<open>One round of the loop\<close>

lemma fold_store_row:
  assumes "length hs = n" and "k \<le> n"
  shows "\<exists>tc'. fold (store_row ins) [0..<k] (az, hs, tc) =
           (az \<and> (\<forall>i<k. ins ! i = 0 \<or> ins ! i \<in> set (hs ! i)),
            map (\<lambda>i. if i < k then row_after (ins ! i) (hs ! i) else hs ! i) [0..<n],
            tc')"
  using assms(2)
proof (induction k)
  case 0
  have "map (\<lambda>i. hs ! i) [0..<n] = hs"
    unfolding assms(1)[symmetric] by (rule map_nth)
  then show ?case by simp
next
  case (Suc k)
  then have kn: "k < n" by simp
  from Suc obtain tc' where f: "fold (store_row ins) [0..<k] (az, hs, tc) =
           (az \<and> (\<forall>i<k. ins ! i = 0 \<or> ins ! i \<in> set (hs ! i)),
            map (\<lambda>i. if i < k then row_after (ins ! i) (hs ! i) else hs ! i) [0..<n],
            tc')"
    by auto
  let ?hs' = "map (\<lambda>i. if i < k then row_after (ins ! i) (hs ! i) else hs ! i) [0..<n]"
  have at_k: "?hs' ! k = hs ! k" using kn by simp
  have upd: "?hs'[k := row_after (ins ! k) (hs ! k)] =
        map (\<lambda>i. if i < Suc k then row_after (ins ! i) (hs ! i) else hs ! i) [0..<n]"
    using kn by (auto simp: list_eq_iff_nth_eq nth_list_update less_Suc_eq)
  have same: "row_after (ins ! k) (hs ! k) = hs ! k \<Longrightarrow> ?hs' =
        map (\<lambda>i. if i < Suc k then row_after (ins ! i) (hs ! i) else hs ! i) [0..<n]"
    using kn by (auto simp: list_eq_iff_nth_eq less_Suc_eq)
  have step: "fold (store_row ins) [0..<Suc k] (az, hs, tc) =
      store_row ins k (az \<and> (\<forall>i<k. ins ! i = 0 \<or> ins ! i \<in> set (hs ! i)), ?hs', tc')"
    by (simp add: f)
  show ?case
  proof (cases "ins ! k = 0 \<or> ins ! k \<in> set (hs ! k)")
    case True
    then have r: "row_after (ins ! k) (hs ! k) = hs ! k" by (simp add: row_after_def)
    have "store_row ins k (az \<and> (\<forall>i<k. ins ! i = 0 \<or> ins ! i \<in> set (hs ! i)), ?hs', tc') =
        (az \<and> (\<forall>i<Suc k. ins ! i = 0 \<or> ins ! i \<in> set (hs ! i)),
         map (\<lambda>i. if i < Suc k then row_after (ins ! i) (hs ! i) else hs ! i) [0..<n], tc')"
      unfolding store_row_def using True same[OF r] at_k
      by (auto simp: less_Suc_eq Let_def)
    then show ?thesis unfolding step by blast
  next
    case False
    then have r: "row_after (ins ! k) (hs ! k) = hs ! k @ [ins ! k]" by (simp add: row_after_def)
    have "store_row ins k (az \<and> (\<forall>i<k. ins ! i = 0 \<or> ins ! i \<in> set (hs ! i)), ?hs', tc') =
        (az \<and> (\<forall>i<Suc k. ins ! i = 0 \<or> ins ! i \<in> set (hs ! i)),
         map (\<lambda>i. if i < Suc k then row_after (ins ! i) (hs ! i) else hs ! i) [0..<n], tc' + 1)"
      unfolding store_row_def using False upd[unfolded r] at_k
      by (auto simp: less_Suc_eq Let_def)
    then show ?thesis unfolding step by blast
  qed
qed

lemma fold_store_row_all:
  assumes "length hs = n"
  shows "\<exists>tc'. fold (store_row ins) [0..<n] (True, hs, tc) =
           ((\<forall>i<n. ins ! i = 0 \<or> ins ! i \<in> set (hs ! i)),
            map (\<lambda>i. row_after (ins ! i) (hs ! i)) [0..<n], tc')"
proof -
  have "map (\<lambda>i. if i < n then row_after (ins ! i) (hs ! i) else hs ! i) [0..<n] =
        map (\<lambda>i. row_after (ins ! i) (hs ! i)) [0..<n]"
    by simp
  with fold_store_row[OF assms order_refl, of ins True tc] show ?thesis by simp
qed

subsection \<open>The loop leaves, and keeps every invariant of the rows\<close>

lemma card_compl_insert:
  fixes k :: Key
  assumes "k \<notin> set h"
  shows "card (- insert k (set h)) < card (- set h)"
proof -
  have "- insert k (set h) \<subset> - set h" using assms by auto
  then show ?thesis by (intro psubset_card_mono) simp_all
qed

lemma rows_left_decreases:
  assumes "i < n" and "ins ! i \<noteq> 0" and "ins ! i \<notin> set (hs ! i)"
  shows "rows_left n (map (\<lambda>i. row_after (ins ! i) (hs ! i)) [0..<n]) < rows_left n hs"
  unfolding rows_left_def
proof (rule sum_strict_mono_ex1)
  show "finite {..<n}" by simp
  show "\<forall>j\<in>{..<n}. card (- set (map (\<lambda>i. row_after (ins ! i) (hs ! i)) [0..<n] ! j))
          \<le> card (- set (hs ! j))"
    by (auto simp: row_after_def intro!: card_mono)
  show "\<exists>j\<in>{..<n}. card (- set (map (\<lambda>i. row_after (ins ! i) (hs ! i)) [0..<n] ! j))
          < card (- set (hs ! j))"
    using assms card_compl_insert[of "ins ! i" "hs ! i"]
    by (intro bexI[of _ i]) (simp_all add: row_after_def)
qed

lemma get_hierarchies_loop_invariant:
  assumes step: "\<And>i k h. Q i k h \<Longrightarrow> Q i (parent k) (row_after k h)"
  shows "length ins = n \<Longrightarrow> length hs = n \<Longrightarrow> (\<forall>i<n. Q i (ins ! i) (hs ! i)) \<Longrightarrow>
         \<exists>hs' tc'. get_hierarchies_loop parent n ins hs tc = Some (hs', tc') \<and> length hs' = n \<and>
           (\<forall>i<n. \<exists>k. Q i k (hs' ! i) \<and> (k = 0 \<or> k \<in> set (hs' ! i)))"
proof (induction "rows_left n hs" arbitrary: ins hs tc rule: less_induct)
  case less
  let ?hs' = "map (\<lambda>i. row_after (ins ! i) (hs ! i)) [0..<n]"
  from fold_store_row_all[OF less.prems(2), of ins tc] obtain tc' where
    f: "fold (store_row ins) [0..<n] (True, hs, tc) =
           ((\<forall>i<n. ins ! i = 0 \<or> ins ! i \<in> set (hs ! i)), ?hs', tc')"
    by blast
  show ?case
  proof (cases "\<forall>i<n. ins ! i = 0 \<or> ins ! i \<in> set (hs ! i)")
    case True
    have "?hs' = hs"
      using True less.prems(2) by (auto simp: list_eq_iff_nth_eq row_after_def)
    with True f have "get_hierarchies_loop parent n ins hs tc = Some (hs, tc')"
      by (subst get_hierarchies_loop.simps) simp
    with True less.prems show ?thesis by auto
  next
    case False
    then obtain i where i: "i < n" "ins ! i \<noteq> 0" "ins ! i \<notin> set (hs ! i)" by auto
    have dec: "rows_left n ?hs' < rows_left n hs"
      using i by (rule rows_left_decreases)
    have Q': "\<forall>i<n. Q i (map parent ins ! i) (?hs' ! i)"
      using less.prems step by simp
    from False f have "get_hierarchies_loop parent n ins hs tc =
        get_hierarchies_loop parent n (map parent ins) ?hs' tc'"
      by (subst get_hierarchies_loop.simps) (auto simp add: toParent_def)
    moreover have "\<exists>hs'' tc''. get_hierarchies_loop parent n (map parent ins) ?hs' tc' = Some (hs'', tc'') \<and>
        length hs'' = n \<and> (\<forall>i<n. \<exists>k. Q i k (hs'' ! i) \<and> (k = 0 \<or> k \<in> set (hs'' ! i)))"
      using less.hyps[OF dec _ _ Q'] less.prems(1) by simp
    ultimately show ?thesis by simp
  qed
qed

subsection \<open>A row against the specification's walk\<close>

lemma walk_state_init: "walk_state parent (ancestor_chain parent k []) k []"
  by (simp add: walk_state_def)

lemma walk_state_final:
  assumes "walk_state parent t k h" and "k = 0 \<or> k \<in> set h"
  shows "h = t"
  using assms by (auto simp: walk_state_def ancestor_chain.simps[of parent k h])

lemma walk_state_step:
  assumes c: "parent 0 = 0 \<or> (t \<noteq> [] \<and> parent (last t) \<noteq> 0)"
    and z: "0 \<notin> set h"
    and w: "walk_state parent t k h"
  shows "walk_state parent t (parent k) (row_after k h)"
proof (cases "k = 0 \<or> k \<in> set h")
  case False
  then have r: "row_after k h = h @ [k]" by (simp add: row_after_def)
  from False w have a: "ancestor_chain parent k h = t"
    by (auto simp: walk_state_def)
  from w have cl: "\<forall>x\<in>set h. parent x \<in> insert k (set h)"
    by (simp add: walk_state_def)
  have "ancestor_chain parent (parent k) (h @ [k]) = t"
    using a False by (simp add: ancestor_chain.simps[of parent k h])
  moreover have "\<forall>x\<in>set (h @ [k]). parent x \<in> insert (parent k) (set (h @ [k]))"
    using cl by auto
  ultimately show ?thesis unfolding r by (simp add: walk_state_def)
next
  case True
  then have r: "row_after k h = h" by (simp add: row_after_def)
  from walk_state_final[OF w True] have ht: "h = t" .
  from w have cl: "\<forall>x\<in>set h. parent x \<in> insert k (set h)"
    by (simp add: walk_state_def)
  have k0: "k = 0 \<Longrightarrow> parent 0 = 0"
  proof -
    assume k: "k = 0"
    show "parent 0 = 0"
    proof (rule ccontr)
      assume n: "parent 0 \<noteq> 0"
      with c ht have h: "h \<noteq> []" "parent (last h) \<noteq> 0" by auto
      from w n k h z have "k = parent (last h)"
        by (auto simp: walk_state_def)
      with k h show False by simp
    qed
  qed
  have in': "parent k = 0 \<or> parent k \<in> set h"
    using True cl k0 by auto
  have z': "parent k = 0 \<longrightarrow> parent 0 = 0"
    using True cl k0 z by (metis insert_absorb)
  have cl': "\<forall>x\<in>set h. parent x \<in> insert (parent k) (set h)"
  proof
    fix x assume x: "x \<in> set h"
    with cl have "parent x \<in> insert k (set h)" by blast
    then show "parent x \<in> insert (parent k) (set h)"
      using True k0 by auto
  qed
  show ?thesis unfolding r using ht in' z' cl' by (simp add: walk_state_def)
qed

lemma row_ok_step:
  assumes "row_ok parent ids i k h"
  shows "row_ok parent ids i (parent k) (row_after k h)"
proof -
  from assms have d: "distinct h" and z: "0 \<notin> set h" by (simp_all add: row_ok_def)
  have "distinct (row_after k h)" "0 \<notin> set (row_after k h)"
    using d z by (auto simp: row_after_def)
  moreover have "walk_state parent (ancestor_chain parent (ids ! i) []) (parent k) (row_after k h)"
    if c: "cut_by_repeat_or_fixed_sentinel parent (ids ! i)"
  proof (rule walk_state_step[OF _ z])
    show "parent 0 = 0 \<or> ancestor_chain parent (ids ! i) [] \<noteq> [] \<and>
            parent (last (ancestor_chain parent (ids ! i) [])) \<noteq> 0"
      using c by (simp add: cut_by_repeat_or_fixed_sentinel_def Let_def)
    show "walk_state parent (ancestor_chain parent (ids ! i) []) k h"
      using assms c by (simp add: row_ok_def)
  qed
  ultimately show ?thesis by (simp add: row_ok_def)
qed

subsection \<open>The flattening\<close>

lemma fold_fill_row:
  assumes "length hs = n" and "k \<le> n"
  shows "fold (fill_row hs) [0..<k] ([], replicate n 0) =
           (concat (take k hs),
            map (\<lambda>i. if i < k then length (concat (take (Suc i) hs)) else 0) [0..<n])"
  using assms(2)
proof (induction k)
  case 0
  show ?case by (simp add: list_eq_iff_nth_eq)
next
  case (Suc k)
  then have kn: "k < n" by simp
  then have t: "take (Suc k) hs = take k hs @ [hs ! k]"
    using assms(1) by (simp add: take_Suc_conv_app_nth)
  have "(map (\<lambda>i. if i < k then length (concat (take (Suc i) hs)) else 0) [0..<n])
          [k := length (concat (take k hs) @ hs ! k)] =
        map (\<lambda>i. if i < Suc k then length (concat (take (Suc i) hs)) else 0) [0..<n]"
    using kn by (auto simp: list_eq_iff_nth_eq nth_list_update less_Suc_eq t)
  then show ?case
    using Suc kn by (simp add: fill_row_def t Let_def)
qed

lemma fold_fill_row_all:
  assumes "length hs = n"
  shows "fold (fill_row hs) [0..<n] ([], replicate n 0) = (concat hs, chain_ends hs)"
  using fold_fill_row[OF assms order_refl] assms by (simp add: chain_ends_def)

lemma array_row_flatten:
  assumes "i < length hs"
  shows "array_row (concat hs) (chain_ends hs) i = hs ! i"
proof -
  have split: "concat hs = concat (take i hs) @ hs ! i @ concat (drop (Suc i) hs)"
    using assms by (metis append_Cons append_Nil concat.simps(2) concat_append id_take_nth_drop)
  have e: "chain_ends hs ! i = length (concat (take i hs)) + length (hs ! i)"
    using assms by (simp add: chain_ends_def take_Suc_conv_app_nth)
  have b: "(if i = 0 then 0 else chain_ends hs ! (i - 1)) = length (concat (take i hs))"
    using assms by (cases i) (simp_all add: chain_ends_def)
  show ?thesis
    unfolding array_row_def Let_def b e by (subst split) simp
qed

subsection \<open>The rows of every batch\<close>

lemma get_hierarchies_rows:
  "\<exists>hs. get_hierarchies parent ids = Some (concat hs, chain_ends hs) \<and>
        length hs = length ids \<and>
        (\<forall>i<length ids. distinct (hs ! i) \<and> 0 \<notin> set (hs ! i) \<and>
           (cut_by_repeat_or_fixed_sentinel parent (ids ! i) \<longrightarrow>
              hs ! i = ancestor_chain parent (ids ! i) []))"
proof -
  let ?n = "length ids"
  have init: "\<forall>i<?n. row_ok parent ids i (ids ! i) (replicate ?n [] ! i)"
    by (simp add: row_ok_def walk_state_init)
  from get_hierarchies_loop_invariant[of "row_ok parent ids" parent ids ?n "replicate ?n []" 0,
      OF row_ok_step _ _ init]
  obtain hs tc where l: "get_hierarchies_loop parent ?n ids (replicate ?n []) 0 = Some (hs, tc)"
    and len: "length hs = ?n"
    and rows: "\<forall>i<?n. \<exists>k. row_ok parent ids i k (hs ! i) \<and> (k = 0 \<or> k \<in> set (hs ! i))"
    by auto
  have "get_hierarchies parent ids = Some (concat hs, chain_ends hs)"
    by (simp add: get_hierarchies_def Let_def l fold_fill_row_all[OF len])
  moreover have "\<forall>i<?n. distinct (hs ! i) \<and> 0 \<notin> set (hs ! i) \<and>
           (cut_by_repeat_or_fixed_sentinel parent (ids ! i) \<longrightarrow>
              hs ! i = ancestor_chain parent (ids ! i) [])"
  proof (intro allI impI)
    fix i assume "i < ?n"
    with rows obtain k where k: "row_ok parent ids i k (hs ! i)" "k = 0 \<or> k \<in> set (hs ! i)"
      by blast
    then show "distinct (hs ! i) \<and> 0 \<notin> set (hs ! i) \<and>
           (cut_by_repeat_or_fixed_sentinel parent (ids ! i) \<longrightarrow>
              hs ! i = ancestor_chain parent (ids ! i) [])"
      using walk_state_final[of parent "ancestor_chain parent (ids ! i) []" k "hs ! i"]
      by (auto simp: row_ok_def)
  qed
  ultimately show ?thesis using len by blast
qed

subsection \<open>A batch of one row\<close>

text \<open>
  With one row nothing keeps the loop running once that row has stopped, so the row is
  the specification's chain for every parent relation.
\<close>

lemma get_hierarchies_loop_single:
  "\<exists>tc'. get_hierarchies_loop parent (Suc 0) [k] [acc] tc =
          Some ([ancestor_chain parent k acc], tc')"
proof (induction parent k acc arbitrary: tc rule: ancestor_chain.induct)
  case (1 parent k acc)
  show ?case
  proof (cases "k = 0 \<or> k \<in> set acc")
    case True
    then show ?thesis
      by (subst get_hierarchies_loop.simps)
         (auto simp: store_row_def ancestor_chain.simps[of parent k acc])
  next
    case False
    from 1[OF False, of "tc + 1"] obtain tc' where
      "get_hierarchies_loop parent (Suc 0) [parent k] [acc @ [k]] (tc + 1) =
         Some ([ancestor_chain parent (parent k) (acc @ [k])], tc')"
      by blast
    with False show ?thesis
      by (subst get_hierarchies_loop.simps)
         (auto simp: store_row_def toParent_def ancestor_chain.simps[of parent k acc])
  qed
qed

lemma get_hierarchies_single:
  "get_hierarchies parent [k] =
     Some (ancestor_chain parent k [], [length (ancestor_chain parent k [])])"
proof -
  from get_hierarchies_loop_single[of parent k "[]" 0] obtain tc' where
    "get_hierarchies_loop parent (Suc 0) [k] [[]] 0 = Some ([ancestor_chain parent k []], tc')"
    by blast
  then show ?thesis
    by (simp add: get_hierarchies_def fill_row_def)
qed

lemma array_row_single: "array_row out [length out] 0 = out"
  by (simp add: array_row_def)

lemma ancestor_chain_distinct_acc:
  "distinct acc \<Longrightarrow> distinct (ancestor_chain parent k acc)"
proof (induction parent k acc rule: ancestor_chain.induct)
  case (1 parent k acc)
  then show ?case
    by (cases "k = 0 \<or> k \<in> set acc") (simp_all add: ancestor_chain.simps[of parent k acc])
qed

lemma ancestor_chain_distinct: "distinct (ancestor_chain parent k [])"
  by (rule ancestor_chain_distinct_acc) simp

subsection \<open>The walk of an acyclic relation\<close>

lemma funpow_fixed: "f x = x \<Longrightarrow> (f ^^ n) x = x"
  by (induction n) simp_all

lemma no_return_before_sentinel:
  fixes parent :: "Key \<Rightarrow> Key"
  assumes p0: "parent 0 = 0" and reach: "(parent ^^ n) k = 0"
    and m: "0 < m" and ret: "(parent ^^ m) k = k"
  shows "k = 0"
proof -
  have "((parent ^^ m) ^^ n) k = k" using ret by (rule funpow_fixed)
  then have a: "(parent ^^ (m * n)) k = k" by (simp add: funpow_mult)
  have "m * n = (m * n - n) + n" using m by (cases m) simp_all
  then have "(parent ^^ (m * n)) k = (parent ^^ (m * n - n)) ((parent ^^ n) k)"
    by (metis comp_apply funpow_add)
  also have "\<dots> = 0" unfolding reach using p0 by (rule funpow_fixed)
  finally show ?thesis using a by simp
qed

lemma ancestor_chain_sentinel: "ancestor_chain parent 0 acc = acc"
  by (simp add: ancestor_chain.simps[of parent 0 acc])

lemma ancestor_chain_acyclic_acc:
  assumes p0: "parent 0 = 0"
  shows "(parent ^^ n) k = 0 \<Longrightarrow>
         (\<forall>x\<in>set acc. x \<noteq> 0 \<and> (\<exists>m>0. (parent ^^ m) x = k)) \<Longrightarrow>
         ancestor_chain parent k acc = acc @ chain_to_sentinel n parent k"
proof (induction n arbitrary: k acc)
  case 0
  then show ?case by (simp add: ancestor_chain_sentinel)
next
  case (Suc n)
  show ?case
  proof (cases "k = 0")
    case True
    then show ?thesis by (simp add: ancestor_chain_sentinel)
  next
    case False
    have notin: "k \<notin> set acc"
    proof
      assume "k \<in> set acc"
      with Suc.prems(2) obtain m where "0 < m" "(parent ^^ m) k = k" by blast
      from no_return_before_sentinel[OF p0 Suc.prems(1) this] False show False by simp
    qed
    have reach': "(parent ^^ n) (parent k) = 0"
      using Suc.prems(1) by (simp add: funpow_swap1)
    have pre': "\<forall>x\<in>set (acc @ [k]). x \<noteq> 0 \<and> (\<exists>m>0. (parent ^^ m) x = parent k)"
    proof
      fix x assume "x \<in> set (acc @ [k])"
      then consider "x \<in> set acc" | "x = k" by auto
      then show "x \<noteq> 0 \<and> (\<exists>m>0. (parent ^^ m) x = parent k)"
      proof cases
        case 1
        with Suc.prems(2) obtain m where "x \<noteq> 0" "0 < m" "(parent ^^ m) x = k" by blast
        then have "x \<noteq> 0" "0 < Suc m" "(parent ^^ Suc m) x = parent k" by simp_all
        then show ?thesis by blast
      next
        case 2
        have "0 < Suc 0" "(parent ^^ Suc 0) k = parent k" by simp_all
        with 2 False show ?thesis by blast
      qed
    qed
    from Suc.IH[OF reach' pre'] False notin show ?thesis
      by (simp add: ancestor_chain.simps[of parent k acc])
  qed
qed

lemma ancestor_chain_acyclic:
  assumes "parent 0 = 0" and "(parent ^^ n) k = 0"
  shows "ancestor_chain parent k [] = chain_to_sentinel n parent k"
  using ancestor_chain_acyclic_acc[OF assms(1) assms(2), of "[]"] by simp

subsection \<open>The claims about the walk\<close>

lemma two_cycle_chain:
  assumes "parent 5 = 7" and "parent 7 = 5"
  shows "ancestor_chain parent 5 [] = [5, 7]"
proof -
  have "ancestor_chain parent 5 [] = ancestor_chain parent 7 [5]"
    using assms by (simp add: ancestor_chain.simps[of parent 5 "[]"])
  also have "\<dots> = ancestor_chain parent 5 [5, 7]"
    using assms by (simp add: ancestor_chain.simps[of parent 7 "[5]"])
  also have "\<dots> = [5, 7]"
    by (simp add: ancestor_chain.simps[of parent 5 "[5, 7]"])
  finally show ?thesis .
qed

text \<open>
  The lambda on its own: for every sequence of input identifiers and every parent
  relation, cyclic or not, the walk ends (the result is never \<open>None\<close>) with one offset per
  row, and no row's chain holds an identifier twice. A row whose walk is cut by a repeated
  identifier (or any row, when the sentinel is its own parent) holds exactly the
  specification's chain.
\<close>

lemma get_hierarchies_total:
  "case get_hierarchies parent ids of
     None \<Rightarrow> False
   | Some (out, offsets) \<Rightarrow>
       length offsets = length ids \<and>
       (\<forall>i<length ids.
          distinct (array_row out offsets i) \<and>
          (cut_by_repeat_or_fixed_sentinel parent (ids ! i) \<longrightarrow>
             array_row out offsets i = ancestor_chain parent (ids ! i) []) \<and>
          (parent 5 = 7 \<and> parent 7 = 5 \<and> ids ! i = 5 \<longrightarrow> array_row out offsets i = [5, 7]))"
proof -
  from get_hierarchies_rows[of parent ids] obtain hs where
    g: "get_hierarchies parent ids = Some (concat hs, chain_ends hs)"
    and len: "length hs = length ids"
    and rows: "\<forall>i<length ids. distinct (hs ! i) \<and> 0 \<notin> set (hs ! i) \<and>
           (cut_by_repeat_or_fixed_sentinel parent (ids ! i) \<longrightarrow>
              hs ! i = ancestor_chain parent (ids ! i) [])"
    by blast
  have "distinct (array_row (concat hs) (chain_ends hs) i) \<and>
          (cut_by_repeat_or_fixed_sentinel parent (ids ! i) \<longrightarrow>
             array_row (concat hs) (chain_ends hs) i = ancestor_chain parent (ids ! i) []) \<and>
          (parent 5 = 7 \<and> parent 7 = 5 \<and> ids ! i = 5 \<longrightarrow>
             array_row (concat hs) (chain_ends hs) i = [5, 7])"
    if i: "i < length ids" for i
  proof -
    have r: "array_row (concat hs) (chain_ends hs) i = hs ! i"
      using i len by (simp add: array_row_flatten)
    have "hs ! i = [5, 7]" if p: "parent 5 = 7" "parent 7 = 5" and k: "ids ! i = 5"
    proof -
      have c: "ancestor_chain parent 5 [] = [5, 7]" using p by (rule two_cycle_chain)
      then have "cut_by_repeat_or_fixed_sentinel parent (ids ! i)"
        using p k by (simp add: cut_by_repeat_or_fixed_sentinel_def)
      with rows i k c show ?thesis by simp
    qed
    with rows i show ?thesis unfolding r by blast
  qed
  then show ?thesis
    unfolding g using len by (simp add: chain_ends_def)
qed

lemma get_hierarchies_two_cycle: "get_hierarchies two_cycle [5, 7, 0] = Some ([5, 7, 7, 5], [2, 4, 4])"
  by code_simp

text \<open>
  The lambda on a parent relation with sentinel 0 (0 is its own parent) that is acyclic on
  the batch (every input identifier reaches 0 within \<open>n\<close> steps): each row is the chain
  \<open>[id, parent(id), parent(parent(id)), ...]\<close> stopping before 0, and the rows are emitted
  as one flat buffer with the cumulative offsets of the rows' ends.
\<close>

lemma get_hierarchies_chains:
  assumes "parent 0 = 0" and "\<forall>k\<in>set ids. (parent ^^ n) k = 0"
  shows "get_hierarchies parent ids =
           Some (concat (map (chain_to_sentinel n parent) ids),
                 chain_ends (map (chain_to_sentinel n parent) ids)) \<and>
         (\<forall>i<length ids.
            array_row (concat (map (chain_to_sentinel n parent) ids))
              (chain_ends (map (chain_to_sentinel n parent) ids)) i =
              chain_to_sentinel n parent (ids ! i) \<and>
            (ids ! i = 0 \<longrightarrow> chain_to_sentinel n parent (ids ! i) = []))"
proof -
  from get_hierarchies_rows[of parent ids] obtain hs where
    g: "get_hierarchies parent ids = Some (concat hs, chain_ends hs)"
    and len: "length hs = length ids"
    and rows: "\<forall>i<length ids. distinct (hs ! i) \<and> 0 \<notin> set (hs ! i) \<and>
           (cut_by_repeat_or_fixed_sentinel parent (ids ! i) \<longrightarrow>
              hs ! i = ancestor_chain parent (ids ! i) [])"
    by blast
  have "hs ! i = chain_to_sentinel n parent (ids ! i)" if i: "i < length ids" for i
  proof -
    have "(parent ^^ n) (ids ! i) = 0" using assms(2) i by simp
    then have "ancestor_chain parent (ids ! i) [] = chain_to_sentinel n parent (ids ! i)"
      using assms(1) by (intro ancestor_chain_acyclic)
    moreover have "cut_by_repeat_or_fixed_sentinel parent (ids ! i)"
      using assms(1) by (simp add: cut_by_repeat_or_fixed_sentinel_def)
    ultimately show ?thesis using rows i by simp
  qed
  then have hs: "hs = map (chain_to_sentinel n parent) ids"
    using len by (simp add: list_eq_iff_nth_eq)
  have z: "chain_to_sentinel n parent 0 = []" by (cases n) simp_all
  show ?thesis
    unfolding g hs using z by (simp add: array_row_flatten)
qed

lemma geo_reaches: "\<forall>k\<in>set [100, 10, 0, 1]. (geo ^^ 3) k = 0"
  by code_simp

lemma geo_rows: "map (chain_to_sentinel 3 geo) [100, 10, 0, 1] = [[100, 10, 1], [10, 1], [], [1]]"
  by code_simp

text \<open>
  When the sentinel has a parent of its own, a finished row is revived as long as another
  row of the batch keeps the loop running: the row of 1 is \<open>[1]\<close> alone and \<open>[1, 3]\<close>
  next to the row of 2.
\<close>

lemma get_hierarchies_depends_on_batch:
  "get_hierarchies sentinel_with_parent [1] = Some ([1], [1]) \<and>
   get_hierarchies sentinel_with_parent [1, 2] = Some ([1, 3, 2, 1, 3], [2, 5])"
  by code_simp

section \<open>Proofs about the function layer\<close>

lemma or_throw_last: "or_throw a e = try_each [a] e"
  by (simp add: or_throw_def split: sum.splits option.splits)

lemma or_throw_or_else:
  assumes "or_throw b e = try_each ps e"
  shows "or_throw (or_else a b) e = try_each (a # ps) e"
proof (cases a)
  case (Inl x)
  then show ?thesis by (simp add: or_else_def or_throw_def)
next
  case (Inr r)
  then show ?thesis using assms by (cases r) (simp_all add: or_else_def or_throw_def)
qed

lemma chain3:
  "or_throw (or_else a1 (or_else a2 a3)) e = try_each [a1, a2, a3] e"
  by (intro or_throw_or_else or_throw_last)

lemma chain6:
  "or_throw (or_else a1 (or_else a2 (or_else a3 (or_else a4 (or_else a5 a6))))) e =
   try_each [a1, a2, a3, a4, a5, a6] e"
  by (intro or_throw_or_else or_throw_last)

lemma chain7:
  "or_throw (or_else a1 (or_else a2 (or_else a3 (or_else a4 (or_else a5 (or_else a6 a7)))))) e =
   try_each [a1, a2, a3, a4, a5, a6, a7] e"
  by (intro or_throw_or_else or_throw_last)

lemma executeImpl_resolved_rows:
  assumes "checkAndGetColumnConstString (column (arguments ! 0)) = Some (dict_name, s)"
    and "0 < input_rows_count"
    and "dictionaries dict_name = Some dict"
  shows "executeImpl_resolved name dictionaries arguments result_type input_rows_count dispatch =
           or_throw (dispatch dict)
             (Exception (''Unsupported dictionary type '' @ getTypeName dict) UNKNOWN_TYPE)"
  using assms by (simp add: executeImpl_resolved_def getDictionary_def)







lemmas column_checks =
  checkAndGetColumnConstString_def checkAndGetColumnVector_def checkAndGetColumnConstVector_def
  checkAndGetColumnString_def checkAndGetColumnConstStringOrFixedString_def

lemma simple_kind_cases:
  assumes "dynamic_type dict \<in> {FlatDictionary, HashedDictionary, CacheDictionary}"
  obtains "dynamic_type dict = FlatDictionary" | "dynamic_type dict = HashedDictionary"
    | "dynamic_type dict = CacheDictionary"
  using assms by auto

lemma try_each_simple:
  assumes "dynamic_type dict \<in> {FlatDictionary, HashedDictionary, CacheDictionary}"
    and "\<And>K. K \<noteq> dynamic_type dict \<Longrightarrow> probe K = Inr None"
    and "probe (dynamic_type dict) = map_sum id Some r"
  shows "try_each (probe FlatDictionary # probe HashedDictionary # probe CacheDictionary # rest) e = r"
  using assms(1)
proof (cases rule: simple_kind_cases)
  case 1
  then show ?thesis using assms(3) by (cases r) simp_all
next
  case 2
  then have "probe FlatDictionary = Inr None" using assms(2)[of FlatDictionary] by simp
  then show ?thesis using assms(3) 2 by (cases r) simp_all
next
  case 3
  then have "probe FlatDictionary = Inr None" "probe HashedDictionary = Inr None"
    using assms(2)[of FlatDictionary] assms(2)[of HashedDictionary] by simp_all
  then show ?thesis using assms(3) 3 by (cases r) simp_all
qed

text \<open>
  Claim C4. Get-or-default on a scalar-keyed dictionary, with a constant identifier column
  of \<open>n > 0\<close> rows and a vector default column: when the key is absent the result is the
  caller's default column itself, and when it is present the result is the constant
  column of \<open>n\<close> rows that holds the fetched value. Both for the numeric types and for
  strings.
\<close>

theorem get_or_default_constant_id_vector_default:
  assumes "dynamic_type dict \<in> {FlatDictionary, HashedDictionary, CacheDictionary}"
    and "dictionaries dict_name = Some dict"
    and "0 < n"
  shows
    "FunctionDictGetOrDefault_executeImpl T dictionaries
       [\<lparr>column = ColumnConst (ColumnString [dict_name]) n, data_type = t0\<rparr>,
        \<lparr>column = ColumnConst (ColumnString [attr_name]) n, data_type = t1\<rparr>,
        \<lparr>column = ColumnConst (ColumnVector TUInt64 [k]) n, data_type = t2\<rparr>,
        \<lparr>column = ColumnVector (FieldType T) defs, data_type = t3\<rparr>] result_type n =
       Inr (if has_key dict (word_of_int k)
            then ColumnConst (ColumnVector (FieldType T)
                   [get_number dict (FieldType T) attr_name (word_of_int k)]) n
            else ColumnVector (FieldType T) defs) \<and>
     FunctionDictGetStringOrDefault_executeImpl dictionaries
       [\<lparr>column = ColumnConst (ColumnString [dict_name]) n, data_type = t0\<rparr>,
        \<lparr>column = ColumnConst (ColumnString [attr_name]) n, data_type = t1\<rparr>,
        \<lparr>column = ColumnConst (ColumnVector TUInt64 [k]) n, data_type = t2\<rparr>,
        \<lparr>column = ColumnString sdefs, data_type = t3\<rparr>] result_type n =
       Inr (if has_key dict (word_of_int k)
            then ColumnConst (ColumnString [get_string dict attr_name (word_of_int k)]) n
            else ColumnString sdefs)"
proof -
  let ?args = "[\<lparr>column = ColumnConst (ColumnString [dict_name]) n, data_type = t0\<rparr>,
        \<lparr>column = ColumnConst (ColumnString [attr_name]) n, data_type = t1\<rparr>,
        \<lparr>column = ColumnConst (ColumnVector TUInt64 [k]) n, data_type = t2\<rparr>,
        \<lparr>column = ColumnVector (FieldType T) defs, data_type = t3\<rparr>]"
  let ?sargs = "[\<lparr>column = ColumnConst (ColumnString [dict_name]) n, data_type = t0\<rparr>,
        \<lparr>column = ColumnConst (ColumnString [attr_name]) n, data_type = t1\<rparr>,
        \<lparr>column = ColumnConst (ColumnVector TUInt64 [k]) n, data_type = t2\<rparr>,
        \<lparr>column = ColumnString sdefs, data_type = t3\<rparr>]"
  have n1: "checkAndGetColumnConstString (column (?args ! 0)) = Some (dict_name, n)"
    and n2: "checkAndGetColumnConstString (column (?sargs ! 0)) = Some (dict_name, n)"
    by (simp_all add: column_checks)
  have a: "FunctionDictGetOrDefault_executeDispatch T (dynamic_type dict) ?args dict =
      map_sum id Some (Inr (if has_key dict (word_of_int k)
            then ColumnConst (ColumnVector (FieldType T)
                   [get_number dict (FieldType T) attr_name (word_of_int k)]) n
            else ColumnVector (FieldType T) defs))"
    by (simp add: FunctionDictGetOrDefault_executeDispatch_def
        FunctionDictGetOrDefault_executeDispatch_const_def get_attr_name_def column_checks
        Dictionary_has_def Dictionary_getOrDefault_def createColumnConst_Number_def)
  have b: "FunctionDictGetStringOrDefault_executeDispatch (dynamic_type dict) ?sargs dict =
      map_sum id Some (Inr (if has_key dict (word_of_int k)
            then ColumnConst (ColumnString [get_string dict attr_name (word_of_int k)]) n
            else ColumnString sdefs))"
    by (simp add: FunctionDictGetStringOrDefault_executeDispatch_def
        FunctionDictGetStringOrDefault_executeDispatch_const_def get_attr_name_def column_checks
        Dictionary_has_def Dictionary_getStringOrDefault_def createColumnConst_String_def)
  have na: "\<And>K. K \<noteq> dynamic_type dict \<Longrightarrow>
      FunctionDictGetOrDefault_executeDispatch T K ?args dict = Inr None"
    by (simp add: FunctionDictGetOrDefault_executeDispatch_def)
  have nb: "\<And>K. K \<noteq> dynamic_type dict \<Longrightarrow>
      FunctionDictGetStringOrDefault_executeDispatch K ?sargs dict = Inr None"
    by (simp add: FunctionDictGetStringOrDefault_executeDispatch_def)
  have "FunctionDictGetOrDefault_executeImpl T dictionaries ?args result_type n =
       Inr (if has_key dict (word_of_int k)
            then ColumnConst (ColumnVector (FieldType T)
                   [get_number dict (FieldType T) attr_name (word_of_int k)]) n
            else ColumnVector (FieldType T) defs)"
    unfolding FunctionDictGetOrDefault_executeImpl_def
      executeImpl_resolved_rows[where dictionaries = dictionaries and dict = dict, OF n1 assms(3) assms(2)]
      chain6
    by (rule try_each_simple[where probe = "\<lambda>K. FunctionDictGetOrDefault_executeDispatch T K ?args dict",
          OF assms(1) na a])
  moreover have "FunctionDictGetStringOrDefault_executeImpl dictionaries ?sargs result_type n =
       Inr (if has_key dict (word_of_int k)
            then ColumnConst (ColumnString [get_string dict attr_name (word_of_int k)]) n
            else ColumnString sdefs)"
    unfolding FunctionDictGetStringOrDefault_executeImpl_def
      executeImpl_resolved_rows[where dictionaries = dictionaries and dict = dict, OF n2 assms(3) assms(2)]
      chain6
    by (rule try_each_simple[where probe = "\<lambda>K. FunctionDictGetStringOrDefault_executeDispatch K ?sargs dict",
          OF assms(1) nb b])
  ultimately show ?thesis by blast
qed

text \<open>
  Claim C5. With a constant identifier column of \<open>n > 0\<close> rows on a scalar-keyed
  dictionary (and a constant default, for get-or-default), every get returns the constant
  column of \<open>n\<close> rows whose value is the looked-up value of the identifier, the default
  when get-or-default does not find the key. The first three equations are the
  constant-identifier branches of \<^verbatim>\<open>executeDispatch\<close> (lines 784-789, 1054-1061, 553-560),
  called on the constant columns themselves. The others are the functions as the framework
  calls them on constant arguments: dictGetString, which has no such branch, the three
  others, and the type-erased dictGet and dictGetOrDefault holding each typed function.
\<close>

theorem constant_id_gives_constant_column:
  assumes "dynamic_type dict \<in> {FlatDictionary, HashedDictionary, CacheDictionary}"
    and "dictionaries dict_name = Some dict"
    and "0 < n"
  shows
    "FunctionDictGet_executeImpl T dictionaries
       [\<lparr>column = ColumnConst (ColumnString [dict_name]) n, data_type = t0\<rparr>,
        \<lparr>column = ColumnConst (ColumnString [attr_name]) n, data_type = t1\<rparr>,
        \<lparr>column = ColumnConst (ColumnVector TUInt64 [k]) n, data_type = t2\<rparr>] result_type n =
       Inr (ColumnConst (ColumnVector (FieldType T)
              [get_number dict (FieldType T) attr_name (word_of_int k)]) n) \<and>
     FunctionDictGetOrDefault_executeImpl T dictionaries
       [\<lparr>column = ColumnConst (ColumnString [dict_name]) n, data_type = t0\<rparr>,
        \<lparr>column = ColumnConst (ColumnString [attr_name]) n, data_type = t1\<rparr>,
        \<lparr>column = ColumnConst (ColumnVector TUInt64 [k]) n, data_type = t2\<rparr>,
        \<lparr>column = ColumnConst (ColumnVector (FieldType T) [d]) n, data_type = t3\<rparr>] result_type n =
       Inr (ColumnConst (ColumnVector (FieldType T)
              [if has_key dict (word_of_int k)
               then get_number dict (FieldType T) attr_name (word_of_int k) else d]) n) \<and>
     FunctionDictGetStringOrDefault_executeImpl dictionaries
       [\<lparr>column = ColumnConst (ColumnString [dict_name]) n, data_type = t0\<rparr>,
        \<lparr>column = ColumnConst (ColumnString [attr_name]) n, data_type = t1\<rparr>,
        \<lparr>column = ColumnConst (ColumnVector TUInt64 [k]) n, data_type = t2\<rparr>,
        \<lparr>column = ColumnConst (ColumnString [sd]) n, data_type = t3\<rparr>] result_type n =
       Inr (ColumnConst (ColumnString
              [if has_key dict (word_of_int k) then get_string dict attr_name (word_of_int k) else sd]) n) \<and>
     defaultImplementationForConstantArguments [0, 1]
         (FunctionDictGetString_executeImpl dictionaries)
         [\<lparr>column = ColumnConst (ColumnString [dict_name]) n, data_type = t0\<rparr>,
          \<lparr>column = ColumnConst (ColumnString [attr_name]) n, data_type = t1\<rparr>,
          \<lparr>column = ColumnConst (ColumnVector TUInt64 [k]) n, data_type = t2\<rparr>] result_type n =
       Inr (ColumnConst (ColumnString [get_string dict attr_name (word_of_int k)]) n) \<and>
     defaultImplementationForConstantArguments [0, 1]
         (FunctionDictGet_executeImpl T dictionaries)
         [\<lparr>column = ColumnConst (ColumnString [dict_name]) n, data_type = t0\<rparr>,
          \<lparr>column = ColumnConst (ColumnString [attr_name]) n, data_type = t1\<rparr>,
          \<lparr>column = ColumnConst (ColumnVector TUInt64 [k]) n, data_type = t2\<rparr>] result_type n =
       Inr (ColumnConst (ColumnVector (FieldType T)
                [get_number dict (FieldType T) attr_name (word_of_int k)]) n) \<and>
     defaultImplementationForConstantArguments [0, 1]
         (FunctionDictGetOrDefault_executeImpl T dictionaries)
         [\<lparr>column = ColumnConst (ColumnString [dict_name]) n, data_type = t0\<rparr>,
          \<lparr>column = ColumnConst (ColumnString [attr_name]) n, data_type = t1\<rparr>,
          \<lparr>column = ColumnConst (ColumnVector TUInt64 [k]) n, data_type = t2\<rparr>,
          \<lparr>column = ColumnConst (ColumnVector (FieldType T) [d]) n, data_type = t3\<rparr>] result_type n =
       Inr (ColumnConst (ColumnVector (FieldType T)
                [if has_key dict (word_of_int k)
                 then get_number dict (FieldType T) attr_name (word_of_int k) else d]) n) \<and>
     defaultImplementationForConstantArguments [0, 1]
         (FunctionDictGetStringOrDefault_executeImpl dictionaries)
         [\<lparr>column = ColumnConst (ColumnString [dict_name]) n, data_type = t0\<rparr>,
          \<lparr>column = ColumnConst (ColumnString [attr_name]) n, data_type = t1\<rparr>,
          \<lparr>column = ColumnConst (ColumnVector TUInt64 [k]) n, data_type = t2\<rparr>,
          \<lparr>column = ColumnConst (ColumnString [sd]) n, data_type = t3\<rparr>] result_type n =
       Inr (ColumnConst (ColumnString
                [if has_key dict (word_of_int k) then get_string dict attr_name (word_of_int k) else sd]) n) \<and>
     defaultImplementationForConstantArguments [0, 1]
         (FunctionDictGetNoType_executeImpl (Some FunctionDictGetString) dictionaries)
         [\<lparr>column = ColumnConst (ColumnString [dict_name]) n, data_type = t0\<rparr>,
          \<lparr>column = ColumnConst (ColumnString [attr_name]) n, data_type = t1\<rparr>,
          \<lparr>column = ColumnConst (ColumnVector TUInt64 [k]) n, data_type = t2\<rparr>] result_type n =
       Inr (ColumnConst (ColumnString [get_string dict attr_name (word_of_int k)]) n) \<and>
     defaultImplementationForConstantArguments [0, 1]
         (FunctionDictGetNoType_executeImpl (Some (FunctionDictGet T)) dictionaries)
         [\<lparr>column = ColumnConst (ColumnString [dict_name]) n, data_type = t0\<rparr>,
          \<lparr>column = ColumnConst (ColumnString [attr_name]) n, data_type = t1\<rparr>,
          \<lparr>column = ColumnConst (ColumnVector TUInt64 [k]) n, data_type = t2\<rparr>] result_type n =
       Inr (ColumnConst (ColumnVector (FieldType T)
                [get_number dict (FieldType T) attr_name (word_of_int k)]) n) \<and>
     defaultImplementationForConstantArguments [0, 1]
         (FunctionDictGetNoTypeOrDefault_executeImpl (Some (FunctionDictGetOrDefault T)) dictionaries)
         [\<lparr>column = ColumnConst (ColumnString [dict_name]) n, data_type = t0\<rparr>,
          \<lparr>column = ColumnConst (ColumnString [attr_name]) n, data_type = t1\<rparr>,
          \<lparr>column = ColumnConst (ColumnVector TUInt64 [k]) n, data_type = t2\<rparr>,
          \<lparr>column = ColumnConst (ColumnVector (FieldType T) [d]) n, data_type = t3\<rparr>] result_type n =
       Inr (ColumnConst (ColumnVector (FieldType T)
                [if has_key dict (word_of_int k)
                 then get_number dict (FieldType T) attr_name (word_of_int k) else d]) n) \<and>
     defaultImplementationForConstantArguments [0, 1]
         (FunctionDictGetNoTypeOrDefault_executeImpl (Some FunctionDictGetStringOrDefault) dictionaries)
         [\<lparr>column = ColumnConst (ColumnString [dict_name]) n, data_type = t0\<rparr>,
          \<lparr>column = ColumnConst (ColumnString [attr_name]) n, data_type = t1\<rparr>,
          \<lparr>column = ColumnConst (ColumnVector TUInt64 [k]) n, data_type = t2\<rparr>,
          \<lparr>column = ColumnConst (ColumnString [sd]) n, data_type = t3\<rparr>] result_type n =
       Inr (ColumnConst (ColumnString
                [if has_key dict (word_of_int k) then get_string dict attr_name (word_of_int k) else sd]) n)"
proof -
  let ?args = "[\<lparr>column = ColumnConst (ColumnString [dict_name]) n, data_type = t0\<rparr>,
        \<lparr>column = ColumnConst (ColumnString [attr_name]) n, data_type = t1\<rparr>,
        \<lparr>column = ColumnConst (ColumnVector TUInt64 [k]) n, data_type = t2\<rparr>]"
  let ?dargs = "[\<lparr>column = ColumnConst (ColumnString [dict_name]) n, data_type = t0\<rparr>,
        \<lparr>column = ColumnConst (ColumnString [attr_name]) n, data_type = t1\<rparr>,
        \<lparr>column = ColumnConst (ColumnVector TUInt64 [k]) n, data_type = t2\<rparr>,
        \<lparr>column = ColumnConst (ColumnVector (FieldType T) [d]) n, data_type = t3\<rparr>]"
  let ?sargs = "[\<lparr>column = ColumnConst (ColumnString [dict_name]) n, data_type = t0\<rparr>,
        \<lparr>column = ColumnConst (ColumnString [attr_name]) n, data_type = t1\<rparr>,
        \<lparr>column = ColumnConst (ColumnVector TUInt64 [k]) n, data_type = t2\<rparr>,
        \<lparr>column = ColumnConst (ColumnString [sd]) n, data_type = t3\<rparr>]"
  have n1: "checkAndGetColumnConstString (column (?args ! 0)) = Some (dict_name, n)"
    and n2: "checkAndGetColumnConstString (column (?dargs ! 0)) = Some (dict_name, n)"
    and n3: "checkAndGetColumnConstString (column (?sargs ! 0)) = Some (dict_name, n)"
    by (simp_all add: column_checks)
  have a: "FunctionDictGet_executeDispatch T (dynamic_type dict) ?args dict =
      map_sum id Some (Inr (ColumnConst (ColumnVector (FieldType T)
              [get_number dict (FieldType T) attr_name (word_of_int k)]) n))"
    by (simp add: FunctionDictGet_executeDispatch_def get_attr_name_def column_checks
        Dictionary_get_def createColumnConst_Number_def)
  have b: "FunctionDictGetOrDefault_executeDispatch T (dynamic_type dict) ?dargs dict =
      map_sum id Some (Inr (ColumnConst (ColumnVector (FieldType T)
              [if has_key dict (word_of_int k)
               then get_number dict (FieldType T) attr_name (word_of_int k) else d]) n))"
    by (simp add: FunctionDictGetOrDefault_executeDispatch_def
        FunctionDictGetOrDefault_executeDispatch_const_def get_attr_name_def column_checks
        Dictionary_getOrDefault_def createColumnConst_Number_def)
  have c: "FunctionDictGetStringOrDefault_executeDispatch (dynamic_type dict) ?sargs dict =
      map_sum id Some (Inr (ColumnConst (ColumnString
              [if has_key dict (word_of_int k) then get_string dict attr_name (word_of_int k) else sd]) n))"
    by (simp add: FunctionDictGetStringOrDefault_executeDispatch_def
        FunctionDictGetStringOrDefault_executeDispatch_const_def get_attr_name_def column_checks
        Dictionary_getStringOrDefault_def createColumnConst_String_def)
  have na: "\<And>K. K \<noteq> dynamic_type dict \<Longrightarrow> FunctionDictGet_executeDispatch T K ?args dict = Inr None"
    by (simp add: FunctionDictGet_executeDispatch_def)
  have nb: "\<And>K. K \<noteq> dynamic_type dict \<Longrightarrow>
      FunctionDictGetOrDefault_executeDispatch T K ?dargs dict = Inr None"
    by (simp add: FunctionDictGetOrDefault_executeDispatch_def)
  have nc: "\<And>K. K \<noteq> dynamic_type dict \<Longrightarrow>
      FunctionDictGetStringOrDefault_executeDispatch K ?sargs dict = Inr None"
    by (simp add: FunctionDictGetStringOrDefault_executeDispatch_def)
  have "FunctionDictGet_executeImpl T dictionaries ?args result_type n =
       Inr (ColumnConst (ColumnVector (FieldType T)
              [get_number dict (FieldType T) attr_name (word_of_int k)]) n)"
    unfolding FunctionDictGet_executeImpl_def
      executeImpl_resolved_rows[where dictionaries = dictionaries and dict = dict, OF n1 assms(3) assms(2)]
      chain7
    by (rule try_each_simple[where probe = "\<lambda>K. FunctionDictGet_executeDispatch T K ?args dict",
          OF assms(1) na a])
  moreover have "FunctionDictGetOrDefault_executeImpl T dictionaries ?dargs result_type n =
       Inr (ColumnConst (ColumnVector (FieldType T)
              [if has_key dict (word_of_int k)
               then get_number dict (FieldType T) attr_name (word_of_int k) else d]) n)"
    unfolding FunctionDictGetOrDefault_executeImpl_def
      executeImpl_resolved_rows[where dictionaries = dictionaries and dict = dict, OF n2 assms(3) assms(2)]
      chain6
    by (rule try_each_simple[where probe = "\<lambda>K. FunctionDictGetOrDefault_executeDispatch T K ?dargs dict",
          OF assms(1) nb b])
  moreover have "FunctionDictGetStringOrDefault_executeImpl dictionaries ?sargs result_type n =
       Inr (ColumnConst (ColumnString
              [if has_key dict (word_of_int k) then get_string dict attr_name (word_of_int k) else sd]) n)"
    unfolding FunctionDictGetStringOrDefault_executeImpl_def
      executeImpl_resolved_rows[where dictionaries = dictionaries and dict = dict, OF n3 assms(3) assms(2)]
      chain6
    by (rule try_each_simple[where probe = "\<lambda>K. FunctionDictGetStringOrDefault_executeDispatch K ?sargs dict",
          OF assms(1) nc c])
  moreover
  let ?args1 = "[\<lparr>column = ColumnConst (ColumnString [dict_name]) 1, data_type = t0\<rparr>,
        \<lparr>column = ColumnConst (ColumnString [attr_name]) 1, data_type = t1\<rparr>,
        \<lparr>column = ColumnVector TUInt64 [k], data_type = t2\<rparr>]"
  let ?dargs1 = "[\<lparr>column = ColumnConst (ColumnString [dict_name]) 1, data_type = t0\<rparr>,
        \<lparr>column = ColumnConst (ColumnString [attr_name]) 1, data_type = t1\<rparr>,
        \<lparr>column = ColumnVector TUInt64 [k], data_type = t2\<rparr>,
        \<lparr>column = ColumnVector (FieldType T) [d], data_type = t3\<rparr>]"
  let ?sargs1 = "[\<lparr>column = ColumnConst (ColumnString [dict_name]) 1, data_type = t0\<rparr>,
        \<lparr>column = ColumnConst (ColumnString [attr_name]) 1, data_type = t1\<rparr>,
        \<lparr>column = ColumnVector TUInt64 [k], data_type = t2\<rparr>,
        \<lparr>column = ColumnString [sd], data_type = t3\<rparr>]"
  have m1: "checkAndGetColumnConstString (column (?args1 ! 0)) = Some (dict_name, 1)"
    and m2: "checkAndGetColumnConstString (column (?dargs1 ! 0)) = Some (dict_name, 1)"
    and m3: "checkAndGetColumnConstString (column (?sargs1 ! 0)) = Some (dict_name, 1)"
    by (simp_all add: column_checks)
  have one: "(0 :: nat) < 1" by simp
  have va: "FunctionDictGetString_executeDispatch (dynamic_type dict) ?args1 dict =
      map_sum id Some (Inr (ColumnString [get_string dict attr_name (word_of_int k)]))"
    by (simp add: FunctionDictGetString_executeDispatch_def get_attr_name_def column_checks
        Dictionary_getString_def UInt64_data_def)
  have vb: "FunctionDictGet_executeDispatch T (dynamic_type dict) ?args1 dict =
      map_sum id Some (Inr (ColumnVector (FieldType T)
              [get_number dict (FieldType T) attr_name (word_of_int k)]))"
    by (simp add: FunctionDictGet_executeDispatch_def get_attr_name_def column_checks
        Dictionary_get_def UInt64_data_def)
  have vc: "FunctionDictGetOrDefault_executeDispatch T (dynamic_type dict) ?dargs1 dict =
      map_sum id Some (Inr (ColumnVector (FieldType T)
              [if has_key dict (word_of_int k)
               then get_number dict (FieldType T) attr_name (word_of_int k) else d]))"
    by (simp add: FunctionDictGetOrDefault_executeDispatch_def
        FunctionDictGetOrDefault_executeDispatch_vector_def get_attr_name_def column_checks
        Dictionary_getOrDefault_def UInt64_data_def)
  have vd: "FunctionDictGetStringOrDefault_executeDispatch (dynamic_type dict) ?sargs1 dict =
      map_sum id Some (Inr (ColumnString
              [if has_key dict (word_of_int k) then get_string dict attr_name (word_of_int k) else sd]))"
    by (simp add: FunctionDictGetStringOrDefault_executeDispatch_def
        FunctionDictGetStringOrDefault_executeDispatch_vector_def get_attr_name_def column_checks
        Dictionary_getStringOrDefault_def UInt64_data_def)
  have nva: "\<And>K. K \<noteq> dynamic_type dict \<Longrightarrow>
      FunctionDictGetString_executeDispatch K ?args1 dict = Inr None"
    by (simp add: FunctionDictGetString_executeDispatch_def)
  have nvb: "\<And>K. K \<noteq> dynamic_type dict \<Longrightarrow>
      FunctionDictGet_executeDispatch T K ?args1 dict = Inr None"
    by (simp add: FunctionDictGet_executeDispatch_def)
  have nvc: "\<And>K. K \<noteq> dynamic_type dict \<Longrightarrow>
      FunctionDictGetOrDefault_executeDispatch T K ?dargs1 dict = Inr None"
    by (simp add: FunctionDictGetOrDefault_executeDispatch_def)
  have nvd: "\<And>K. K \<noteq> dynamic_type dict \<Longrightarrow>
      FunctionDictGetStringOrDefault_executeDispatch K ?sargs1 dict = Inr None"
    by (simp add: FunctionDictGetStringOrDefault_executeDispatch_def)
  have ea: "FunctionDictGetString_executeImpl dictionaries ?args1 result_type 1 =
      Inr (ColumnString [get_string dict attr_name (word_of_int k)])"
    unfolding FunctionDictGetString_executeImpl_def
      executeImpl_resolved_rows[where dictionaries = dictionaries and dict = dict, OF m1 one assms(2)]
      chain7
    by (rule try_each_simple[where probe = "\<lambda>K. FunctionDictGetString_executeDispatch K ?args1 dict",
          OF assms(1) nva va])
  have eb: "FunctionDictGet_executeImpl T dictionaries ?args1 result_type 1 =
      Inr (ColumnVector (FieldType T) [get_number dict (FieldType T) attr_name (word_of_int k)])"
    unfolding FunctionDictGet_executeImpl_def
      executeImpl_resolved_rows[where dictionaries = dictionaries and dict = dict, OF m1 one assms(2)]
      chain7
    by (rule try_each_simple[where probe = "\<lambda>K. FunctionDictGet_executeDispatch T K ?args1 dict",
          OF assms(1) nvb vb])
  have ec: "FunctionDictGetOrDefault_executeImpl T dictionaries ?dargs1 result_type 1 =
      Inr (ColumnVector (FieldType T)
              [if has_key dict (word_of_int k)
               then get_number dict (FieldType T) attr_name (word_of_int k) else d])"
    unfolding FunctionDictGetOrDefault_executeImpl_def
      executeImpl_resolved_rows[where dictionaries = dictionaries and dict = dict, OF m2 one assms(2)]
      chain6
    by (rule try_each_simple[where probe = "\<lambda>K. FunctionDictGetOrDefault_executeDispatch T K ?dargs1 dict",
          OF assms(1) nvc vc])
  have ed: "FunctionDictGetStringOrDefault_executeImpl dictionaries ?sargs1 result_type 1 =
      Inr (ColumnString
              [if has_key dict (word_of_int k) then get_string dict attr_name (word_of_int k) else sd])"
    unfolding FunctionDictGetStringOrDefault_executeImpl_def
      executeImpl_resolved_rows[where dictionaries = dictionaries and dict = dict, OF m3 one assms(2)]
      chain6
    by (rule try_each_simple[where probe = "\<lambda>K. FunctionDictGetStringOrDefault_executeDispatch K ?sargs1 dict",
          OF assms(1) nvd vd])
  have "defaultImplementationForConstantArguments [0, 1]
         (FunctionDictGetString_executeImpl dictionaries)
         [\<lparr>column = ColumnConst (ColumnString [dict_name]) n, data_type = t0\<rparr>,
          \<lparr>column = ColumnConst (ColumnString [attr_name]) n, data_type = t1\<rparr>,
          \<lparr>column = ColumnConst (ColumnVector TUInt64 [k]) n, data_type = t2\<rparr>] result_type n =
       Inr (ColumnConst (ColumnString [get_string dict attr_name (word_of_int k)]) n)"
    using ea
    by (simp add: defaultImplementationForConstantArguments_def isColumnConst_def
        one_row_argument_def upt_rec)
  moreover have "defaultImplementationForConstantArguments [0, 1]
         (FunctionDictGet_executeImpl T dictionaries)
         [\<lparr>column = ColumnConst (ColumnString [dict_name]) n, data_type = t0\<rparr>,
          \<lparr>column = ColumnConst (ColumnString [attr_name]) n, data_type = t1\<rparr>,
          \<lparr>column = ColumnConst (ColumnVector TUInt64 [k]) n, data_type = t2\<rparr>] result_type n =
       Inr (ColumnConst (ColumnVector (FieldType T)
                [get_number dict (FieldType T) attr_name (word_of_int k)]) n)"
    using eb
    by (simp add: defaultImplementationForConstantArguments_def isColumnConst_def
        one_row_argument_def upt_rec)
  moreover have "defaultImplementationForConstantArguments [0, 1]
         (FunctionDictGetOrDefault_executeImpl T dictionaries)
         [\<lparr>column = ColumnConst (ColumnString [dict_name]) n, data_type = t0\<rparr>,
          \<lparr>column = ColumnConst (ColumnString [attr_name]) n, data_type = t1\<rparr>,
          \<lparr>column = ColumnConst (ColumnVector TUInt64 [k]) n, data_type = t2\<rparr>,
          \<lparr>column = ColumnConst (ColumnVector (FieldType T) [d]) n, data_type = t3\<rparr>] result_type n =
       Inr (ColumnConst (ColumnVector (FieldType T)
                [if has_key dict (word_of_int k)
                 then get_number dict (FieldType T) attr_name (word_of_int k) else d]) n)"
    using ec
    by (simp add: defaultImplementationForConstantArguments_def isColumnConst_def
        one_row_argument_def upt_rec)
  moreover have "defaultImplementationForConstantArguments [0, 1]
         (FunctionDictGetStringOrDefault_executeImpl dictionaries)
         [\<lparr>column = ColumnConst (ColumnString [dict_name]) n, data_type = t0\<rparr>,
          \<lparr>column = ColumnConst (ColumnString [attr_name]) n, data_type = t1\<rparr>,
          \<lparr>column = ColumnConst (ColumnVector TUInt64 [k]) n, data_type = t2\<rparr>,
          \<lparr>column = ColumnConst (ColumnString [sd]) n, data_type = t3\<rparr>] result_type n =
       Inr (ColumnConst (ColumnString
                [if has_key dict (word_of_int k) then get_string dict attr_name (word_of_int k) else sd]) n)"
    using ed
    by (simp add: defaultImplementationForConstantArguments_def isColumnConst_def
        one_row_argument_def upt_rec)
  moreover have "defaultImplementationForConstantArguments [0, 1]
         (FunctionDictGetNoType_executeImpl (Some FunctionDictGetString) dictionaries)
         [\<lparr>column = ColumnConst (ColumnString [dict_name]) n, data_type = t0\<rparr>,
          \<lparr>column = ColumnConst (ColumnString [attr_name]) n, data_type = t1\<rparr>,
          \<lparr>column = ColumnConst (ColumnVector TUInt64 [k]) n, data_type = t2\<rparr>] result_type n =
       Inr (ColumnConst (ColumnString [get_string dict attr_name (word_of_int k)]) n)"
    using ea
    by (simp add: defaultImplementationForConstantArguments_def isColumnConst_def
        one_row_argument_def upt_rec FunctionDictGetNoType_executeImpl_def IFunction_executeImpl_def)
  moreover have "defaultImplementationForConstantArguments [0, 1]
         (FunctionDictGetNoType_executeImpl (Some (FunctionDictGet T)) dictionaries)
         [\<lparr>column = ColumnConst (ColumnString [dict_name]) n, data_type = t0\<rparr>,
          \<lparr>column = ColumnConst (ColumnString [attr_name]) n, data_type = t1\<rparr>,
          \<lparr>column = ColumnConst (ColumnVector TUInt64 [k]) n, data_type = t2\<rparr>] result_type n =
       Inr (ColumnConst (ColumnVector (FieldType T)
                [get_number dict (FieldType T) attr_name (word_of_int k)]) n)"
    using eb
    by (simp add: defaultImplementationForConstantArguments_def isColumnConst_def
        one_row_argument_def upt_rec FunctionDictGetNoType_executeImpl_def IFunction_executeImpl_def)
  moreover have "defaultImplementationForConstantArguments [0, 1]
         (FunctionDictGetNoTypeOrDefault_executeImpl (Some (FunctionDictGetOrDefault T)) dictionaries)
         [\<lparr>column = ColumnConst (ColumnString [dict_name]) n, data_type = t0\<rparr>,
          \<lparr>column = ColumnConst (ColumnString [attr_name]) n, data_type = t1\<rparr>,
          \<lparr>column = ColumnConst (ColumnVector TUInt64 [k]) n, data_type = t2\<rparr>,
          \<lparr>column = ColumnConst (ColumnVector (FieldType T) [d]) n, data_type = t3\<rparr>] result_type n =
       Inr (ColumnConst (ColumnVector (FieldType T)
                [if has_key dict (word_of_int k)
                 then get_number dict (FieldType T) attr_name (word_of_int k) else d]) n)"
    using ec
    by (simp add: defaultImplementationForConstantArguments_def isColumnConst_def
        one_row_argument_def upt_rec FunctionDictGetNoTypeOrDefault_executeImpl_def IFunction_executeImpl_def)
  moreover have "defaultImplementationForConstantArguments [0, 1]
         (FunctionDictGetNoTypeOrDefault_executeImpl (Some FunctionDictGetStringOrDefault) dictionaries)
         [\<lparr>column = ColumnConst (ColumnString [dict_name]) n, data_type = t0\<rparr>,
          \<lparr>column = ColumnConst (ColumnString [attr_name]) n, data_type = t1\<rparr>,
          \<lparr>column = ColumnConst (ColumnVector TUInt64 [k]) n, data_type = t2\<rparr>,
          \<lparr>column = ColumnConst (ColumnString [sd]) n, data_type = t3\<rparr>] result_type n =
       Inr (ColumnConst (ColumnString
                [if has_key dict (word_of_int k) then get_string dict attr_name (word_of_int k) else sd]) n)"
    using ed
    by (simp add: defaultImplementationForConstantArguments_def isColumnConst_def
        one_row_argument_def upt_rec FunctionDictGetNoTypeOrDefault_executeImpl_def IFunction_executeImpl_def)
  ultimately show ?thesis by blast
qed

text \<open>
  Claim C8. On a block that has rows, when the dictionary is of a probed kind (flat,
  hashed or cache) and reports no hierarchy, dictGetHierarchy and dictIsIn fail with
  \<open>UNSUPPORTED_METHOD\<close>, \<open>Dictionary does not have a hierarchy\<close>, whatever the argument
  columns and the lookups of the dictionary are.
\<close>

theorem missing_hierarchy_is_unsupported:
  assumes "checkAndGetColumnConstString (column (arguments ! 0)) = Some (dict_name, s)"
    and "0 < input_rows_count"
    and "dictionaries dict_name = Some dict"
    and "dynamic_type dict \<in> {FlatDictionary, HashedDictionary, CacheDictionary}"
    and "\<not> hasHierarchy dict"
  shows
    "FunctionDictGetHierarchy_executeImpl dictionaries arguments result_type input_rows_count =
       Inl (Exception ''Dictionary does not have a hierarchy'' UNSUPPORTED_METHOD) \<and>
     FunctionDictIsIn_executeImpl dictionaries arguments result_type input_rows_count =
       Inl (Exception ''Dictionary does not have a hierarchy'' UNSUPPORTED_METHOD)"
proof -
  have a: "FunctionDictGetHierarchy_executeDispatch (dynamic_type dict) arguments dict =
      map_sum id Some (Inl (Exception ''Dictionary does not have a hierarchy'' UNSUPPORTED_METHOD))"
    using assms(5) by (simp add: FunctionDictGetHierarchy_executeDispatch_def no_hierarchy_def)
  have b: "FunctionDictIsIn_executeDispatch (dynamic_type dict) arguments dict =
      map_sum id Some (Inl (Exception ''Dictionary does not have a hierarchy'' UNSUPPORTED_METHOD))"
    using assms(5) by (simp add: FunctionDictIsIn_executeDispatch_def no_hierarchy_def)
  have na: "\<And>K. K \<noteq> dynamic_type dict \<Longrightarrow>
      FunctionDictGetHierarchy_executeDispatch K arguments dict = Inr None"
    by (simp add: FunctionDictGetHierarchy_executeDispatch_def)
  have nb: "\<And>K. K \<noteq> dynamic_type dict \<Longrightarrow> FunctionDictIsIn_executeDispatch K arguments dict = Inr None"
    by (simp add: FunctionDictIsIn_executeDispatch_def)
  have "FunctionDictGetHierarchy_executeImpl dictionaries arguments result_type input_rows_count =
       Inl (Exception ''Dictionary does not have a hierarchy'' UNSUPPORTED_METHOD)"
    unfolding FunctionDictGetHierarchy_executeImpl_def
      executeImpl_resolved_rows[where dictionaries = dictionaries and dict = dict,
        OF assms(1) assms(2) assms(3)] chain3
    by (rule try_each_simple[where probe = "\<lambda>K. FunctionDictGetHierarchy_executeDispatch K arguments dict",
          OF assms(4) na a])
  moreover have "FunctionDictIsIn_executeImpl dictionaries arguments result_type input_rows_count =
       Inl (Exception ''Dictionary does not have a hierarchy'' UNSUPPORTED_METHOD)"
    unfolding FunctionDictIsIn_executeImpl_def
      executeImpl_resolved_rows[where dictionaries = dictionaries and dict = dict,
        OF assms(1) assms(2) assms(3)] chain3
    by (rule try_each_simple[where probe = "\<lambda>K. FunctionDictIsIn_executeDispatch K arguments dict",
          OF assms(4) nb b])
  ultimately show ?thesis by blast
qed

text \<open>
  Claim C10. dictGetHierarchy and dictIsIn probe only the flat, hashed and cache kinds: for
  a composite-key or range-keyed dictionary they fail with \<open>Unsupported dictionary type\<close>
  and the type name, whether or not the dictionary reports a hierarchy.
\<close>

theorem hierarchy_functions_reject_composite_and_range:
  assumes "checkAndGetColumnConstString (column (arguments ! 0)) = Some (dict_name, s)"
    and "0 < input_rows_count"
    and "dictionaries dict_name = Some dict"
    and "dynamic_type dict \<in> {ComplexKeyHashedDictionary, ComplexKeyCacheDictionary,
           TrieDictionary, RangeHashedDictionary}"
  shows
    "FunctionDictGetHierarchy_executeImpl dictionaries arguments result_type input_rows_count =
       Inl (Exception (''Unsupported dictionary type '' @ getTypeName dict) UNKNOWN_TYPE) \<and>
     FunctionDictIsIn_executeImpl dictionaries arguments result_type input_rows_count =
       Inl (Exception (''Unsupported dictionary type '' @ getTypeName dict) UNKNOWN_TYPE)"
proof -
  have k: "dynamic_type dict \<noteq> FlatDictionary" "dynamic_type dict \<noteq> HashedDictionary"
    "dynamic_type dict \<noteq> CacheDictionary"
    using assms(4) by auto
  show ?thesis
    unfolding FunctionDictGetHierarchy_executeImpl_def FunctionDictIsIn_executeImpl_def
      executeImpl_resolved_rows[where dictionaries = dictionaries and dict = dict,
        OF assms(1) assms(2) assms(3)] chain3
    using k by (simp add: FunctionDictGetHierarchy_executeDispatch_def FunctionDictIsIn_executeDispatch_def)
qed

lemma FunctionDictGetNoType_scan_resolve:
  "FunctionDictGetNoType_scan attrs attr_name = resolve_attribute attrs attr_name"
proof (induction attrs)
  case Nil
  show ?case by (simp add: resolve_attribute_def)
next
  case (Cons a attrs)
  show ?case
  proof (cases "fst a = attr_name")
    case True
    then show ?thesis
      by (cases "snd a") (simp_all add: resolve_attribute_def)
  next
    case False
    with Cons show ?thesis by (simp add: resolve_attribute_def)
  qed
qed

lemma FunctionDictGetNoTypeOrDefault_scan_resolve:
  "FunctionDictGetNoTypeOrDefault_scan attrs attr_name default_type =
     resolve_attribute_or_default attrs attr_name default_type"
proof (induction attrs)
  case Nil
  show ?case by (simp add: resolve_attribute_or_default_def)
next
  case (Cons a attrs)
  show ?case
  proof (cases "fst a = attr_name")
    case True
    then show ?thesis
      by (cases "snd a"; cases default_type) (simp_all add: resolve_attribute_or_default_def)
  next
    case False
    with Cons show ?thesis by (simp add: resolve_attribute_or_default_def)
  qed
qed

text \<open>
  Claim C9, as amended. Once the checks of the arguments have passed and the dictionary is
  resolved, \<^verbatim>\<open>getReturnTypeImpl\<close> of the type-erased functions is the specification's
  resolver: no attribute of that name gives \<open>No such attribute\<close>, a declared type without
  executor gives the unknown-type error, and otherwise the executor and the return type
  are those of the declared type, for dictGetOrDefault provided that the default argument
  has the declared type (the illegal-type error if it has not).
\<close>

theorem attribute_type_resolution:
  assumes "checkAndGetColumnConstString (column (arguments ! 0)) = Some (dict_name, s0)"
    and "checkAndGetColumnConstString (column (arguments ! 1)) = Some (attr_name, s1)"
    and "isUInt64 (data_type (arguments ! 2)) \<or> isTuple (data_type (arguments ! 2))"
    and "dictionaries dict_name = Some dict"
  shows
    "(length arguments = 3 \<or>
      length arguments = 4 \<and> convertible_to_Int64 (data_type (arguments ! 3)) \<longrightarrow>
        FunctionDictGetNoType_getReturnTypeImpl dictionaries arguments =
          resolve_attribute (attributes dict) attr_name) \<and>
     FunctionDictGetNoTypeOrDefault_getReturnTypeImpl dictionaries arguments =
       resolve_attribute_or_default (attributes dict) attr_name (data_type (arguments ! 3))"
  using assms
  by (auto simp: FunctionDictGetNoType_getReturnTypeImpl_def
      FunctionDictGetNoTypeOrDefault_getReturnTypeImpl_def const_name_argument_def getDictionary_def
      FunctionDictGetNoType_scan_resolve FunctionDictGetNoTypeOrDefault_scan_resolve)

lemma geo_lookup: "geo_registry K h ''geo'' = Some (geo_dictionary K h)"
  by (simp add: geo_registry_def)

lemma geo_kind: "dynamic_type (geo_dictionary K h) = K"
  by (simp add: geo_dictionary_def)

theorem attribute_type_resolution_witness:
  "checkAndGetColumnConstString (column ([const_string ''geo'' 2, const_string ''population'' 2,
      vector_number DataTypeUInt64 TUInt64 [10, 5]] ! 0)) = Some (''geo'', 2) \<and>
   checkAndGetColumnConstString (column ([const_string ''geo'' 2, const_string ''population'' 2,
      vector_number DataTypeUInt64 TUInt64 [10, 5]] ! 1)) = Some (''population'', 2) \<and>
   isUInt64 (data_type ([const_string ''geo'' 2, const_string ''population'' 2,
      vector_number DataTypeUInt64 TUInt64 [10, 5]] ! 2)) \<and>
   FunctionDictGetNoType_getReturnTypeImpl (geo_registry FlatDictionary True)
     [const_string ''geo'' 2, const_string ''population'' 2,
      vector_number DataTypeUInt64 TUInt64 [10, 5]] =
     Inr (DataTypeUInt32, FunctionDictGet UInt32)"
proof -
  let ?args = "[const_string ''geo'' 2, const_string ''population'' 2,
      vector_number DataTypeUInt64 TUInt64 [10, 5]]"
  have h0: "checkAndGetColumnConstString (column (?args ! 0)) = Some (''geo'', 2)"
    and h1: "checkAndGetColumnConstString (column (?args ! 1)) = Some (''population'', 2)"
    and h2: "isUInt64 (data_type (?args ! 2)) \<or> isTuple (data_type (?args ! 2))"
    by (simp_all add: checkAndGetColumnConstString_def const_string_def vector_number_def)
  have r: "resolve_attribute (attributes (geo_dictionary FlatDictionary True)) ''population'' =
      Inr (DataTypeUInt32, FunctionDictGet UInt32)"
    by (simp add: resolve_attribute_def geo_dictionary_def)
  from attribute_type_resolution[where dictionaries = "geo_registry FlatDictionary True"
      and dict = "geo_dictionary FlatDictionary True", OF h0 h1 h2 geo_lookup]
  have "FunctionDictGetNoType_getReturnTypeImpl (geo_registry FlatDictionary True) ?args =
      Inr (DataTypeUInt32, FunctionDictGet UInt32)"
    unfolding r by simp
  with h0 h1 h2 show ?thesis by (simp add: vector_number_def)
qed

text \<open>
  The claim as stated fails for dictGetOrDefault: the attribute \<open>population\<close> exists and its
  type \<open>UInt32\<close> has an executor, and yet the call fails, on the type of the default.
\<close>

theorem default_type_guard_counterexample:
  "FunctionDictGetNoTypeOrDefault_getReturnTypeImpl (geo_registry FlatDictionary True)
     [const_string ''geo'' 2, const_string ''population'' 2,
      vector_number DataTypeUInt64 TUInt64 [10, 5], vector_string [''a'', ''b'']] =
     Inl (Exception
       ''Illegal type String of fourth argument of function dictGetOrDefault, must be UInt32.''
       ILLEGAL_TYPE_OF_ARGUMENT) \<and>
   List.find (\<lambda>attribute. fst attribute = ''population'')
     (attributes (geo_dictionary FlatDictionary True)) = Some (''population'', DataTypeUInt32) \<and>
   dispatch_type DataTypeUInt32 = Some UInt32"
  by (simp add: FunctionDictGetNoTypeOrDefault_getReturnTypeImpl_def const_name_argument_def
      checkAndGetColumnConstString_def const_string_def vector_number_def vector_string_def
      getDictionary_def geo_registry_def geo_dictionary_def illegal_type_def)

text \<open>
  The scalar probe of dictGetString (lines 317-325) has no branch for a constant
  identifier column: \<^verbatim>\<open>executeImpl\<close> called on the constant columns themselves throws. The
  framework passes the data column of the constant instead, as in the claim above.
\<close>

lemma FunctionDictGetString_executeImpl_constant_id:
  "FunctionDictGetString_executeImpl (geo_registry FlatDictionary True)
     [const_string ''geo'' 2, const_string ''name'' 2, const_number DataTypeUInt64 TUInt64 10 2]
     DataTypeString 2 =
     Inl (Exception ''Third argument of function dictGetString must be UInt64'' ILLEGAL_COLUMN)"
  by (simp add: FunctionDictGetString_executeImpl_def executeImpl_resolved_def or_else_def or_throw_def
      FunctionDictGetString_executeDispatch_def get_attr_name_def
      checkAndGetColumnConstString_def checkAndGetColumnVector_def
      const_string_def const_number_def getDictionary_def geo_registry_def geo_dictionary_def)

text \<open>
  Where the adapter keeps its guarantee: for every column that is not a constant column
  of the target type, a returned sequence has the column's number of rows.
\<close>

lemma collect_length: "collect f xs = Inr vs \<Longrightarrow> length vs = length xs"
  by (induction xs arbitrary: vs) (auto split: sum.splits)

lemma getColumnDataAsPaddedPODArray_length:
  assumes "checkAndGetColumnConstData T col = None"
    and "getColumnDataAsPaddedPODArray T col = Inr data"
  shows "length data = Column_size col"
proof (cases "checkAndGetColumnVector T col")
  case None
  with assms show ?thesis
    by (auto simp: getColumnDataAsPaddedPODArray_def Let_def dest: collect_length)
next
  case (Some xs)
  then have "col = ColumnVector T xs"
    by (auto simp: checkAndGetColumnVector_def split: Column.splits if_splits)
  with assms Some show ?thesis
    by (simp add: getColumnDataAsPaddedPODArray_def)
qed

text \<open>
  Claim C6. For a constant column whose nested data column already has the target type,
  the adapter returns the data of the nested column: one element, whatever the number of
  rows. A constant column of another type is materialised with one element per row.
\<close>

theorem getColumnDataAsPaddedPODArray_constant_column:
  "getColumnDataAsPaddedPODArray TUInt64 (ColumnConst (ColumnVector TUInt64 [7]) 3) = Inr [7] \<and>
   Column_size (ColumnConst (ColumnVector TUInt64 [7]) 3) = 3 \<and>
   getColumnDataAsPaddedPODArray TInt64 (ColumnConst (ColumnVector TUInt16 [7]) 3) = Inr [7, 7, 7]"
  by (simp add: getColumnDataAsPaddedPODArray_def checkAndGetColumnVector_def
      checkAndGetColumnConstData_def upt_rec)

lemma geo_name: "getTypeName (geo_dictionary K h) = ''Example''"
  by (simp add: geo_dictionary_def)

lemma geo_hierarchy: "hasHierarchy (geo_dictionary K h) = h"
  by (simp add: geo_dictionary_def)

lemma first_is_geo:
  "checkAndGetColumnConstString (column ((const_string ''geo'' n # rest) ! 0)) = Some (''geo'', n)"
  by (simp add: checkAndGetColumnConstString_def const_string_def)

text \<open>
  The theorem at the example dictionary: the key 5 is absent and the key 10 present.
\<close>

theorem get_or_default_constant_id_vector_default_witness:
  "dynamic_type (geo_dictionary FlatDictionary True) \<in>
     {FlatDictionary, HashedDictionary, CacheDictionary} \<and>
   geo_registry FlatDictionary True ''geo'' = Some (geo_dictionary FlatDictionary True) \<and>
   (0 :: nat) < 2 \<and>
   FunctionDictGetOrDefault_executeImpl UInt32 (geo_registry FlatDictionary True)
     [\<lparr>column = ColumnConst (ColumnString [''geo'']) 2, data_type = DataTypeString\<rparr>,
      \<lparr>column = ColumnConst (ColumnString [''population'']) 2, data_type = DataTypeString\<rparr>,
      \<lparr>column = ColumnConst (ColumnVector TUInt64 [5]) 2, data_type = DataTypeUInt64\<rparr>,
      \<lparr>column = ColumnVector (FieldType UInt32) [7, 8], data_type = DataTypeUInt32\<rparr>]
     DataTypeUInt32 2 = Inr (ColumnVector TUInt32 [7, 8]) \<and>
   FunctionDictGetOrDefault_executeImpl UInt32 (geo_registry FlatDictionary True)
     [\<lparr>column = ColumnConst (ColumnString [''geo'']) 2, data_type = DataTypeString\<rparr>,
      \<lparr>column = ColumnConst (ColumnString [''population'']) 2, data_type = DataTypeString\<rparr>,
      \<lparr>column = ColumnConst (ColumnVector TUInt64 [10]) 2, data_type = DataTypeUInt64\<rparr>,
      \<lparr>column = ColumnVector (FieldType UInt32) [7, 8], data_type = DataTypeUInt32\<rparr>]
     DataTypeUInt32 2 = Inr (ColumnConst (ColumnVector TUInt32 [10000]) 2)"
proof -
  have k: "dynamic_type (geo_dictionary FlatDictionary True) \<in>
     {FlatDictionary, HashedDictionary, CacheDictionary}"
    by (simp add: geo_kind)
  have n: "(0 :: nat) < 2" by simp
  note t = get_or_default_constant_id_vector_default[where dictionaries = "geo_registry FlatDictionary True"
      and dict = "geo_dictionary FlatDictionary True" and T = UInt32 and attr_name = "''population''"
      and defs = "[7, 8]" and ?t0.0 = DataTypeString and ?t1.0 = DataTypeString
      and ?t2.0 = DataTypeUInt64 and ?t3.0 = DataTypeUInt32 and result_type = DataTypeUInt32,
      OF k geo_lookup n, THEN conjunct1]
  have a: "FunctionDictGetOrDefault_executeImpl UInt32 (geo_registry FlatDictionary True)
     [\<lparr>column = ColumnConst (ColumnString [''geo'']) 2, data_type = DataTypeString\<rparr>,
      \<lparr>column = ColumnConst (ColumnString [''population'']) 2, data_type = DataTypeString\<rparr>,
      \<lparr>column = ColumnConst (ColumnVector TUInt64 [5]) 2, data_type = DataTypeUInt64\<rparr>,
      \<lparr>column = ColumnVector (FieldType UInt32) [7, 8], data_type = DataTypeUInt32\<rparr>]
     DataTypeUInt32 2 = Inr (ColumnVector TUInt32 [7, 8])"
    using t[of 5] by (simp add: geo_dictionary_def)
  have b: "FunctionDictGetOrDefault_executeImpl UInt32 (geo_registry FlatDictionary True)
     [\<lparr>column = ColumnConst (ColumnString [''geo'']) 2, data_type = DataTypeString\<rparr>,
      \<lparr>column = ColumnConst (ColumnString [''population'']) 2, data_type = DataTypeString\<rparr>,
      \<lparr>column = ColumnConst (ColumnVector TUInt64 [10]) 2, data_type = DataTypeUInt64\<rparr>,
      \<lparr>column = ColumnVector (FieldType UInt32) [7, 8], data_type = DataTypeUInt32\<rparr>]
     DataTypeUInt32 2 = Inr (ColumnConst (ColumnVector TUInt32 [10000]) 2)"
    using t[of 10] by (simp add: geo_dictionary_def)
  from k geo_lookup n a b show ?thesis by blast
qed

theorem constant_id_gives_constant_column_witness:
  "dynamic_type (geo_dictionary CacheDictionary True) \<in>
     {FlatDictionary, HashedDictionary, CacheDictionary} \<and>
   geo_registry CacheDictionary True ''geo'' = Some (geo_dictionary CacheDictionary True) \<and>
   (0 :: nat) < 3 \<and>
   FunctionDictGet_executeImpl UInt32 (geo_registry CacheDictionary True)
     [\<lparr>column = ColumnConst (ColumnString [''geo'']) 3, data_type = DataTypeString\<rparr>,
      \<lparr>column = ColumnConst (ColumnString [''population'']) 3, data_type = DataTypeString\<rparr>,
      \<lparr>column = ColumnConst (ColumnVector TUInt64 [10]) 3, data_type = DataTypeUInt64\<rparr>]
     DataTypeUInt32 3 = Inr (ColumnConst (ColumnVector TUInt32 [10000]) 3) \<and>
   FunctionDictGetStringOrDefault_executeImpl (geo_registry CacheDictionary True)
     [\<lparr>column = ColumnConst (ColumnString [''geo'']) 3, data_type = DataTypeString\<rparr>,
      \<lparr>column = ColumnConst (ColumnString [''name'']) 3, data_type = DataTypeString\<rparr>,
      \<lparr>column = ColumnConst (ColumnVector TUInt64 [5]) 3, data_type = DataTypeUInt64\<rparr>,
      \<lparr>column = ColumnConst (ColumnString [''nowhere'']) 3, data_type = DataTypeString\<rparr>]
     DataTypeString 3 = Inr (ColumnConst (ColumnString [''nowhere'']) 3) \<and>
   defaultImplementationForConstantArguments [0, 1]
     (FunctionDictGetString_executeImpl (geo_registry CacheDictionary True))
     [\<lparr>column = ColumnConst (ColumnString [''geo'']) 3, data_type = DataTypeString\<rparr>,
      \<lparr>column = ColumnConst (ColumnString [''name'']) 3, data_type = DataTypeString\<rparr>,
      \<lparr>column = ColumnConst (ColumnVector TUInt64 [10]) 3, data_type = DataTypeUInt64\<rparr>]
     DataTypeString 3 = Inr (ColumnConst (ColumnString [''land'']) 3)"
proof -
  have k: "dynamic_type (geo_dictionary CacheDictionary True) \<in>
     {FlatDictionary, HashedDictionary, CacheDictionary}"
    by (simp add: geo_kind)
  have n: "(0 :: nat) < 3" by simp
  note t = constant_id_gives_constant_column[where dictionaries = "geo_registry CacheDictionary True"
      and dict = "geo_dictionary CacheDictionary True" and T = UInt32
      and ?t0.0 = DataTypeString and ?t1.0 = DataTypeString
      and ?t2.0 = DataTypeUInt64 and ?t3.0 = DataTypeString,
      OF k geo_lookup n]
  have a: "FunctionDictGet_executeImpl UInt32 (geo_registry CacheDictionary True)
     [\<lparr>column = ColumnConst (ColumnString [''geo'']) 3, data_type = DataTypeString\<rparr>,
      \<lparr>column = ColumnConst (ColumnString [''population'']) 3, data_type = DataTypeString\<rparr>,
      \<lparr>column = ColumnConst (ColumnVector TUInt64 [10]) 3, data_type = DataTypeUInt64\<rparr>]
     DataTypeUInt32 3 = Inr (ColumnConst (ColumnVector TUInt32 [10000]) 3)"
    using t[where attr_name = "''population''" and k = 10 and result_type = DataTypeUInt32, THEN conjunct1]
    by (simp add: geo_dictionary_def)
  have b: "FunctionDictGetStringOrDefault_executeImpl (geo_registry CacheDictionary True)
     [\<lparr>column = ColumnConst (ColumnString [''geo'']) 3, data_type = DataTypeString\<rparr>,
      \<lparr>column = ColumnConst (ColumnString [''name'']) 3, data_type = DataTypeString\<rparr>,
      \<lparr>column = ColumnConst (ColumnVector TUInt64 [5]) 3, data_type = DataTypeUInt64\<rparr>,
      \<lparr>column = ColumnConst (ColumnString [''nowhere'']) 3, data_type = DataTypeString\<rparr>]
     DataTypeString 3 = Inr (ColumnConst (ColumnString [''nowhere'']) 3)"
    using t[where attr_name = "''name''" and k = 5 and sd = "''nowhere''"
        and result_type = DataTypeString, THEN conjunct2, THEN conjunct2, THEN conjunct1]
    by (simp add: geo_dictionary_def)
  have c: "defaultImplementationForConstantArguments [0, 1]
     (FunctionDictGetString_executeImpl (geo_registry CacheDictionary True))
     [\<lparr>column = ColumnConst (ColumnString [''geo'']) 3, data_type = DataTypeString\<rparr>,
      \<lparr>column = ColumnConst (ColumnString [''name'']) 3, data_type = DataTypeString\<rparr>,
      \<lparr>column = ColumnConst (ColumnVector TUInt64 [10]) 3, data_type = DataTypeUInt64\<rparr>]
     DataTypeString 3 = Inr (ColumnConst (ColumnString [''land'']) 3)"
    using t[where attr_name = "''name''" and k = 10 and result_type = DataTypeString,
        THEN conjunct2, THEN conjunct2, THEN conjunct2, THEN conjunct1]
    by (simp add: geo_dictionary_def)
  from k geo_lookup n a b c show ?thesis by blast
qed


theorem missing_hierarchy_is_unsupported_witness:
  "checkAndGetColumnConstString (column ([const_string ''geo'' 1,
      vector_number DataTypeUInt64 TUInt64 [100]] ! 0)) = Some (''geo'', 1) \<and>
   (0 :: nat) < 1 \<and>
   geo_registry HashedDictionary False ''geo'' = Some (geo_dictionary HashedDictionary False) \<and>
   dynamic_type (geo_dictionary HashedDictionary False) \<in>
     {FlatDictionary, HashedDictionary, CacheDictionary} \<and>
   hasHierarchy (geo_dictionary HashedDictionary False) = False \<and>
   FunctionDictGetHierarchy_executeImpl (geo_registry HashedDictionary False)
     [const_string ''geo'' 1, vector_number DataTypeUInt64 TUInt64 [100]]
     (DataTypeArray DataTypeUInt64) 1 =
     Inl (Exception ''Dictionary does not have a hierarchy'' UNSUPPORTED_METHOD)"
proof -
  have n: "(0 :: nat) < 1" by simp
  have k: "dynamic_type (geo_dictionary HashedDictionary False) \<in>
     {FlatDictionary, HashedDictionary, CacheDictionary}"
    by (simp add: geo_kind)
  have h: "\<not> hasHierarchy (geo_dictionary HashedDictionary False)"
    by (simp add: geo_hierarchy)
  from missing_hierarchy_is_unsupported[where dictionaries = "geo_registry HashedDictionary False"
      and dict = "geo_dictionary HashedDictionary False"
      and result_type = "DataTypeArray DataTypeUInt64"
      and arguments = "[const_string ''geo'' 1, vector_number DataTypeUInt64 TUInt64 [100]]",
      OF first_is_geo n geo_lookup k h, THEN conjunct1]
    first_is_geo n geo_lookup k h
  show ?thesis by blast
qed

theorem hierarchy_functions_reject_composite_and_range_witness:
  "checkAndGetColumnConstString (column ([const_string ''geo'' 1,
      vector_number DataTypeUInt64 TUInt64 [100], vector_number DataTypeUInt64 TUInt64 [10]] ! 0)) =
     Some (''geo'', 1) \<and>
   (0 :: nat) < 1 \<and>
   geo_registry TrieDictionary True ''geo'' = Some (geo_dictionary TrieDictionary True) \<and>
   dynamic_type (geo_dictionary TrieDictionary True) \<in>
     {ComplexKeyHashedDictionary, ComplexKeyCacheDictionary, TrieDictionary, RangeHashedDictionary} \<and>
   hasHierarchy (geo_dictionary TrieDictionary True) \<and>
   FunctionDictIsIn_executeImpl (geo_registry TrieDictionary True)
     [const_string ''geo'' 1, vector_number DataTypeUInt64 TUInt64 [100],
      vector_number DataTypeUInt64 TUInt64 [10]] DataTypeUInt8 1 =
     Inl (Exception ''Unsupported dictionary type Example'' UNKNOWN_TYPE)"
proof -
  have n: "(0 :: nat) < 1" by simp
  have k: "dynamic_type (geo_dictionary TrieDictionary True) \<in>
     {ComplexKeyHashedDictionary, ComplexKeyCacheDictionary, TrieDictionary, RangeHashedDictionary}"
    by (simp add: geo_kind)
  have h: "hasHierarchy (geo_dictionary TrieDictionary True)"
    by (simp add: geo_hierarchy)
  from hierarchy_functions_reject_composite_and_range[
      where dictionaries = "geo_registry TrieDictionary True"
      and dict = "geo_dictionary TrieDictionary True" and result_type = DataTypeUInt8
      and arguments = "[const_string ''geo'' 1, vector_number DataTypeUInt64 TUInt64 [100],
        vector_number DataTypeUInt64 TUInt64 [10]]",
      OF first_is_geo n geo_lookup k, THEN conjunct2, unfolded geo_name]
    first_is_geo n geo_lookup k h
  show ?thesis by simp
qed


section \<open>dictGetHierarchy on a block\<close>

text \<open>
  What \<^verbatim>\<open>executeImpl\<close> of \<^verbatim>\<open>FunctionDictGetHierarchy\<close> stores as the result column, on a block
  that has rows and a dictionary of a probed kind that has a hierarchy: for a
  \<^verbatim>\<open>ColumnUInt64\<close> of identifiers the array column that the walk fills, never the loop that
  does not return; for a constant identifier the constant array of its one row.
\<close>

lemma FunctionDictGetHierarchy_executeImpl_walk:
  assumes "checkAndGetColumnConstString (column (arguments ! 0)) = Some (dict_name, s)"
    and "0 < input_rows_count"
    and "dictionaries dict_name = Some dict"
    and "dynamic_type dict \<in> {FlatDictionary, HashedDictionary, CacheDictionary}"
    and "hasHierarchy dict"
  shows "column (arguments ! 1) = ColumnVector TUInt64 xs \<Longrightarrow>
           get_hierarchies (parent_of dict) (UInt64_data xs) = Some (out, offsets) \<Longrightarrow>
           FunctionDictGetHierarchy_executeImpl dictionaries arguments result_type input_rows_count =
             Inr (ColumnArray (ColumnVector TUInt64 (map uint out)) offsets)"
    and "column (arguments ! 1) = ColumnConst (ColumnVector TUInt64 [x]) n \<Longrightarrow>
           FunctionDictGetHierarchy_executeImpl dictionaries arguments result_type input_rows_count =
             Inr (createColumnConst_Array n (ancestor_chain (parent_of dict) (word_of_int x) []))"
proof -
  have na: "\<And>K. K \<noteq> dynamic_type dict \<Longrightarrow>
      FunctionDictGetHierarchy_executeDispatch K arguments dict = Inr None"
    by (simp add: FunctionDictGetHierarchy_executeDispatch_def)
  have r: "\<And>c. FunctionDictGetHierarchy_executeDispatch (dynamic_type dict) arguments dict =
                map_sum id Some (Inr c) \<Longrightarrow>
      FunctionDictGetHierarchy_executeImpl dictionaries arguments result_type input_rows_count = Inr c"
    unfolding FunctionDictGetHierarchy_executeImpl_def
      executeImpl_resolved_rows[where dictionaries = dictionaries and dict = dict,
        OF assms(1) assms(2) assms(3)] chain3
    by (rule try_each_simple[where probe = "\<lambda>K. FunctionDictGetHierarchy_executeDispatch K arguments dict",
          OF assms(4) na])
  show "FunctionDictGetHierarchy_executeImpl dictionaries arguments result_type input_rows_count =
             Inr (ColumnArray (ColumnVector TUInt64 (map uint out)) offsets)"
    if "column (arguments ! 1) = ColumnVector TUInt64 xs"
      and "get_hierarchies (parent_of dict) (UInt64_data xs) = Some (out, offsets)"
    using that assms(5)
    by (intro r) (simp add: FunctionDictGetHierarchy_executeDispatch_def column_checks)
  show "FunctionDictGetHierarchy_executeImpl dictionaries arguments result_type input_rows_count =
             Inr (createColumnConst_Array n (ancestor_chain (parent_of dict) (word_of_int x) []))"
    if "column (arguments ! 1) = ColumnConst (ColumnVector TUInt64 [x]) n"
    using that assms(5)
    by (intro r)
       (simp add: FunctionDictGetHierarchy_executeDispatch_def column_checks
          get_hierarchies_single array_row_single)
qed

lemma array_row_map: "array_row (map f data) offsets i = map f (array_row data offsets i)"
  by (simp add: array_row_def Let_def take_map drop_map)

lemma distinct_map_uint: "distinct (map uint (ks :: Key list)) = distinct ks"
  by (simp add: distinct_map inj_on_def flip: word_uint_eq_iff)

lemma two_cycle_lookup: "two_cycle_registry ''loop'' = Some two_cycle_dictionary"
  by (simp add: two_cycle_registry_def)

lemma two_cycle_dictionary_fields:
  "dynamic_type two_cycle_dictionary = HashedDictionary"
  "hasHierarchy two_cycle_dictionary"
  "parent_of two_cycle_dictionary = two_cycle"
  by (simp_all add: two_cycle_dictionary_def geo_dictionary_def)

lemma first_is_loop:
  "checkAndGetColumnConstString (column ((const_string ''loop'' n # rest) ! 0)) = Some (''loop'', n)"
  by (simp add: checkAndGetColumnConstString_def const_string_def)

text \<open>
  Claim C1. For every id sequence and every parent relation of the dictionary, cyclic or
  not, dictGetHierarchy returns: the result is an array column with one offset per input
  row (never the loop that does not leave), and no row's chain holds an identifier twice.
  A row whose walk is cut by a repeated identifier (or any row, when the sentinel is its
  own parent) holds exactly the specification's chain, cut before the first identifier
  that would repeat; with \<open>parent(5) = 7\<close> and \<open>parent(7) = 5\<close> the row of 5 is \<open>[5, 7]\<close>. For a
  constant identifier column the result is the constant array of that chain.
\<close>

theorem dictGetHierarchy_terminates_without_repeats:
  assumes "checkAndGetColumnConstString (column (arguments ! 0)) = Some (dict_name, s)"
    and "0 < input_rows_count"
    and "dictionaries dict_name = Some dict"
    and "dynamic_type dict \<in> {FlatDictionary, HashedDictionary, CacheDictionary}"
    and "hasHierarchy dict"
  shows
    "(column (arguments ! 1) = ColumnVector TUInt64 xs \<longrightarrow>
       (\<exists>data offsets.
          FunctionDictGetHierarchy_executeImpl dictionaries arguments result_type input_rows_count =
            Inr (ColumnArray (ColumnVector TUInt64 data) offsets) \<and>
          length offsets = length xs \<and>
          (\<forall>i<length xs.
             distinct (array_row data offsets i) \<and>
             (cut_by_repeat_or_fixed_sentinel (parent_of dict) (word_of_int (xs ! i)) \<longrightarrow>
                array_row data offsets i =
                  map uint (ancestor_chain (parent_of dict) (word_of_int (xs ! i)) [])) \<and>
             (parent_of dict 5 = 7 \<and> parent_of dict 7 = 5 \<and> xs ! i = 5 \<longrightarrow>
                array_row data offsets i = [5, 7])))) \<and>
     (column (arguments ! 1) = ColumnConst (ColumnVector TUInt64 [x]) n \<longrightarrow>
        FunctionDictGetHierarchy_executeImpl dictionaries arguments result_type input_rows_count =
          Inr (createColumnConst_Array n (ancestor_chain (parent_of dict) (word_of_int x) [])) \<and>
        distinct (ancestor_chain (parent_of dict) (word_of_int x) []) \<and>
        (parent_of dict 5 = 7 \<and> parent_of dict 7 = 5 \<and> x = 5 \<longrightarrow>
           ancestor_chain (parent_of dict) (word_of_int x) [] = [5, 7]))"
proof (intro conjI impI)
  assume v: "column (arguments ! 1) = ColumnVector TUInt64 xs"
  let ?parent = "parent_of dict" and ?ids = "UInt64_data xs"
  have ids: "length ?ids = length xs" "\<And>i. i < length xs \<Longrightarrow> ?ids ! i = word_of_int (xs ! i)"
    by (simp_all add: UInt64_data_def)
  from get_hierarchies_rows[of ?parent ?ids] obtain hs where
    g: "get_hierarchies ?parent ?ids = Some (concat hs, chain_ends hs)"
    and len: "length hs = length xs"
    and rows: "\<forall>i<length xs. distinct (hs ! i) \<and> 0 \<notin> set (hs ! i) \<and>
           (cut_by_repeat_or_fixed_sentinel ?parent (?ids ! i) \<longrightarrow>
              hs ! i = ancestor_chain ?parent (?ids ! i) [])"
    unfolding ids(1) by blast
  have e: "FunctionDictGetHierarchy_executeImpl dictionaries arguments result_type input_rows_count =
      Inr (ColumnArray (ColumnVector TUInt64 (map uint (concat hs))) (chain_ends hs))"
    using assms v g by (rule FunctionDictGetHierarchy_executeImpl_walk(1))
  have "distinct (array_row (map uint (concat hs)) (chain_ends hs) i) \<and>
          (cut_by_repeat_or_fixed_sentinel ?parent (word_of_int (xs ! i)) \<longrightarrow>
             array_row (map uint (concat hs)) (chain_ends hs) i =
               map uint (ancestor_chain ?parent (word_of_int (xs ! i)) [])) \<and>
          (?parent 5 = 7 \<and> ?parent 7 = 5 \<and> xs ! i = 5 \<longrightarrow>
             array_row (map uint (concat hs)) (chain_ends hs) i = [5, 7])"
    if i: "i < length xs" for i
  proof -
    have r: "array_row (map uint (concat hs)) (chain_ends hs) i = map uint (hs ! i)"
      using i len by (simp add: array_row_map array_row_flatten)
    from rows i ids(2) have row: "distinct (hs ! i)"
      "cut_by_repeat_or_fixed_sentinel ?parent (word_of_int (xs ! i)) \<Longrightarrow>
         hs ! i = ancestor_chain ?parent (word_of_int (xs ! i)) []"
      by simp_all
    have "hs ! i = [5, 7]" if p: "?parent 5 = 7" "?parent 7 = 5" and k: "xs ! i = 5"
    proof -
      have c: "ancestor_chain ?parent 5 [] = [5, 7]" using p by (rule two_cycle_chain)
      then have "cut_by_repeat_or_fixed_sentinel ?parent (word_of_int (xs ! i))"
        using p k by (simp add: cut_by_repeat_or_fixed_sentinel_def)
      from row(2)[OF this] k c show ?thesis by simp
    qed
    then have "?parent 5 = 7 \<and> ?parent 7 = 5 \<and> xs ! i = 5 \<longrightarrow> map uint (hs ! i) = [5, 7]"
      by simp
    with row show ?thesis unfolding r by (simp add: distinct_map_uint)
  qed
  with e len show "\<exists>data offsets.
          FunctionDictGetHierarchy_executeImpl dictionaries arguments result_type input_rows_count =
            Inr (ColumnArray (ColumnVector TUInt64 data) offsets) \<and>
          length offsets = length xs \<and>
          (\<forall>i<length xs.
             distinct (array_row data offsets i) \<and>
             (cut_by_repeat_or_fixed_sentinel (parent_of dict) (word_of_int (xs ! i)) \<longrightarrow>
                array_row data offsets i =
                  map uint (ancestor_chain (parent_of dict) (word_of_int (xs ! i)) [])) \<and>
             (parent_of dict 5 = 7 \<and> parent_of dict 7 = 5 \<and> xs ! i = 5 \<longrightarrow>
                array_row data offsets i = [5, 7]))"
    by (intro exI[of _ "map uint (concat hs)"] exI[of _ "chain_ends hs"])
       (simp add: chain_ends_def)
next
  assume c: "column (arguments ! 1) = ColumnConst (ColumnVector TUInt64 [x]) n"
  show "FunctionDictGetHierarchy_executeImpl dictionaries arguments result_type input_rows_count =
          Inr (createColumnConst_Array n (ancestor_chain (parent_of dict) (word_of_int x) []))"
    using assms c by (rule FunctionDictGetHierarchy_executeImpl_walk(2))
next
  show "distinct (ancestor_chain (parent_of dict) (word_of_int x) [])"
    by (rule ancestor_chain_distinct)
next
  assume "parent_of dict 5 = 7 \<and> parent_of dict 7 = 5 \<and> x = 5"
  then show "ancestor_chain (parent_of dict) (word_of_int x) [] = [5, 7]"
    using two_cycle_chain[of "parent_of dict"] by simp
qed

theorem dictGetHierarchy_terminates_without_repeats_witness:
  "checkAndGetColumnConstString
     (column ([const_string ''loop'' 3, vector_number DataTypeUInt64 TUInt64 [5, 7, 0]] ! 0)) =
     Some (''loop'', 3) \<and>
   (0 :: nat) < 3 \<and>
   two_cycle_registry ''loop'' = Some two_cycle_dictionary \<and>
   dynamic_type two_cycle_dictionary \<in> {FlatDictionary, HashedDictionary, CacheDictionary} \<and>
   hasHierarchy two_cycle_dictionary \<and>
   column ([const_string ''loop'' 3, vector_number DataTypeUInt64 TUInt64 [5, 7, 0]] ! 1) =
     ColumnVector TUInt64 [5, 7, 0] \<and>
   parent_of two_cycle_dictionary 5 = 7 \<and> parent_of two_cycle_dictionary 7 = 5 \<and>
   cut_by_repeat_or_fixed_sentinel (parent_of two_cycle_dictionary) (word_of_int 5) \<and>
   FunctionDictGetHierarchy_executeImpl two_cycle_registry
     [const_string ''loop'' 3, vector_number DataTypeUInt64 TUInt64 [5, 7, 0]]
     (DataTypeArray DataTypeUInt64) 3 =
     Inr (ColumnArray (ColumnVector TUInt64 [5, 7, 7, 5]) [2, 4, 4]) \<and>
   distinct (array_row [5, 7, 7, 5 :: int] [2, 4, 4] 0) \<and>
   array_row [5, 7, 7, 5 :: int] [2, 4, 4] 0 =
     map uint (ancestor_chain (parent_of two_cycle_dictionary) (word_of_int 5) []) \<and>
   array_row [5, 7, 7, 5 :: int] [2, 4, 4] 0 = [5, 7] \<and>
   column ([const_string ''loop'' 3, const_number DataTypeUInt64 TUInt64 5 3] ! 1) =
     ColumnConst (ColumnVector TUInt64 [5]) 3 \<and>
   FunctionDictGetHierarchy_executeImpl two_cycle_registry
     [const_string ''loop'' 3, const_number DataTypeUInt64 TUInt64 5 3]
     (DataTypeArray DataTypeUInt64) 3 =
     Inr (ColumnConst (ColumnArray (ColumnVector TUInt64 [5, 7]) [2]) 3)"
proof -
  let ?args = "[const_string ''loop'' 3, vector_number DataTypeUInt64 TUInt64 [5, 7, 0]]"
  let ?cargs = "[const_string ''loop'' 3, const_number DataTypeUInt64 TUInt64 5 3]"
  have k: "dynamic_type two_cycle_dictionary \<in> {FlatDictionary, HashedDictionary, CacheDictionary}"
    by (simp add: two_cycle_dictionary_fields)
  have n: "(0 :: nat) < 3" by simp
  have h: "hasHierarchy two_cycle_dictionary" by (rule two_cycle_dictionary_fields)
  have p: "parent_of two_cycle_dictionary 5 = 7" "parent_of two_cycle_dictionary 7 = 5"
    by (simp_all add: two_cycle_dictionary_fields two_cycle_def)
  have v: "column (?args ! 1) = ColumnVector TUInt64 [5, 7, 0]"
    by (simp add: vector_number_def)
  have c: "column (?cargs ! 1) = ColumnConst (ColumnVector TUInt64 [5]) 3"
    by (simp add: const_number_def)
  have g: "get_hierarchies (parent_of two_cycle_dictionary) (UInt64_data [5, 7, 0]) =
      Some ([5, 7, 7, 5], [2, 4, 4])"
    using get_hierarchies_two_cycle by (simp add: two_cycle_dictionary_fields UInt64_data_def)
  have ev: "FunctionDictGetHierarchy_executeImpl two_cycle_registry ?args
      (DataTypeArray DataTypeUInt64) 3 =
      Inr (ColumnArray (ColumnVector TUInt64 [5, 7, 7, 5]) [2, 4, 4])"
    using FunctionDictGetHierarchy_executeImpl_walk(1)[where dictionaries = two_cycle_registry
        and dict = two_cycle_dictionary and arguments = ?args
        and result_type = "DataTypeArray DataTypeUInt64",
        OF first_is_loop n two_cycle_lookup k h v g]
    by simp
  from dictGetHierarchy_terminates_without_repeats[where dictionaries = two_cycle_registry
      and dict = two_cycle_dictionary and arguments = ?args
      and result_type = "DataTypeArray DataTypeUInt64" and xs = "[5, 7, 0]",
      OF first_is_loop n two_cycle_lookup k h, THEN conjunct1, rule_format, OF v]
  obtain data offsets where
    e: "FunctionDictGetHierarchy_executeImpl two_cycle_registry ?args
          (DataTypeArray DataTypeUInt64) 3 = Inr (ColumnArray (ColumnVector TUInt64 data) offsets)"
    and rows: "\<forall>i<length [5, 7, 0 :: int].
         distinct (array_row data offsets i) \<and>
         (cut_by_repeat_or_fixed_sentinel (parent_of two_cycle_dictionary)
            (word_of_int ([5, 7, 0] ! i)) \<longrightarrow>
            array_row data offsets i =
              map uint (ancestor_chain (parent_of two_cycle_dictionary)
                          (word_of_int ([5, 7, 0] ! i)) [])) \<and>
         (parent_of two_cycle_dictionary 5 = 7 \<and> parent_of two_cycle_dictionary 7 = 5 \<and>
            [5, 7, 0 :: int] ! i = 5 \<longrightarrow> array_row data offsets i = [5, 7])"
    by blast
  from e ev have d: "data = [5, 7, 7, 5]" "offsets = [2, 4, 4]" by simp_all
  have cut: "cut_by_repeat_or_fixed_sentinel (parent_of two_cycle_dictionary) (word_of_int 5)"
    using two_cycle_chain[of "parent_of two_cycle_dictionary", OF p] p
    by (simp add: cut_by_repeat_or_fixed_sentinel_def)
  from rows p cut have r: "distinct (array_row [5, 7, 7, 5 :: int] [2, 4, 4] 0)"
    "array_row [5, 7, 7, 5 :: int] [2, 4, 4] 0 =
       map uint (ancestor_chain (parent_of two_cycle_dictionary) (word_of_int 5) [])"
    "array_row [5, 7, 7, 5 :: int] [2, 4, 4] 0 = [5, 7]"
    unfolding d by (auto dest!: spec[of _ 0])
  have ec: "FunctionDictGetHierarchy_executeImpl two_cycle_registry ?cargs
      (DataTypeArray DataTypeUInt64) 3 =
      Inr (ColumnConst (ColumnArray (ColumnVector TUInt64 [5, 7]) [2]) 3)"
    using dictGetHierarchy_terminates_without_repeats[where dictionaries = two_cycle_registry
        and dict = two_cycle_dictionary and arguments = ?cargs
        and result_type = "DataTypeArray DataTypeUInt64" and x = 5 and n = 3,
        OF first_is_loop n two_cycle_lookup k h, THEN conjunct2, rule_format, OF c] p
    by (simp add: createColumnConst_Array_def)
  from first_is_loop[of 3 "[vector_number DataTypeUInt64 TUInt64 [5, 7, 0]]"]
    n two_cycle_lookup k h v p cut ev r c ec
  show ?thesis by blast
qed

text \<open>
  Claim C2. For a dictionary whose parent relation has the sentinel 0 (0 is its own parent)
  and is acyclic on the batch (every input identifier reaches 0 within \<open>m\<close> steps),
  dictGetHierarchy returns the array column whose flat \<^verbatim>\<open>UInt64\<close> buffer is the concatenation
  of the chains \<open>[id, parent(id), parent(parent(id)), ...]\<close>, each stopping before 0, and whose
  offsets are the cumulative ends of the rows; row \<open>i\<close> of that column is the chain of the
  \<open>i\<close>-th identifier, the empty chain when the identifier is 0. For a constant identifier
  column the result is the constant array of its chain.
\<close>

theorem dictGetHierarchy_acyclic:
  assumes "checkAndGetColumnConstString (column (arguments ! 0)) = Some (dict_name, s)"
    and "0 < input_rows_count"
    and "dictionaries dict_name = Some dict"
    and "dynamic_type dict \<in> {FlatDictionary, HashedDictionary, CacheDictionary}"
    and "hasHierarchy dict"
    and "parent_of dict 0 = 0"
  shows
    "(column (arguments ! 1) = ColumnVector TUInt64 xs \<and>
      (\<forall>k\<in>set (UInt64_data xs). (parent_of dict ^^ m) k = 0) \<longrightarrow>
        (let rows = map (chain_to_sentinel m (parent_of dict)) (UInt64_data xs) in
           FunctionDictGetHierarchy_executeImpl dictionaries arguments result_type input_rows_count =
             Inr (ColumnArray (ColumnVector TUInt64 (map uint (concat rows))) (chain_ends rows)) \<and>
           (\<forall>i<length xs.
              array_row (map uint (concat rows)) (chain_ends rows) i =
                map uint (chain_to_sentinel m (parent_of dict) (word_of_int (xs ! i))) \<and>
              (xs ! i = 0 \<longrightarrow> array_row (map uint (concat rows)) (chain_ends rows) i = [])))) \<and>
     (column (arguments ! 1) = ColumnConst (ColumnVector TUInt64 [x]) n \<and>
      (parent_of dict ^^ m) (word_of_int x) = 0 \<longrightarrow>
        FunctionDictGetHierarchy_executeImpl dictionaries arguments result_type input_rows_count =
          Inr (createColumnConst_Array n (chain_to_sentinel m (parent_of dict) (word_of_int x))))"
proof (intro conjI impI)
  assume a: "column (arguments ! 1) = ColumnVector TUInt64 xs \<and>
      (\<forall>k\<in>set (UInt64_data xs). (parent_of dict ^^ m) k = 0)"
  let ?parent = "parent_of dict" and ?ids = "UInt64_data xs"
  let ?rows = "map (chain_to_sentinel m ?parent) ?ids"
  have g: "get_hierarchies ?parent ?ids = Some (concat ?rows, chain_ends ?rows)"
    using get_hierarchies_chains[OF assms(6) conjunct2[OF a]] by simp
  have e: "FunctionDictGetHierarchy_executeImpl dictionaries arguments result_type input_rows_count =
      Inr (ColumnArray (ColumnVector TUInt64 (map uint (concat ?rows))) (chain_ends ?rows))"
    using assms(1-5) conjunct1[OF a] g by (rule FunctionDictGetHierarchy_executeImpl_walk(1))
  have z: "chain_to_sentinel m ?parent 0 = []" by (cases m) simp_all
  have "array_row (map uint (concat ?rows)) (chain_ends ?rows) i =
          map uint (chain_to_sentinel m ?parent (word_of_int (xs ! i))) \<and>
        (xs ! i = 0 \<longrightarrow> array_row (map uint (concat ?rows)) (chain_ends ?rows) i = [])"
    if "i < length xs" for i
    using that z by (simp add: array_row_map array_row_flatten UInt64_data_def)
  with e show "let rows = map (chain_to_sentinel m (parent_of dict)) (UInt64_data xs) in
           FunctionDictGetHierarchy_executeImpl dictionaries arguments result_type input_rows_count =
             Inr (ColumnArray (ColumnVector TUInt64 (map uint (concat rows))) (chain_ends rows)) \<and>
           (\<forall>i<length xs.
              array_row (map uint (concat rows)) (chain_ends rows) i =
                map uint (chain_to_sentinel m (parent_of dict) (word_of_int (xs ! i))) \<and>
              (xs ! i = 0 \<longrightarrow> array_row (map uint (concat rows)) (chain_ends rows) i = []))"
    unfolding Let_def by blast
next
  assume c: "column (arguments ! 1) = ColumnConst (ColumnVector TUInt64 [x]) n \<and>
      (parent_of dict ^^ m) (word_of_int x) = 0"
  have "ancestor_chain (parent_of dict) (word_of_int x) [] =
          chain_to_sentinel m (parent_of dict) (word_of_int x)"
    using assms(6) conjunct2[OF c] by (rule ancestor_chain_acyclic)
  with FunctionDictGetHierarchy_executeImpl_walk(2)[where dictionaries = dictionaries
      and dict = dict and arguments = arguments, OF assms(1-5) conjunct1[OF c]]
  show "FunctionDictGetHierarchy_executeImpl dictionaries arguments result_type input_rows_count =
          Inr (createColumnConst_Array n (chain_to_sentinel m (parent_of dict) (word_of_int x)))"
    by simp
qed

theorem dictGetHierarchy_acyclic_witness:
  "checkAndGetColumnConstString
     (column ([const_string ''geo'' 4, vector_number DataTypeUInt64 TUInt64 [100, 10, 0, 1]] ! 0)) =
     Some (''geo'', 4) \<and>
   (0 :: nat) < 4 \<and>
   geo_registry FlatDictionary True ''geo'' = Some (geo_dictionary FlatDictionary True) \<and>
   dynamic_type (geo_dictionary FlatDictionary True) \<in>
     {FlatDictionary, HashedDictionary, CacheDictionary} \<and>
   hasHierarchy (geo_dictionary FlatDictionary True) \<and>
   parent_of (geo_dictionary FlatDictionary True) 0 = 0 \<and>
   column ([const_string ''geo'' 4, vector_number DataTypeUInt64 TUInt64 [100, 10, 0, 1]] ! 1) =
     ColumnVector TUInt64 [100, 10, 0, 1] \<and>
   (parent_of (geo_dictionary FlatDictionary True) ^^ 3) 100 = 0 \<and>
   (parent_of (geo_dictionary FlatDictionary True) ^^ 3) 10 = 0 \<and>
   (parent_of (geo_dictionary FlatDictionary True) ^^ 3) 0 = 0 \<and>
   (parent_of (geo_dictionary FlatDictionary True) ^^ 3) 1 = 0 \<and>
   FunctionDictGetHierarchy_executeImpl (geo_registry FlatDictionary True)
     [const_string ''geo'' 4, vector_number DataTypeUInt64 TUInt64 [100, 10, 0, 1]]
     (DataTypeArray DataTypeUInt64) 4 =
     Inr (ColumnArray (ColumnVector TUInt64 [100, 10, 1, 10, 1, 1]) [3, 5, 5, 6]) \<and>
   column ([const_string ''geo'' 4, const_number DataTypeUInt64 TUInt64 100 4] ! 1) =
     ColumnConst (ColumnVector TUInt64 [100]) 4 \<and>
   FunctionDictGetHierarchy_executeImpl (geo_registry FlatDictionary True)
     [const_string ''geo'' 4, const_number DataTypeUInt64 TUInt64 100 4]
     (DataTypeArray DataTypeUInt64) 4 =
     Inr (ColumnConst (ColumnArray (ColumnVector TUInt64 [100, 10, 1]) [3]) 4)"
proof -
  let ?dict = "geo_dictionary FlatDictionary True"
  let ?args = "[const_string ''geo'' 4, vector_number DataTypeUInt64 TUInt64 [100, 10, 0, 1]]"
  let ?cargs = "[const_string ''geo'' 4, const_number DataTypeUInt64 TUInt64 100 4]"
  have k: "dynamic_type ?dict \<in> {FlatDictionary, HashedDictionary, CacheDictionary}"
    by (simp add: geo_kind)
  have n: "(0 :: nat) < 4" by simp
  have h: "hasHierarchy ?dict" by (simp add: geo_hierarchy)
  have pg: "parent_of ?dict = geo" by (simp add: geo_dictionary_def)
  have p0: "parent_of ?dict 0 = 0" by (simp add: pg geo_def)
  have v: "column (?args ! 1) = ColumnVector TUInt64 [100, 10, 0, 1]"
    by (simp add: vector_number_def)
  have c: "column (?cargs ! 1) = ColumnConst (ColumnVector TUInt64 [100]) 4"
    by (simp add: const_number_def)
  have reach: "\<forall>k\<in>set (UInt64_data [100, 10, 0, 1]). (parent_of ?dict ^^ 3) k = 0"
    using geo_reaches by (simp add: pg UInt64_data_def)
  have reach1: "(parent_of ?dict ^^ 3) (word_of_int 100) = 0"
    using geo_reaches by (simp add: pg)
  have rows: "map (chain_to_sentinel 3 (parent_of ?dict)) (UInt64_data [100, 10, 0, 1]) =
      [[100, 10, 1], [10, 1], [], [1]]"
    using geo_rows by (simp add: pg UInt64_data_def)
  have ev: "FunctionDictGetHierarchy_executeImpl (geo_registry FlatDictionary True) ?args
      (DataTypeArray DataTypeUInt64) 4 =
      Inr (ColumnArray (ColumnVector TUInt64 [100, 10, 1, 10, 1, 1]) [3, 5, 5, 6])"
    using dictGetHierarchy_acyclic[where dictionaries = "geo_registry FlatDictionary True"
        and dict = ?dict and arguments = ?args and result_type = "DataTypeArray DataTypeUInt64"
        and xs = "[100, 10, 0, 1]" and m = 3,
        OF first_is_geo n geo_lookup k h p0, THEN conjunct1, rule_format, OF conjI[OF v reach]]
    unfolding Let_def rows by (simp add: chain_ends_def upt_rec)
  have row1: "chain_to_sentinel 3 (parent_of ?dict) (word_of_int 100) = [100, 10, 1]"
    using geo_rows by (simp add: pg)
  have ec: "FunctionDictGetHierarchy_executeImpl (geo_registry FlatDictionary True) ?cargs
      (DataTypeArray DataTypeUInt64) 4 =
      Inr (ColumnConst (ColumnArray (ColumnVector TUInt64 [100, 10, 1]) [3]) 4)"
    using dictGetHierarchy_acyclic[where dictionaries = "geo_registry FlatDictionary True"
        and dict = ?dict and arguments = ?cargs and result_type = "DataTypeArray DataTypeUInt64"
        and x = 100 and n = 4 and m = 3,
        OF first_is_geo n geo_lookup k h p0, THEN conjunct2, rule_format, OF conjI[OF c reach1]]
    unfolding row1 by (simp add: createColumnConst_Array_def)
  have reaches: "(parent_of ?dict ^^ 3) 100 = 0" "(parent_of ?dict ^^ 3) 10 = 0"
    "(parent_of ?dict ^^ 3) 0 = 0" "(parent_of ?dict ^^ 3) 1 = 0"
    using geo_reaches by (simp_all add: pg)
  from first_is_geo[of 4 "[vector_number DataTypeUInt64 TUInt64 [100, 10, 0, 1]]"]
    n geo_lookup[of FlatDictionary True] k h p0 v reaches ev c ec
  show ?thesis by blast
qed

end
